(* ===== verification/Prelude.thy ===== *)
theory Prelude
  imports Complex_Main
begin

text \<open>
  Shared vocabulary of the svg-time-series development: the collections of
  simplification rules the component theories fill, the error type of the
  view-window mapper, and the generic lemmas on pairs, options and sums the
  component proofs share.
\<close>

named_theorems js_simps "evaluation rules of the JavaScript number model"
named_theorems ar1_simps "coefficient equations of the AR1 operations"

text \<open>
  A JavaScript \<open>Date\<close> holds a time value in milliseconds, or no value at
  all (an Invalid Date, whose \<open>getTime()\<close> is NaN).
\<close>

type_synonym ms = int
type_synonym date = "ms option"

text \<open>A pair of coefficients or reference points, as the source's \<open>[number, number]\<close>.\<close>

type_synonym 'n pair = "'n \<times> 'n"

text \<open>
  A d3 \<open>ZoomTransform\<close> \<open>{k, x, y}\<close>: the scale and the translation.
  \<open>toString()\<close> prints all three, so two transforms print alike exactly when
  they are equal.
\<close>

type_synonym zoom_transform = "real \<times> real \<times> real"

definition zt_k :: "zoom_transform \<Rightarrow> real" where
  "zt_k z = fst z"

definition zt_x :: "zoom_transform \<Rightarrow> real" where
  "zt_x z = fst (snd z)"

text \<open>Errors raised by the mapper of the view window (ViewWindow.thy).\<close>

datatype mapper_error = Uninitialized

subsection \<open>Generic lemmas\<close>

lemma div_affine_combine:
  fixes p q u d :: "'a::field"
  shows "p / d * u + q / d = (p * u + q) / d"
  by (simp add: add_divide_distrib)

end
