(* ===== verification/JSNumber.thy ===== *)
theory JSNumber
  imports Prelude
begin

text \<open>
  The values of JavaScript's \<open>number\<close> type that the program can produce:
  finite values, the two infinities and NaN. Arithmetic on finite values is
  exact (rounding is not modelled), and zero is the positive zero: every zero
  the source divides by is a difference \<open>x - x\<close>, which IEEE 754 makes
  \<open>+0\<close>. Division by zero, infinite operands and NaN behave as IEEE 754
  prescribes for these cases. The operators instantiate Isabelle's arithmetic
  classes, so that the AR1 operations, written once over a type variable, run
  on JavaScript numbers as well as on the reals.
\<close>

datatype jsnum = Num real | PosInf | NegInf | NaN

fun js_finite :: "jsnum \<Rightarrow> bool" where
  "js_finite (Num _) = True"
| "js_finite _ = False"

fun js_neg :: "jsnum \<Rightarrow> jsnum" where
  "js_neg (Num x) = Num (- x)"
| "js_neg PosInf = NegInf"
| "js_neg NegInf = PosInf"
| "js_neg NaN = NaN"

text \<open>Addition: an infinity absorbs finite values, opposite infinities give NaN.\<close>

fun js_add :: "jsnum \<Rightarrow> jsnum \<Rightarrow> jsnum" where
  "js_add (Num x) (Num y) = Num (x + y)"
| "js_add (Num _) b = b"
| "js_add a (Num _) = a"
| "js_add PosInf PosInf = PosInf"
| "js_add NegInf NegInf = NegInf"
| "js_add _ _ = NaN"

text \<open>The sign of an infinite result, from the sign of a finite factor.\<close>

definition js_signed :: "real \<Rightarrow> jsnum \<Rightarrow> jsnum" where
  "js_signed x v = (if x = 0 then NaN else if 0 < x then v else js_neg v)"

fun js_mul :: "jsnum \<Rightarrow> jsnum \<Rightarrow> jsnum" where
  "js_mul (Num x) (Num y) = Num (x * y)"
| "js_mul NaN _ = NaN"
| "js_mul _ NaN = NaN"
| "js_mul (Num x) b = js_signed x b"
| "js_mul a (Num y) = js_signed y a"
| "js_mul a b = (if a = b then PosInf else NegInf)"

text \<open>
  Division: a non-zero finite value over zero is an infinity of its sign,
  \<open>0 / 0\<close> is NaN, a finite value over an infinity is zero, an infinity over
  a finite value keeps or flips its sign, an infinity over an infinity is NaN.
\<close>

fun js_div :: "jsnum \<Rightarrow> jsnum \<Rightarrow> jsnum" where
  "js_div (Num x) (Num y) =
     (if y = 0 then js_signed x PosInf else Num (x / y))"
| "js_div NaN _ = NaN"
| "js_div _ NaN = NaN"
| "js_div (Num _) _ = Num 0"
| "js_div a (Num y) = (if 0 \<le> y then a else js_neg a)"
| "js_div _ _ = NaN"

instantiation jsnum :: "{zero, one, plus, uminus, minus, times, inverse}"
begin

definition zero_jsnum :: jsnum where "zero_jsnum = Num 0"
definition one_jsnum :: jsnum where "one_jsnum = Num 1"
definition plus_jsnum :: "jsnum \<Rightarrow> jsnum \<Rightarrow> jsnum" where "plus_jsnum = js_add"
definition uminus_jsnum :: "jsnum \<Rightarrow> jsnum" where "uminus_jsnum = js_neg"
definition minus_jsnum :: "jsnum \<Rightarrow> jsnum \<Rightarrow> jsnum" where
  "minus_jsnum a b = js_add a (js_neg b)"
definition times_jsnum :: "jsnum \<Rightarrow> jsnum \<Rightarrow> jsnum" where "times_jsnum = js_mul"
definition divide_jsnum :: "jsnum \<Rightarrow> jsnum \<Rightarrow> jsnum" where "divide_jsnum = js_div"
definition inverse_jsnum :: "jsnum \<Rightarrow> jsnum" where "inverse_jsnum x = js_div (Num 1) x"

instance ..

end

text \<open>
  The relational operators: every comparison with NaN is false
  (ECMAScript's abstract relational comparison).
\<close>

fun js_le :: "jsnum \<Rightarrow> jsnum \<Rightarrow> bool" where
  "js_le NaN _ = False"
| "js_le _ NaN = False"
| "js_le NegInf _ = True"
| "js_le _ PosInf = True"
| "js_le (Num x) (Num y) = (x \<le> y)"
| "js_le _ _ = False"

text \<open>\<open>isNaN\<close>, \<open>Math.min\<close> and \<open>Math.max\<close> on two arguments.\<close>

definition js_isNaN :: "jsnum \<Rightarrow> bool" where
  "js_isNaN x = (x = NaN)"

definition Math_min :: "jsnum \<Rightarrow> jsnum \<Rightarrow> jsnum" where
  "Math_min a b = (if a = NaN \<or> b = NaN then NaN else if js_le a b then a else b)"

definition Math_max :: "jsnum \<Rightarrow> jsnum \<Rightarrow> jsnum" where
  "Math_max a b = (if a = NaN \<or> b = NaN then NaN else if js_le a b then b else a)"

subsection \<open>Evaluation rules\<close>

lemma js_ops [simp, js_simps]:
  "Num x + Num y = Num (x + y)"
  "Num x - Num y = Num (x - y)"
  "Num x * Num y = Num (x * y)"
  "- Num x = Num (- x)"
  "(0::jsnum) = Num 0"
  "(1::jsnum) = Num 1"
  by (simp_all add: plus_jsnum_def minus_jsnum_def times_jsnum_def uminus_jsnum_def
      zero_jsnum_def one_jsnum_def)

lemma js_div_Num [simp, js_simps]:
  "y \<noteq> 0 \<Longrightarrow> Num x / Num y = Num (x / y)"
  by (simp add: divide_jsnum_def)

lemma js_div_zero [simp, js_simps]:
  "Num x / Num 0 = (if x = 0 then NaN else if 0 < x then PosInf else NegInf)"
  by (simp add: divide_jsnum_def js_signed_def)

lemma js_NaN_absorbs [simp, js_simps]:
  "NaN + a = NaN" "a + NaN = NaN" "NaN * a = NaN" "a * NaN = NaN"
  "NaN / a = NaN" "a / NaN = NaN" "- NaN = NaN"
  by (cases a; simp add: plus_jsnum_def times_jsnum_def divide_jsnum_def uminus_jsnum_def)+

lemma js_neg_inf [simp, js_simps]:
  "- PosInf = NegInf" "- NegInf = PosInf"
  by (simp_all add: uminus_jsnum_def)

lemma js_finite_iff: "js_finite x \<longleftrightarrow> (\<exists>r. x = Num r)"
  by (cases x) auto

lemma js_neg_finite [simp]: "js_finite (- x) = js_finite x"
  by (cases x) (auto simp: uminus_jsnum_def)

text \<open>A sum or product with a non-finite operand is not finite.\<close>

lemma js_add_nonfinite [js_simps]:
  "\<not> js_finite a \<Longrightarrow> \<not> js_finite (a + b)"
  "\<not> js_finite b \<Longrightarrow> \<not> js_finite (a + b)"
  by (cases a; cases b; simp add: plus_jsnum_def)+

lemma js_mul_nonfinite [js_simps]:
  "\<not> js_finite a \<Longrightarrow> \<not> js_finite (a * b)"
  "\<not> js_finite b \<Longrightarrow> \<not> js_finite (a * b)"
  by (cases a; cases b; simp add: times_jsnum_def js_signed_def)+

lemma js_div_by_zero_nonfinite [js_simps]:
  "\<not> js_finite (a / Num 0)"
  by (cases a) (simp_all add: divide_jsnum_def js_signed_def)

subsection \<open>Order of JavaScript numbers\<close>

text \<open>Off NaN, \<open><=\<close> is a total order with \<open>-Infinity\<close> least and \<open>Infinity\<close> greatest.\<close>

lemma js_le_refl: "x \<noteq> NaN \<Longrightarrow> js_le x x"
  by (cases x) simp_all

lemma js_le_trans: "js_le x y \<Longrightarrow> js_le y z \<Longrightarrow> js_le x z"
  by (cases x; cases y; cases z) auto

lemma js_le_total: "x \<noteq> NaN \<Longrightarrow> y \<noteq> NaN \<Longrightarrow> js_le x y \<or> js_le y x"
  by (cases x; cases y) auto

lemma Math_min_max_NaN [simp]:
  "(Math_min x y = NaN) = (x = NaN \<or> y = NaN)" "(Math_max x y = NaN) = (x = NaN \<or> y = NaN)"
  by (auto simp: Math_min_def Math_max_def)

lemma Math_min_le:
  "x \<noteq> NaN \<Longrightarrow> y \<noteq> NaN \<Longrightarrow> js_le (Math_min x y) x \<and> js_le (Math_min x y) y"
  using js_le_total [of x y] by (auto simp: Math_min_def intro: js_le_refl)

lemma Math_max_ge:
  "x \<noteq> NaN \<Longrightarrow> y \<noteq> NaN \<Longrightarrow> js_le x (Math_max x y) \<and> js_le y (Math_max x y)"
  using js_le_total [of x y] by (auto simp: Math_max_def intro: js_le_refl)

end
