(* ===== verification/AR1.thy ===== *)
theory AR1
  imports JSNumber
begin

text \<open>
  The affine automorphisms of the number line and their bases
  (src/viewZoomTransform.ts). Every operation is written once, over a type
  variable \<open>'n\<close> of numbers with the operators the TypeScript uses; it is
  instantiated at \<open>real\<close> (exact arithmetic, where the algebraic laws are
  proved) and at \<open>jsnum\<close> (JavaScript numbers with infinities and NaN, where
  the degenerate cases are studied).
\<close>

subsection \<open>The class AR1 and the bases\<close>

text \<open>\<open>class AR1 { m: [number, number] }\<close>: the map \<open>x' = x * m[0] + m[1]\<close>.\<close>

record 'n AR1 =
  m :: "'n pair"

definition composeWith :: "('n::{times, plus}) AR1 \<Rightarrow> 'n AR1 \<Rightarrow> 'n AR1" where
  "composeWith this a2 =
     (case m this of (a0, b0) \<Rightarrow>
       case m a2 of (a1, b1) \<Rightarrow> \<lparr>m = (a0 * a1, b0 * a1 + b1)\<rparr>)"

definition inverse_AR1 :: "('n::{one, uminus, inverse}) AR1 \<Rightarrow> 'n AR1" where
  "inverse_AR1 this = (case m this of (a, b) \<Rightarrow> \<lparr>m = (1 / a, (- b) / a)\<rparr>)"

definition applyToPoint :: "('n::{times, plus}) AR1 \<Rightarrow> 'n \<Rightarrow> 'n" where
  "applyToPoint this p = (case m this of (a, b) \<Rightarrow> a * p + b)"

text \<open>
  \<open>betweenBasesAR1(b1, b2)\<close>: the transform carrying the first point of
  \<open>b1\<close> to the first of \<open>b2\<close> and the second to the second. JavaScript's
  unary minus binds tighter than \<open>/\<close>, as written out here.
\<close>

definition betweenBasesAR1 ::
  "('n::{minus, times, uminus, inverse}) pair \<Rightarrow> 'n pair \<Rightarrow> 'n AR1" where
  "betweenBasesAR1 b1 b2 =
     (case b1 of (b11, b12) \<Rightarrow>
       case b2 of (b21, b22) \<Rightarrow>
         \<lparr>m = ((b21 - b22) / (b11 - b12), (- (b12 * b21 - b11 * b22)) / (b11 - b12))\<rparr>)"

text \<open>\<open>class AR1Basis { p1, p2 }\<close>, built by \<open>new AR1Basis(pp1, pp2)\<close>.\<close>

record 'n AR1Basis =
  p1 :: 'n
  p2 :: 'n

definition toArr :: "'n AR1Basis \<Rightarrow> 'n pair" where
  "toArr this = (p1 this, p2 this)"

definition transformWith :: "('n::{times, plus}) AR1Basis \<Rightarrow> 'n AR1 \<Rightarrow> 'n AR1Basis" where
  "transformWith this transform =
     \<lparr>p1 = applyToPoint transform (p1 this), p2 = applyToPoint transform (p2 this)\<rparr>"

definition bUnit :: "('n::{zero, one}) AR1Basis" where
  "bUnit = \<lparr>p1 = 0, p2 = 1\<rparr>"

definition bPlaceholder :: "('n::{zero, one}) AR1Basis" where
  "bPlaceholder = bUnit"

definition betweenTBasesAR1 ::
  "('n::{minus, times, uminus, inverse}) AR1Basis \<Rightarrow> 'n AR1Basis \<Rightarrow> 'n AR1" where
  "betweenTBasesAR1 b1 b2 = betweenBasesAR1 (toArr b1) (toArr b2)"

text \<open>
  The abstract meaning of an AR1: the function it denotes. The invariant of
  the type is that the scale is not zero (an automorphism, per the source's
  comment).
\<close>

definition ar1_fun :: "('n::{times, plus}) AR1 \<Rightarrow> 'n \<Rightarrow> 'n" where
  "ar1_fun t = applyToPoint t"

definition ar1_wf :: "('n::zero) AR1 \<Rightarrow> bool" where
  "ar1_wf t = (fst (m t) \<noteq> 0)"

definition identity_AR1 :: "('n::{zero, one}) AR1" where
  "identity_AR1 = \<lparr>m = (1, 0)\<rparr>"

text \<open>Reading a real transform as one of JavaScript numbers.\<close>

definition to_js :: "real AR1 \<Rightarrow> jsnum AR1" where
  "to_js t = \<lparr>m = (Num (fst (m t)), Num (snd (m t)))\<rparr>"

subsection \<open>Coefficient equations\<close>

lemma AR1_eta: "t = \<lparr>m = (fst (m t), snd (m t))\<rparr>"
  by simp

lemma composeWith_m [simp, ar1_simps]:
  "m (composeWith t u) = (fst (m t) * fst (m u), snd (m t) * fst (m u) + snd (m u))"
  by (simp add: composeWith_def split: prod.splits)

lemma inverse_AR1_m [simp, ar1_simps]:
  "m (inverse_AR1 t) = (1 / fst (m t), (- snd (m t)) / fst (m t))"
  by (simp add: inverse_AR1_def split: prod.splits)

lemma applyToPoint_eq [simp, ar1_simps]:
  "applyToPoint t p = fst (m t) * p + snd (m t)"
  by (simp add: applyToPoint_def split: prod.splits)

lemma betweenBasesAR1_m [simp, ar1_simps]:
  "m (betweenBasesAR1 (b11, b12) (b21, b22)) =
     ((b21 - b22) / (b11 - b12), (- (b12 * b21 - b11 * b22)) / (b11 - b12))"
  by (simp add: betweenBasesAR1_def)

lemma betweenTBasesAR1_eq [simp]:
  "betweenTBasesAR1 b1 b2 = betweenBasesAR1 (p1 b1, p2 b1) (p1 b2, p2 b2)"
  by (simp add: betweenTBasesAR1_def toArr_def)

lemma AR1_eqI: "m s = m t \<Longrightarrow> s = (t :: 'n AR1)"
  by simp

lemma AR1_eq_iff: "(s = (t :: 'n AR1)) \<longleftrightarrow> fst (m s) = fst (m t) \<and> snd (m s) = snd (m t)"
  by (auto simp: prod_eq_iff)

lemma transformWith_p [simp]:
  "p1 (transformWith b t) = applyToPoint t (p1 b)"
  "p2 (transformWith b t) = applyToPoint t (p2 b)"
  by (simp_all add: transformWith_def)

lemma transformWith_composeWith:
  "transformWith b (composeWith t1 t2) = transformWith (transformWith b t1) (t2 :: 'n::comm_ring AR1)"
  by (simp add: transformWith_def algebra_simps)

lemmas ar1_field_simps = ar1_simps AR1_eq_iff field_simps

subsection \<open>Composition\<close>

text \<open>
  \<open>t1.composeWith(t2)\<close> applies \<open>t1\<close> first and \<open>t2\<close> second: the
  composed map is \<open>t2 \<circ> t1\<close>, not \<open>t1 \<circ> t2\<close>.
\<close>

lemma applyToPoint_composeWith:
  "applyToPoint (composeWith t1 t2) x = applyToPoint t2 (applyToPoint t1 (x::'n::comm_ring))"
  by (simp add: algebra_simps)

lemma composeWith_assoc:
  "composeWith (composeWith t1 t2) t3 = composeWith t1 (composeWith t2 (t3 :: 'n::comm_ring AR1))"
  by (simp add: AR1_eq_iff algebra_simps)

lemma composeWith_identity:
  "composeWith identity_AR1 t = (t :: 'n::comm_ring_1 AR1)"
  "composeWith t identity_AR1 = t"
  by (simp_all add: identity_AR1_def AR1_eq_iff)

lemma ar1_wf_composeWith:
  "ar1_wf t1 \<Longrightarrow> ar1_wf t2 \<Longrightarrow> ar1_wf (composeWith t1 (t2 :: 'n::{comm_ring, ring_no_zero_divisors} AR1))"
  by (simp add: ar1_wf_def)

subsection \<open>Inversion\<close>

lemma inverse_AR1_composeWith:
  assumes "ar1_wf (t :: 'n::field AR1)"
  shows "composeWith t (inverse_AR1 t) = identity_AR1"
    and "composeWith (inverse_AR1 t) t = identity_AR1"
  using assms by (simp_all add: ar1_wf_def identity_AR1_def AR1_eq_iff field_simps)

lemma ar1_wf_inverse_AR1:
  "ar1_wf (t :: 'n::field AR1) \<Longrightarrow> ar1_wf (inverse_AR1 t)"
  by (simp add: ar1_wf_def)

lemma inverse_AR1_inverse_AR1:
  "ar1_wf (t :: 'n::field AR1) \<Longrightarrow> inverse_AR1 (inverse_AR1 t) = t"
  by (simp add: ar1_wf_def AR1_eq_iff field_simps)

lemma applyToPoint_inverse_AR1:
  assumes "ar1_wf (t :: 'n::field AR1)"
  shows "applyToPoint (inverse_AR1 t) (applyToPoint t x) = x"
    and "applyToPoint t (applyToPoint (inverse_AR1 t) x) = x"
  using assms by (simp_all add: ar1_wf_def field_simps)

subsection \<open>Solving between two bases\<close>

lemma betweenBasesAR1_maps:
  fixes b11 b12 b21 b22 :: "'n::field"
  assumes "b11 \<noteq> b12"
  shows "applyToPoint (betweenBasesAR1 (b11, b12) (b21, b22)) b11 = b21"
    and "applyToPoint (betweenBasesAR1 (b11, b12) (b21, b22)) b12 = b22"
proof -
  have d: "b11 - b12 \<noteq> 0" using assms by simp
  have e1: "(b21 - b22) * b11 + - (b12 * b21 - b11 * b22) = b21 * (b11 - b12)"
    and e2: "(b21 - b22) * b12 + - (b12 * b21 - b11 * b22) = b22 * (b11 - b12)"
    by (simp_all add: algebra_simps)
  have "applyToPoint (betweenBasesAR1 (b11, b12) (b21, b22)) b11 =
      ((b21 - b22) * b11 + - (b12 * b21 - b11 * b22)) / (b11 - b12)"
    by (simp only: applyToPoint_eq betweenBasesAR1_m fst_conv snd_conv div_affine_combine)
  also have "\<dots> = b21" using d by (subst e1) simp
  finally show "applyToPoint (betweenBasesAR1 (b11, b12) (b21, b22)) b11 = b21" .
  have "applyToPoint (betweenBasesAR1 (b11, b12) (b21, b22)) b12 =
      ((b21 - b22) * b12 + - (b12 * b21 - b11 * b22)) / (b11 - b12)"
    by (simp only: applyToPoint_eq betweenBasesAR1_m fst_conv snd_conv div_affine_combine)
  also have "\<dots> = b22" using d by (subst e2) simp
  finally show "applyToPoint (betweenBasesAR1 (b11, b12) (b21, b22)) b12 = b22" .
qed

text \<open>An affine map is determined by the images of two distinct points.\<close>

lemma ar1_unique:
  fixes s t :: "'n::field AR1"
  assumes "x \<noteq> y"
    and "applyToPoint s x = applyToPoint t x" and "applyToPoint s y = applyToPoint t y"
  shows "s = t"
proof -
  have "fst (m s) * x + snd (m s) - (fst (m s) * y + snd (m s)) =
        fst (m t) * x + snd (m t) - (fst (m t) * y + snd (m t))"
    using assms(2,3) by simp
  then have "(fst (m s) - fst (m t)) * (x - y) = 0"
    by (simp add: algebra_simps)
  then have a: "fst (m s) = fst (m t)" using assms(1) by simp
  then have "snd (m s) = snd (m t)" using assms(2) by simp
  with a show ?thesis by (simp add: AR1_eq_iff)
qed

text \<open>
  C3: The solved transform carries the first basis onto the second, and it is the
  only AR1 that does: \<open>betweenTBasesAR1\<close> inverts \<open>transformWith\<close>.
\<close>

theorem betweenTBasesAR1_characterisation:
  fixes b1 b2 :: "'n::field AR1Basis" and t :: "'n AR1"
  assumes "p1 b1 \<noteq> p2 b1"
  shows "transformWith b1 t = b2 \<longleftrightarrow> t = betweenTBasesAR1 b1 b2"
proof
  assume h: "transformWith b1 t = b2"
  have "applyToPoint t (p1 b1) = applyToPoint (betweenTBasesAR1 b1 b2) (p1 b1)"
    and "applyToPoint t (p2 b1) = applyToPoint (betweenTBasesAR1 b1 b2) (p2 b1)"
    using h [symmetric] betweenBasesAR1_maps [OF assms, of "p1 b2" "p2 b2"] by auto
  with assms show "t = betweenTBasesAR1 b1 b2" by (rule ar1_unique)
next
  assume "t = betweenTBasesAR1 b1 b2"
  then show "transformWith b1 t = b2"
    using betweenBasesAR1_maps [OF assms, of "p1 b2" "p2 b2"] by simp
qed

text \<open>
  C24: Swapping the points of both bases consistently gives the same transform
  (the source's comment: \<open>betweenBasesAR1([212, 32], [100, 0])\<close> is
  \<open>betweenBasesAR1([32, 212], [0, 100])\<close>).
\<close>

theorem betweenBasesAR1_swap:
  fixes p q r s :: "'n::field"
  shows "betweenBasesAR1 (p, q) (r, s) = betweenBasesAR1 (q, p) (s, r)"
proof -
  have "(r - s) / (p - q) = (s - r) / (q - p)"
    by (metis minus_diff_eq minus_divide_divide)
  moreover have "(- (q * r - p * s)) / (p - q) = (- (p * s - q * r)) / (q - p)"
    by (metis minus_diff_eq minus_divide_divide)
  ultimately show ?thesis by (simp add: AR1_eq_iff)
qed

text \<open>Solving through an intermediate basis composes.\<close>

theorem betweenTBasesAR1_compose:
  fixes b1 b2 b3 :: "'n::field AR1Basis"
  assumes "p1 b1 \<noteq> p2 b1" and "p1 b2 \<noteq> p2 b2"
  shows "composeWith (betweenTBasesAR1 b1 b2) (betweenTBasesAR1 b2 b3) = betweenTBasesAR1 b1 b3"
proof -
  let ?t = "composeWith (betweenTBasesAR1 b1 b2) (betweenTBasesAR1 b2 b3)"
  have "transformWith b1 (betweenTBasesAR1 b1 b2) = b2"
    using betweenTBasesAR1_characterisation [OF assms(1)] by simp
  moreover have "transformWith b2 (betweenTBasesAR1 b2 b3) = b3"
    using betweenTBasesAR1_characterisation [OF assms(2)] by simp
  ultimately have "transformWith b1 ?t = b3"
    by (simp only: transformWith_composeWith)
  then show ?thesis using betweenTBasesAR1_characterisation [OF assms(1)] by simp
qed

lemma ar1_wf_betweenTBasesAR1:
  fixes b1 b2 :: "'n::field AR1Basis"
  assumes "p1 b1 \<noteq> p2 b1"
  shows "ar1_wf (betweenTBasesAR1 b1 b2) \<longleftrightarrow> p1 b2 \<noteq> p2 b2"
  using assms by (simp add: ar1_wf_def)

text \<open>The transform solved the other way round is the inverse.\<close>

theorem inverse_betweenTBasesAR1:
  fixes b1 b2 :: "'n::field AR1Basis"
  assumes "p1 b1 \<noteq> p2 b1" and "p1 b2 \<noteq> p2 b2"
  shows "inverse_AR1 (betweenTBasesAR1 b1 b2) = betweenTBasesAR1 b2 b1"
proof -
  let ?t = "betweenTBasesAR1 b1 b2"
  have wf: "ar1_wf ?t" using ar1_wf_betweenTBasesAR1 [OF assms(1)] assms(2) by simp
  have "transformWith b1 ?t = b2"
    using betweenTBasesAR1_characterisation [OF assms(1)] by simp
  then have "transformWith b2 (inverse_AR1 ?t) = transformWith b1 (composeWith ?t (inverse_AR1 ?t))"
    by (simp only: transformWith_composeWith)
  also have "\<dots> = b1"
    using inverse_AR1_composeWith(1) [OF wf] composeWith_identity(2) [of identity_AR1]
    by (simp add: transformWith_def identity_AR1_def)
  finally show ?thesis using betweenTBasesAR1_characterisation [OF assms(2)] by simp
qed

subsection \<open>The abstract specification: AR1 values denote affine functions\<close>

text \<open>
  C1: \<open>composeWith\<close> refines composition of the denoted functions, in the
  order "this first, then the argument".
\<close>

theorem ar1_fun_composeWith:
  "ar1_fun (composeWith t1 t2) = ar1_fun t2 \<circ> ar1_fun (t1 :: 'n::comm_ring AR1)"
  by (simp add: ar1_fun_def fun_eq_iff applyToPoint_composeWith del: applyToPoint_eq)

text \<open>C2: \<open>inverse()\<close> refines the inverse function, for a non-degenerate transform.\<close>

theorem ar1_fun_inverse_AR1:
  assumes "ar1_wf (t :: 'n::field AR1)"
  shows "ar1_fun (inverse_AR1 t) = inv (ar1_fun t)"
proof (rule inv_unique_comp [symmetric])
  show "ar1_fun t \<circ> ar1_fun (inverse_AR1 t) = id"
    using applyToPoint_inverse_AR1(2) [OF assms] by (simp add: ar1_fun_def fun_eq_iff del: applyToPoint_eq)
  show "ar1_fun (inverse_AR1 t) \<circ> ar1_fun t = id"
    using applyToPoint_inverse_AR1(1) [OF assms] by (simp add: ar1_fun_def fun_eq_iff del: applyToPoint_eq)
qed

text \<open>The non-degenerate transforms are closed under the operations.\<close>

theorem ar1_wf_preserved:
  fixes t u :: "'n::field AR1"
  assumes "ar1_wf t" and "ar1_wf u"
  shows "ar1_wf (composeWith t u) \<and> ar1_wf (inverse_AR1 t)"
  using assms by (simp add: ar1_wf_def)

subsection \<open>JavaScript numbers\<close>

lemma to_js_m [simp]: "m (to_js t) = (Num (fst (m t)), Num (snd (m t)))"
  by (simp add: to_js_def)

lemma js_sub_self: "x - x = (if js_finite x then Num 0 else (NaN :: jsnum))"
  by (cases x) (simp_all add: minus_jsnum_def plus_jsnum_def)

lemma js_composeWith: "composeWith (to_js t1) (to_js t2) = to_js (composeWith t1 t2)"
  by (simp add: AR1_eq_iff)

lemma js_applyToPoint: "applyToPoint (to_js t) (Num x) = Num (applyToPoint t x)"
  by simp

lemma js_inverse_AR1: "ar1_wf t \<Longrightarrow> inverse_AR1 (to_js t) = to_js (inverse_AR1 t)"
  by (simp add: AR1_eq_iff ar1_wf_def)

text \<open>
  On finite inputs and a non-degenerate source basis, the JavaScript
  computation of \<open>betweenBasesAR1\<close> is the exact one, finite.
\<close>

theorem betweenBasesAR1_js_refines:
  assumes "b11 \<noteq> b12"
  shows "betweenBasesAR1 (Num b11, Num b12) (Num b21, Num b22) =
           to_js (betweenBasesAR1 (b11, b12) (b21, b22))"
  using assms by (simp add: AR1_eq_iff)

text \<open>
  C38: A degenerate source basis (both points equal) gives two non-finite
  coefficients, whatever the points are: the code does not clamp or recover.
  The spec's example is \<open>solve((5,5),(0,1)) = (-Infinity, Infinity)\<close>.
\<close>

theorem betweenBasesAR1_degenerate_js:
  fixes p r s :: jsnum
  shows "\<not> js_finite (fst (m (betweenBasesAR1 (p, p) (r, s))))
       \<and> \<not> js_finite (snd (m (betweenBasesAR1 (p, p) (r, s))))
       \<and> betweenBasesAR1 (Num 5, Num 5) (Num 0, Num 1) = \<lparr>m = (NegInf, PosInf)\<rparr>"
proof (cases "js_finite p")
  case True
  then show ?thesis by (simp add: js_sub_self js_div_by_zero_nonfinite)
next
  case False
  then show ?thesis by (simp add: js_sub_self)
qed

text \<open>
  A transform with a non-finite coefficient maps every point to a non-finite
  value: a degenerate solve surfaces downstream instead of being masked.
\<close>

theorem applyToPoint_nonfinite_js:
  fixes t :: "jsnum AR1"
  assumes "\<not> js_finite (fst (m t)) \<or> \<not> js_finite (snd (m t))"
  shows "\<not> js_finite (applyToPoint t x)"
  using assms js_add_nonfinite js_mul_nonfinite by auto


text \<open>
  C40: \<open>inverse()\<close> has no guard: a zero scale does not fail, it yields an infinite
  scale and a non-finite offset.
\<close>

theorem inverse_AR1_zero_scale_js:
  "fst (m (inverse_AR1 \<lparr>m = (Num 0, b)\<rparr>)) = PosInf
   \<and> \<not> js_finite (snd (m (inverse_AR1 \<lparr>m = (Num 0, b)\<rparr>)))"
  by (simp add: js_div_by_zero_nonfinite)

text \<open>
  The source's worked example: the Fahrenheit points of freezing and boiling
  water onto the Celsius ones give \<open>x \<mapsto> 5/9 x - 160/9\<close>, which sends
  98.6 to 37, computed on JavaScript numbers.
\<close>

theorem fahrenheit_to_celsius_js:
  "betweenBasesAR1 (Num 32, Num 212) (Num 0, Num 100) = \<lparr>m = (Num (5 / 9), Num (- 160 / 9))\<rparr>
   \<and> applyToPoint (betweenBasesAR1 (Num 32, Num 212) (Num 0, Num 100)) (Num (986 / 10)) = Num 37"
  by (simp add: AR1_eq_iff)

text \<open>Solving from the unit basis reads the target basis as scale and offset.\<close>

theorem betweenTBasesAR1_bUnit:
  "betweenTBasesAR1 bUnit b = \<lparr>m = (p2 b - p1 b, p1 (b :: 'n::field AR1Basis))\<rparr>"
  by (simp add: bUnit_def AR1_eq_iff)

subsection \<open>Witnesses\<close>

text \<open>The hypotheses of the theorems above hold at concrete inputs.\<close>

theorem betweenTBasesAR1_characterisation_witness:
  "p1 (bUnit :: real AR1Basis) \<noteq> p2 bUnit
   \<and> (transformWith bUnit \<lparr>m = (2 :: real, 3)\<rparr> = \<lparr>p1 = 3, p2 = 5\<rparr>
        \<longleftrightarrow> \<lparr>m = (2 :: real, 3)\<rparr> = betweenTBasesAR1 bUnit \<lparr>p1 = 3 :: real, p2 = 5\<rparr>)"
proof -
  have h: "p1 (bUnit :: real AR1Basis) \<noteq> p2 bUnit" by (simp add: bUnit_def)
  show ?thesis
    using h betweenTBasesAR1_characterisation [OF h, of "\<lparr>m = (2, 3)\<rparr>" "\<lparr>p1 = 3, p2 = 5\<rparr>"]
    by simp
qed

theorem betweenTBasesAR1_compose_witness:
  "p1 (bUnit :: real AR1Basis) \<noteq> p2 bUnit \<and> (3 :: real) \<noteq> 5
   \<and> composeWith (betweenTBasesAR1 bUnit \<lparr>p1 = 3, p2 = 5\<rparr>)
        (betweenTBasesAR1 \<lparr>p1 = 3, p2 = 5\<rparr> \<lparr>p1 = 10, p2 = 20\<rparr>)
      = betweenTBasesAR1 bUnit \<lparr>p1 = 10 :: real, p2 = 20\<rparr>"
proof -
  have h1: "p1 (bUnit :: real AR1Basis) \<noteq> p2 bUnit" by (simp add: bUnit_def)
  have h2: "p1 \<lparr>p1 = 3 :: real, p2 = 5\<rparr> \<noteq> p2 \<lparr>p1 = 3 :: real, p2 = 5\<rparr>" by simp
  show ?thesis
    using h1 betweenTBasesAR1_compose [OF h1 h2, of "\<lparr>p1 = 10, p2 = 20\<rparr>"] by simp
qed

theorem inverse_betweenTBasesAR1_witness:
  "p1 (bUnit :: real AR1Basis) \<noteq> p2 bUnit \<and> (3 :: real) \<noteq> 5
   \<and> inverse_AR1 (betweenTBasesAR1 bUnit \<lparr>p1 = 3, p2 = 5\<rparr>)
      = betweenTBasesAR1 \<lparr>p1 = 3, p2 = 5\<rparr> (bUnit :: real AR1Basis)"
proof -
  have h1: "p1 (bUnit :: real AR1Basis) \<noteq> p2 bUnit" by (simp add: bUnit_def)
  have h2: "p1 \<lparr>p1 = 3 :: real, p2 = 5\<rparr> \<noteq> p2 \<lparr>p1 = 3 :: real, p2 = 5\<rparr>" by simp
  show ?thesis using h1 inverse_betweenTBasesAR1 [OF h1 h2] by simp
qed

theorem ar1_fun_inverse_AR1_witness:
  "ar1_wf \<lparr>m = (2 :: real, 3)\<rparr>
   \<and> ar1_fun (inverse_AR1 \<lparr>m = (2 :: real, 3)\<rparr>) = inv (ar1_fun \<lparr>m = (2, 3)\<rparr>)"
proof -
  have h: "ar1_wf \<lparr>m = (2 :: real, 3)\<rparr>" by (simp add: ar1_wf_def)
  show ?thesis using h ar1_fun_inverse_AR1 [OF h] by simp
qed

theorem ar1_wf_preserved_witness:
  "ar1_wf \<lparr>m = (2 :: real, 3)\<rparr> \<and> ar1_wf \<lparr>m = (4 :: real, 1)\<rparr>
   \<and> ar1_wf (composeWith \<lparr>m = (2, 3)\<rparr> \<lparr>m = (4 :: real, 1)\<rparr>)
   \<and> ar1_wf (inverse_AR1 \<lparr>m = (2 :: real, 3)\<rparr>)"
proof -
  have h1: "ar1_wf \<lparr>m = (2 :: real, 3)\<rparr>" and h2: "ar1_wf \<lparr>m = (4 :: real, 1)\<rparr>"
    by (simp_all add: ar1_wf_def)
  show ?thesis using h1 h2 ar1_wf_preserved [OF h1 h2] by simp
qed

theorem betweenBasesAR1_js_refines_witness:
  "(32 :: real) \<noteq> 212
   \<and> betweenBasesAR1 (Num 32, Num 212) (Num 0, Num 100) = to_js (betweenBasesAR1 (32, 212) (0, 100))"
proof -
  have h: "(32 :: real) \<noteq> 212" by simp
  show ?thesis using h betweenBasesAR1_js_refines [OF h, of 0 100] by simp
qed

theorem applyToPoint_nonfinite_js_witness:
  "\<not> js_finite (fst (m \<lparr>m = (NaN, Num 0)\<rparr>))
   \<and> \<not> js_finite (applyToPoint \<lparr>m = (NaN, Num 0)\<rparr> (Num 1))"
proof -
  have h: "\<not> js_finite (fst (m \<lparr>m = (NaN, Num 0)\<rparr>)) \<or> \<not> js_finite (snd (m \<lparr>m = (NaN, Num 0)\<rparr>))"
    by simp
  show ?thesis using applyToPoint_nonfinite_js [OF h, of "Num 1"] by simp
qed

end
