(* ===== verification/SVGMatrix.thy ===== *)
theory SVGMatrix
  imports AR1
begin

text \<open>
  The adapter from an AR1 onto a 2D affine matrix of the rendering layer:
  \<open>AR1.applyToMatrixX\<close> and \<open>AR1.applyToMatrixY\<close>
  (src/viewZoomTransform.ts). The matrix type is the DOM's \<open>SVGMatrix\<close>, which
  is not part of the repository: it is modelled from its specification
  (SVG 1.1, the interface SVGMatrix): \<open>[a c e; b d f; 0 0 1]\<close>, with
  \<open>translate\<close> and \<open>scaleNonUniform\<close> post-multiplying, and a point
  transformed as a column vector.
\<close>

record 'n SVGMatrix =
  sm_a :: 'n
  sm_b :: 'n
  sm_c :: 'n
  sm_d :: 'n
  sm_e :: 'n
  sm_f :: 'n

definition multiply :: "('n::{plus, times}) SVGMatrix \<Rightarrow> 'n SVGMatrix \<Rightarrow> 'n SVGMatrix" where
  "multiply p q =
     \<lparr>sm_a = sm_a p * sm_a q + sm_c p * sm_b q,
      sm_b = sm_b p * sm_a q + sm_d p * sm_b q,
      sm_c = sm_a p * sm_c q + sm_c p * sm_d q,
      sm_d = sm_b p * sm_c q + sm_d p * sm_d q,
      sm_e = sm_a p * sm_e q + sm_c p * sm_f q + sm_e p,
      sm_f = sm_b p * sm_e q + sm_d p * sm_f q + sm_f p\<rparr>"

definition translate :: "('n::{zero, one, plus, times}) SVGMatrix \<Rightarrow> 'n \<Rightarrow> 'n \<Rightarrow> 'n SVGMatrix" where
  "translate sm x y = multiply sm \<lparr>sm_a = 1, sm_b = 0, sm_c = 0, sm_d = 1, sm_e = x, sm_f = y\<rparr>"

definition scaleNonUniform ::
  "('n::{zero, one, plus, times}) SVGMatrix \<Rightarrow> 'n \<Rightarrow> 'n \<Rightarrow> 'n SVGMatrix" where
  "scaleNonUniform sm sx sy = multiply sm \<lparr>sm_a = sx, sm_b = 0, sm_c = 0, sm_d = sy, sm_e = 0, sm_f = 0\<rparr>"

text \<open>\<open>SVGPoint.matrixTransform\<close>: the image of a point under the matrix.\<close>

definition transformPoint :: "('n::{plus, times}) SVGMatrix \<Rightarrow> 'n pair \<Rightarrow> 'n pair" where
  "transformPoint sm p =
     (case p of (x, y) \<Rightarrow> (sm_a sm * x + sm_c sm * y + sm_e sm, sm_b sm * x + sm_d sm * y + sm_f sm))"

definition identity_matrix :: "('n::{zero, one}) SVGMatrix" where
  "identity_matrix = \<lparr>sm_a = 1, sm_b = 0, sm_c = 0, sm_d = 1, sm_e = 0, sm_f = 0\<rparr>"

text \<open>
  \<open>applyToMatrixX(sm) = sm.translate(b, 0).scaleNonUniform(a, 1)\<close> and its
  \<open>Y\<close> counterpart: the translation is appended first, the scale second.
\<close>

definition applyToMatrixX ::
  "('n::{zero, one, plus, times}) AR1 \<Rightarrow> 'n SVGMatrix \<Rightarrow> 'n SVGMatrix" where
  "applyToMatrixX this sm = (case m this of (a, b) \<Rightarrow> scaleNonUniform (translate sm b 0) a 1)"

definition applyToMatrixY ::
  "('n::{zero, one, plus, times}) AR1 \<Rightarrow> 'n SVGMatrix \<Rightarrow> 'n SVGMatrix" where
  "applyToMatrixY this sm = (case m this of (a, b) \<Rightarrow> scaleNonUniform (translate sm 0 b) 1 a)"

subsection \<open>Matrix lemmas\<close>

lemma transformPoint_multiply:
  "transformPoint (multiply p q) v = transformPoint p (transformPoint q (v :: 'n::comm_ring pair))"
  by (cases v) (simp add: transformPoint_def multiply_def algebra_simps)

lemma applyToMatrixX_fields [simp]:
  "applyToMatrixX t (sm :: 'n::comm_ring_1 SVGMatrix) =
     \<lparr>sm_a = sm_a sm * fst (m t), sm_b = sm_b sm * fst (m t), sm_c = sm_c sm, sm_d = sm_d sm,
      sm_e = sm_a sm * snd (m t) + sm_e sm, sm_f = sm_b sm * snd (m t) + sm_f sm\<rparr>"
  by (simp add: applyToMatrixX_def scaleNonUniform_def translate_def multiply_def split: prod.splits)

lemma applyToMatrixY_fields [simp]:
  "applyToMatrixY t (sm :: 'n::comm_ring_1 SVGMatrix) =
     \<lparr>sm_a = sm_a sm, sm_b = sm_b sm, sm_c = sm_c sm * fst (m t), sm_d = sm_d sm * fst (m t),
      sm_e = sm_c sm * snd (m t) + sm_e sm, sm_f = sm_d sm * snd (m t) + sm_f sm\<rparr>"
  by (simp add: applyToMatrixY_def scaleNonUniform_def translate_def multiply_def split: prod.splits)

subsection \<open>What the adapter appends\<close>

text \<open>
  C9: The matrix \<open>applyToMatrixX\<close> returns maps a point \<open>(x, y)\<close> as the old
  matrix maps \<open>(a x + b, y)\<close>: it prepends the AR1 on the X axis to the
  matrix's map (and \<open>applyToMatrixY\<close> on the Y axis).
\<close>

theorem applyToMatrix_transformPoint:
  fixes t :: "'n::comm_ring_1 AR1" and sm :: "'n SVGMatrix"
  shows "transformPoint (applyToMatrixX t sm) (x, y) = transformPoint sm (applyToPoint t x, y)
       \<and> transformPoint (applyToMatrixY t sm) (x, y) = transformPoint sm (x, applyToPoint t y)"
  by (simp add: transformPoint_def algebra_simps)

text \<open>
  Appending two AR1s along the same axis appends their composition, the
  later one applied first to the point.
\<close>

theorem applyToMatrixX_composeWith:
  fixes t1 t2 :: "'n::comm_ring_1 AR1" and sm :: "'n SVGMatrix"
  shows "applyToMatrixX t2 (applyToMatrixX t1 sm) = applyToMatrixX (composeWith t2 t1) sm"
  by (simp add: algebra_simps)

text \<open>Appends along different axes commute.\<close>

theorem applyToMatrix_X_Y_commute:
  fixes tx ty :: "'n::comm_ring_1 AR1" and sm :: "'n SVGMatrix"
  shows "applyToMatrixY ty (applyToMatrixX tx sm) = applyToMatrixX tx (applyToMatrixY ty sm)"
  by simp

end
