(* ===== verification/ViewWindow.thy ===== *)
theory ViewWindow
  imports SVGMatrix
begin

text \<open>
  The view-window mapper (the spec's ViewportMapper; the repository imports it
  as \<open>ViewWindowTransform\<close> from a file that is not among its sources, so it is
  modelled from spec 3 and 4.3). Each axis keeps a screen basis (the viewport),
  a model basis (the window) and the two derived transforms; every setter
  recomputes them eagerly with \<open>betweenTBasesAR1(window, viewport)\<close> and its
  inverse, and rewrites the view's matrix. A conversion on an axis whose two
  bases are not both set fails with \<open>Uninitialized\<close>. Numbers are real here.
\<close>

datatype axis = X | Y

record axis_map =
  viewPort :: "real AR1Basis option"
  viewWindow :: "real AR1Basis option"
  toScreenT :: "real AR1 option"
  toModelT :: "real AR1 option"

record mapper =
  xAxis :: axis_map
  yAxis :: axis_map
  viewMatrix :: "real SVGMatrix"

definition axis_init :: axis_map where
  "axis_init = \<lparr>viewPort = None, viewWindow = None, toScreenT = None, toModelT = None\<rparr>"

definition mapper_init :: mapper where
  "mapper_init = \<lparr>xAxis = axis_init, yAxis = axis_init, viewMatrix = identity_matrix\<rparr>"

fun get_axis :: "mapper \<Rightarrow> axis \<Rightarrow> axis_map" where
  "get_axis mp X = xAxis mp"
| "get_axis mp Y = yAxis mp"

fun put_axis :: "axis \<Rightarrow> axis_map \<Rightarrow> mapper \<Rightarrow> mapper" where
  "put_axis X am mp = mp\<lparr>xAxis := am\<rparr>"
| "put_axis Y am mp = mp\<lparr>yAxis := am\<rparr>"

text \<open>The eager recomputation: model to screen, and its inverse.\<close>

definition axis_recompute :: "axis_map \<Rightarrow> axis_map" where
  "axis_recompute am =
     (case (viewPort am, viewWindow am) of
        (Some vp, Some w) \<Rightarrow>
          am\<lparr>toScreenT := Some (betweenTBasesAR1 w vp),
             toModelT := Some (inverse_AR1 (betweenTBasesAR1 w vp))\<rparr>
      | _ \<Rightarrow> am)"

text \<open>
  The view's matrix is rebuilt from the identity by appending the X transform
  and then the Y transform, once both axes are ready (the order does not matter:
  \<open>applyToMatrix_X_Y_commute\<close>).
\<close>

definition updateViewNode :: "mapper \<Rightarrow> mapper" where
  "updateViewNode mp =
     (case (toScreenT (xAxis mp), toScreenT (yAxis mp)) of
        (Some tx, Some ty) \<Rightarrow> mp\<lparr>viewMatrix := applyToMatrixY ty (applyToMatrixX tx identity_matrix)\<rparr>
      | _ \<Rightarrow> mp)"

definition setViewport :: "mapper \<Rightarrow> axis \<Rightarrow> real \<Rightarrow> real \<Rightarrow> mapper" where
  "setViewport mp ax minPixel maxPixel =
     updateViewNode (put_axis ax
       (axis_recompute ((get_axis mp ax)\<lparr>viewPort := Some \<lparr>p1 = minPixel, p2 = maxPixel\<rparr>\<rparr>)) mp)"

definition setWindow :: "mapper \<Rightarrow> axis \<Rightarrow> real \<Rightarrow> real \<Rightarrow> mapper" where
  "setWindow mp ax minModel maxModel =
     updateViewNode (put_axis ax
       (axis_recompute ((get_axis mp ax)\<lparr>viewWindow := Some \<lparr>p1 = minModel, p2 = maxModel\<rparr>\<rparr>)) mp)"

text \<open>The four-argument setter the benchmark calls: the X window, then the Y window.\<close>

definition setViewWindow :: "mapper \<Rightarrow> real \<Rightarrow> real \<Rightarrow> real \<Rightarrow> real \<Rightarrow> mapper" where
  "setViewWindow mp minX maxX minY maxY = setWindow (setWindow mp X minX maxX) Y minY maxY"

text \<open>
  The two-argument viewport setter draw.ts and the benchmark call,
  \<open>setViewPort(width, height)\<close>: the pixel ranges \<open>(0, width)\<close> on X and
  \<open>(0, height)\<close> on Y.
\<close>

definition setViewPort :: "mapper \<Rightarrow> real \<Rightarrow> real \<Rightarrow> mapper" where
  "setViewPort mp width height = setViewport (setViewport mp X 0 width) Y 0 height"

definition toScreen :: "mapper \<Rightarrow> axis \<Rightarrow> real \<Rightarrow> mapper_error + real" where
  "toScreen mp ax x =
     (case toScreenT (get_axis mp ax) of None \<Rightarrow> Inl Uninitialized | Some t \<Rightarrow> Inr (applyToPoint t x))"

definition toModel :: "mapper \<Rightarrow> axis \<Rightarrow> real \<Rightarrow> mapper_error + real" where
  "toModel mp ax x =
     (case toModelT (get_axis mp ax) of None \<Rightarrow> Inl Uninitialized | Some t \<Rightarrow> Inr (applyToPoint t x))"

text \<open>The model-space length of a screen offset: two conversions and a difference.\<close>

definition modelDelta :: "mapper \<Rightarrow> axis \<Rightarrow> real \<Rightarrow> mapper_error + real" where
  "modelDelta mp ax d =
     (case toModel mp ax d of
        Inl e \<Rightarrow> Inl e
      | Inr m1 \<Rightarrow> (case toModel mp ax 0 of Inl e \<Rightarrow> Inl e | Inr m0 \<Rightarrow> Inr (m1 - m0)))"

text \<open>\<open>fromScreenToModel(p)\<close> on a 2D point, one axis per coordinate.\<close>

definition fromScreenToModel :: "mapper \<Rightarrow> real pair \<Rightarrow> mapper_error + real pair" where
  "fromScreenToModel mp p =
     (case toModel mp X (fst p) of
        Inl e \<Rightarrow> Inl e
      | Inr mx \<Rightarrow> (case toModel mp Y (snd p) of Inl e \<Rightarrow> Inl e | Inr my \<Rightarrow> Inr (mx, my)))"

subsection \<open>The mapper as a state machine\<close>

datatype mapper_event = SetViewport axis real real | SetWindow axis real real

fun mapper_step :: "mapper \<Rightarrow> mapper_event \<Rightarrow> mapper" where
  "mapper_step mp (SetViewport ax lo hi) = setViewport mp ax lo hi"
| "mapper_step mp (SetWindow ax lo hi) = setWindow mp ax lo hi"

fun mapper_run :: "mapper \<Rightarrow> mapper_event list \<Rightarrow> mapper" where
  "mapper_run mp [] = mp"
| "mapper_run mp (e # es) = mapper_run (mapper_step mp e) es"

inductive mapper_reachable :: "mapper \<Rightarrow> bool" where
  init: "mapper_reachable mapper_init"
| step: "mapper_reachable mp \<Longrightarrow> mapper_reachable (mapper_step mp e)"

text \<open>An axis is Ready when both of its bases have been set.\<close>

definition axis_ready :: "axis_map \<Rightarrow> bool" where
  "axis_ready am = (viewPort am \<noteq> None \<and> viewWindow am \<noteq> None)"

text \<open>
  The invariant: the derived transforms are exactly the ones solved from the
  current bases (no stale transform is observable), and the view's matrix is
  the one built from the current transforms.
\<close>

definition axis_coherent :: "axis_map \<Rightarrow> bool" where
  "axis_coherent am =
     (toScreenT am = (case (viewPort am, viewWindow am) of
                        (Some vp, Some w) \<Rightarrow> Some (betweenTBasesAR1 w vp) | _ \<Rightarrow> None)
      \<and> toModelT am = map_option inverse_AR1 (toScreenT am))"

definition matrix_coherent :: "mapper \<Rightarrow> bool" where
  "matrix_coherent mp =
     (viewMatrix mp = (case (toScreenT (xAxis mp), toScreenT (yAxis mp)) of
        (Some tx, Some ty) \<Rightarrow> applyToMatrixY ty (applyToMatrixX tx identity_matrix)
      | _ \<Rightarrow> identity_matrix))"

definition mapper_coherent :: "mapper \<Rightarrow> bool" where
  "mapper_coherent mp =
     (axis_coherent (xAxis mp) \<and> axis_coherent (yAxis mp) \<and> matrix_coherent mp)"

subsection \<open>Frame lemmas\<close>

lemma get_put_axis [simp]:
  "get_axis (put_axis ax am mp) ax' = (if ax' = ax then am else get_axis mp ax')"
  by (cases ax; cases ax') simp_all

lemma put_axis_matrix [simp]: "viewMatrix (put_axis ax am mp) = viewMatrix mp"
  by (cases ax) simp_all

lemma put_axis_fields [simp]:
  "xAxis (put_axis ax am mp) = (if ax = X then am else xAxis mp)"
  "yAxis (put_axis ax am mp) = (if ax = Y then am else yAxis mp)"
  by (cases ax; simp)+

lemma updateViewNode_axes [simp]:
  "xAxis (updateViewNode mp) = xAxis mp" "yAxis (updateViewNode mp) = yAxis mp"
  "get_axis (updateViewNode mp) ax = get_axis mp ax"
  by (cases ax; simp add: updateViewNode_def split: option.splits)+

lemma axis_recompute_bases [simp]:
  "viewPort (axis_recompute am) = viewPort am" "viewWindow (axis_recompute am) = viewWindow am"
  by (simp_all add: axis_recompute_def split: option.splits)

lemma get_axis_cases: "P (get_axis mp ax) \<longleftrightarrow> (ax = X \<and> P (xAxis mp)) \<or> (ax = Y \<and> P (yAxis mp))"
  by (cases ax) simp_all

lemmas mapper_defs = setViewport_def setWindow_def

subsection \<open>Coherence is invariant\<close>

lemma axis_recompute_coherent:
  "axis_coherent (axis_recompute am) \<or> (viewPort am = None \<or> viewWindow am = None) \<and> axis_recompute am = am"
  by (auto simp: axis_recompute_def axis_coherent_def split: option.splits)

lemma axis_coherent_set:
  assumes "axis_coherent am"
  shows "axis_coherent (axis_recompute (am\<lparr>viewPort := Some b\<rparr>))"
    and "axis_coherent (axis_recompute (am\<lparr>viewWindow := Some b\<rparr>))"
  using assms by (auto simp: axis_recompute_def axis_coherent_def split: option.splits)

lemma axis_coherent_ready:
  "axis_coherent am \<Longrightarrow> (toScreenT am \<noteq> None) = axis_ready am"
  by (auto simp: axis_coherent_def axis_ready_def split: option.splits)

lemma axis_ready_set:
  "axis_ready am \<Longrightarrow> axis_ready (axis_recompute (am\<lparr>viewPort := Some b\<rparr>))"
  "axis_ready am \<Longrightarrow> axis_ready (axis_recompute (am\<lparr>viewWindow := Some b\<rparr>))"
  by (simp_all add: axis_ready_def)

lemma matrix_coherent_updateViewNode:
  assumes "toScreenT (xAxis mp) = None \<or> toScreenT (yAxis mp) = None \<longrightarrow> viewMatrix mp = identity_matrix"
  shows "matrix_coherent (updateViewNode mp)"
  using assms by (auto simp: updateViewNode_def matrix_coherent_def split: option.splits)

text \<open>Once both transforms exist the matrix is rebuilt; before, it is untouched.\<close>

lemma matrix_identity_before_ready:
  assumes "mapper_coherent mp" and "axis_coherent (xAxis mp')" and "axis_coherent (yAxis mp')"
    and "axis_ready (xAxis mp) \<longrightarrow> axis_ready (xAxis mp')"
    and "axis_ready (yAxis mp) \<longrightarrow> axis_ready (yAxis mp')"
    and "viewMatrix mp' = viewMatrix mp"
  shows "toScreenT (xAxis mp') = None \<or> toScreenT (yAxis mp') = None \<longrightarrow> viewMatrix mp' = identity_matrix"
  using assms axis_coherent_ready [of "xAxis mp"] axis_coherent_ready [of "yAxis mp"]
    axis_coherent_ready [of "xAxis mp'"] axis_coherent_ready [of "yAxis mp'"]
  by (auto simp: mapper_coherent_def matrix_coherent_def split: option.splits)

lemma mapper_step_coherent:
  assumes "mapper_coherent mp"
  shows "mapper_coherent (mapper_step mp e)"
proof -
  have ax: "axis_coherent (get_axis mp ax)" for ax
    using assms by (cases ax) (simp_all add: mapper_coherent_def)
  obtain ax am where e: "mapper_step mp e = updateViewNode (put_axis ax am mp)"
    and am: "axis_coherent am" and rd: "axis_ready (get_axis mp ax) \<longrightarrow> axis_ready am"
    using ax axis_coherent_set axis_ready_set
    by (cases e) (auto simp: mapper_defs)
  let ?mp' = "put_axis ax am mp"
  have "axis_coherent (xAxis ?mp')" "axis_coherent (yAxis ?mp')"
    using am ax [of X] ax [of Y] by simp_all
  moreover have "matrix_coherent (updateViewNode ?mp')"
    using matrix_identity_before_ready [OF assms calculation] rd
    by (intro matrix_coherent_updateViewNode) (cases ax; simp)
  ultimately show ?thesis using e by (simp add: mapper_coherent_def)
qed

lemma reachable_coherent: "mapper_reachable mp \<Longrightarrow> mapper_coherent mp"
proof (induction rule: mapper_reachable.induct)
  case init
  show ?case
    by (simp add: mapper_coherent_def mapper_init_def axis_coherent_def matrix_coherent_def axis_init_def)
next
  case (step mp e)
  from step.IH show ?case by (rule mapper_step_coherent)
qed

lemma reachable_axis_coherent: "mapper_reachable mp \<Longrightarrow> axis_coherent (get_axis mp ax)"
  using reachable_coherent by (cases ax) (auto simp: mapper_coherent_def)

subsection \<open>Conversions of a coherent axis\<close>

lemma toScreen_coherent:
  "axis_coherent (get_axis mp ax) \<Longrightarrow>
   toScreen mp ax x =
     (case (viewPort (get_axis mp ax), viewWindow (get_axis mp ax)) of
        (Some vp, Some w) \<Rightarrow> Inr (applyToPoint (betweenTBasesAR1 w vp) x)
      | _ \<Rightarrow> Inl Uninitialized)"
  by (simp add: toScreen_def axis_coherent_def del: applyToPoint_eq betweenTBasesAR1_eq
      split: option.splits)

lemma toModel_coherent:
  "axis_coherent (get_axis mp ax) \<Longrightarrow>
   toModel mp ax x =
     (case (viewPort (get_axis mp ax), viewWindow (get_axis mp ax)) of
        (Some vp, Some w) \<Rightarrow> Inr (applyToPoint (inverse_AR1 (betweenTBasesAR1 w vp)) x)
      | _ \<Rightarrow> Inl Uninitialized)"
  by (simp add: toModel_def axis_coherent_def del: applyToPoint_eq betweenTBasesAR1_eq
      split: option.splits)

lemma conversions_ready:
  assumes "axis_coherent (get_axis mp ax)"
    and "viewPort (get_axis mp ax) = Some vp" and "viewWindow (get_axis mp ax) = Some w"
  shows "toScreen mp ax x = Inr (applyToPoint (betweenTBasesAR1 w vp) x)"
    and "toModel mp ax x = Inr (applyToPoint (inverse_AR1 (betweenTBasesAR1 w vp)) x)"
  using toScreen_coherent [OF assms(1)] toModel_coherent [OF assms(1)] assms(2,3) by simp_all

lemma mapper_step_bases:
  "viewPort (get_axis (mapper_step mp e) ax) =
     (case e of SetViewport ax' lo hi \<Rightarrow> if ax' = ax then Some \<lparr>p1 = lo, p2 = hi\<rparr> else viewPort (get_axis mp ax)
      | SetWindow _ _ _ \<Rightarrow> viewPort (get_axis mp ax))"
  "viewWindow (get_axis (mapper_step mp e) ax) =
     (case e of SetWindow ax' lo hi \<Rightarrow> if ax' = ax then Some \<lparr>p1 = lo, p2 = hi\<rparr> else viewWindow (get_axis mp ax)
      | SetViewport _ _ _ \<Rightarrow> viewWindow (get_axis mp ax))"
  by (cases e; simp add: mapper_defs)+

lemma mapper_run_bases_set:
  "(viewPort (get_axis (mapper_run mp es) ax) \<noteq> None) =
     (viewPort (get_axis mp ax) \<noteq> None \<or> (\<exists>lo hi. SetViewport ax lo hi \<in> set es))"
  "(viewWindow (get_axis (mapper_run mp es) ax) \<noteq> None) =
     (viewWindow (get_axis mp ax) \<noteq> None \<or> (\<exists>lo hi. SetWindow ax lo hi \<in> set es))"
  by (induction es arbitrary: mp) (auto simp: mapper_step_bases split: mapper_event.splits)

lemma mapper_reachable_run: "mapper_reachable (mapper_run mapper_init es)"
proof -
  have "mapper_reachable mp \<Longrightarrow> mapper_reachable (mapper_run mp es)" for mp
    by (induction es arbitrary: mp) (auto intro: mapper_reachable.step)
  then show ?thesis using mapper_reachable.init .
qed

subsection \<open>Properties of the mapper\<close>

text \<open>
  C4: No stale transform is observable: in every reachable state, the conversions
  of an axis are the ones solved from its current viewport and window, and an
  axis that lacks one of them fails with \<open>Uninitialized\<close>.
\<close>

theorem conversions_reachable:
  assumes "mapper_reachable mp"
  shows "toScreen mp ax x =
           (case (viewPort (get_axis mp ax), viewWindow (get_axis mp ax)) of
              (Some vp, Some w) \<Rightarrow> Inr (applyToPoint (betweenTBasesAR1 w vp) x)
            | _ \<Rightarrow> Inl Uninitialized)
       \<and> toModel mp ax x =
           (case (viewPort (get_axis mp ax), viewWindow (get_axis mp ax)) of
              (Some vp, Some w) \<Rightarrow> Inr (applyToPoint (inverse_AR1 (betweenTBasesAR1 w vp)) x)
            | _ \<Rightarrow> Inl Uninitialized)"
  using toScreen_coherent [OF reachable_axis_coherent [OF assms]]
    toModel_coherent [OF reachable_axis_coherent [OF assms]] by blast


text \<open>
  The per-axis state machine: an axis is Ready exactly when both
  \<open>setViewport\<close> and \<open>setWindow\<close> have been called for it.
\<close>

theorem axis_ready_run:
  "axis_ready (get_axis (mapper_run mapper_init es) ax) \<longleftrightarrow>
     (\<exists>lo hi. SetViewport ax lo hi \<in> set es) \<and> (\<exists>lo hi. SetWindow ax lo hi \<in> set es)"
  using mapper_run_bases_set [of mapper_init es ax]
  by (cases ax) (simp_all add: axis_ready_def mapper_init_def axis_init_def)

lemma applyToPoint_inverse_shift:
  "applyToPoint (inverse_AR1 t) (s + d) = applyToPoint (inverse_AR1 t) s + d / fst (m (t :: real AR1))"
  by (simp add: field_simps add_divide_distrib)

lemma reachable_setWindow:
  "mapper_reachable mp \<Longrightarrow> mapper_reachable (setWindow mp ax lo hi)"
  using mapper_reachable.step [of mp "SetWindow ax lo hi"] by simp

text \<open>
  C15: On a Ready axis with non-degenerate bases, the window's points go to the
  viewport's points and back, and every point makes the round trip.
\<close>

theorem toScreen_toModel_roundtrip:
  assumes "mapper_reachable mp"
    and vp: "viewPort (get_axis mp ax) = Some vp" and w: "viewWindow (get_axis mp ax) = Some w"
    and "p1 w \<noteq> p2 w" and "p1 vp \<noteq> p2 vp"
  shows "toScreen mp ax (p1 w) = Inr (p1 vp) \<and> toScreen mp ax (p2 w) = Inr (p2 vp)
       \<and> toModel mp ax (p1 vp) = Inr (p1 w) \<and> toModel mp ax (p2 vp) = Inr (p2 w)
       \<and> (\<exists>y. toScreen mp ax x = Inr y \<and> toModel mp ax y = Inr x)"
proof -
  let ?t = "betweenTBasesAR1 w vp"
  note conv = conversions_ready [OF reachable_axis_coherent [OF assms(1)] vp w]
  have wf: "ar1_wf ?t" using ar1_wf_betweenTBasesAR1 [OF assms(4)] assms(5) by simp
  have m1: "applyToPoint ?t (p1 w) = p1 vp" and m2: "applyToPoint ?t (p2 w) = p2 vp"
    using betweenBasesAR1_maps [OF assms(4), of "p1 vp" "p2 vp"] by simp_all
  have "applyToPoint (inverse_AR1 ?t) (p1 vp) = p1 w"
    and "applyToPoint (inverse_AR1 ?t) (p2 vp) = p2 w"
    using applyToPoint_inverse_AR1(1) [OF wf] m1 m2 by metis+
  moreover have "applyToPoint (inverse_AR1 ?t) (applyToPoint ?t x) = x"
    by (rule applyToPoint_inverse_AR1(1) [OF wf])
  ultimately show ?thesis using m1 m2
    by (simp only: conv) simp
qed

text \<open>
  \<open>modelDelta\<close> cancels the translation: a screen offset \<open>d\<close> is the model
  length \<open>d\<close> times the ratio of the window to the viewport, wherever the
  offset starts.
\<close>

theorem modelDelta_translation_free:
  assumes "mapper_reachable mp"
    and vp: "viewPort (get_axis mp ax) = Some vp" and w: "viewWindow (get_axis mp ax) = Some w"
    and "p1 w \<noteq> p2 w" and "p1 vp \<noteq> p2 vp"
  shows "modelDelta mp ax d = Inr (d * (p2 w - p1 w) / (p2 vp - p1 vp))
       \<and> (\<exists>m0. toModel mp ax s = Inr m0 \<and> toModel mp ax (s + d) = Inr (m0 + d * (p2 w - p1 w) / (p2 vp - p1 vp)))"
proof -
  let ?t = "betweenTBasesAR1 w vp"
  note conv = conversions_ready(2) [OF reachable_axis_coherent [OF assms(1)] vp w]
  have ratio: "d / fst (m ?t) = d * (p2 w - p1 w) / (p2 vp - p1 vp)"
    using assms(4,5) by (simp add: field_simps)
  have "toModel mp ax (0 + d) = Inr (applyToPoint (inverse_AR1 ?t) 0 + d * (p2 w - p1 w) / (p2 vp - p1 vp))"
    and "toModel mp ax (s + d) = Inr (applyToPoint (inverse_AR1 ?t) s + d * (p2 w - p1 w) / (p2 vp - p1 vp))"
    by (simp_all only: conv applyToPoint_inverse_shift ratio)
  then show ?thesis by (simp add: modelDelta_def conv del: applyToPoint_eq)
qed

text \<open>
  Re-solve on window change: after two calls of \<open>setWindow\<close>, the screen
  conversion is the one solved from the latest window only.
\<close>

theorem setWindow_latest:
  assumes "mapper_reachable mp" and "viewPort (get_axis mp ax) = Some vp"
  shows "toScreen (setWindow (setWindow mp ax a b) ax c d) ax x =
           Inr (applyToPoint (betweenTBasesAR1 \<lparr>p1 = c, p2 = d\<rparr> vp) x)"
proof -
  let ?mp = "setWindow (setWindow mp ax a b) ax c d"
  have r: "mapper_reachable ?mp" using assms(1) by (intro reachable_setWindow)
  have "viewPort (get_axis ?mp ax) = Some vp" "viewWindow (get_axis ?mp ax) = Some \<lparr>p1 = c, p2 = d\<rparr>"
    using assms(2) mapper_step_bases [of _ "SetWindow ax _ _" ax] by simp_all
  then show ?thesis by (rule conversions_ready(1) [OF reachable_axis_coherent [OF r]])
qed

text \<open>
  The spec's scenario: viewport \<open>(0, 800)\<close> pixels, window \<open>(-500, 500)\<close>;
  model 0 is pixel 400, model -500 pixel 0, pixel 800 model 500, and an
  80-pixel drag is 100 model units from any start.
\<close>

theorem viewport_scenario:
  "toScreen (mapper_run mapper_init [SetViewport X 0 800, SetWindow X (-500) 500]) X 0 = Inr 400
   \<and> toScreen (mapper_run mapper_init [SetViewport X 0 800, SetWindow X (-500) 500]) X (-500) = Inr 0
   \<and> toModel (mapper_run mapper_init [SetViewport X 0 800, SetWindow X (-500) 500]) X 800 = Inr 500
   \<and> modelDelta (mapper_run mapper_init [SetViewport X 0 800, SetWindow X (-500) 500]) X 80 = Inr 100"
  by (simp add: mapper_defs mapper_init_def axis_init_def axis_recompute_def updateViewNode_def
      toScreen_def toModel_def modelDelta_def)

subsection \<open>Witnesses\<close>

lemma scenario_bases:
  "viewPort (get_axis (mapper_run mapper_init [SetViewport X 0 800, SetWindow X (-500) 500]) X) = Some \<lparr>p1 = 0, p2 = 800\<rparr>"
  "viewWindow (get_axis (mapper_run mapper_init [SetViewport X 0 800, SetWindow X (-500) 500]) X) = Some \<lparr>p1 = -500, p2 = 500\<rparr>"
  "viewPort (get_axis (mapper_run mapper_init [SetViewport X 0 800, SetWindow X (-500) 500]) Y) = None"
  by (simp_all add: mapper_defs mapper_init_def axis_init_def)

theorem conversions_reachable_witness:
  "mapper_reachable (mapper_run mapper_init [SetViewport X 0 800, SetWindow X (-500) 500])
   \<and> toScreen (mapper_run mapper_init [SetViewport X 0 800, SetWindow X (-500) 500]) X 0 = Inr 400
   \<and> toModel (mapper_run mapper_init [SetViewport X 0 800, SetWindow X (-500) 500]) Y 7 = Inl Uninitialized"
proof -
  have r: "mapper_reachable (mapper_run mapper_init [SetViewport X 0 800, SetWindow X (-500) 500])" by (rule mapper_reachable_run)
  show ?thesis
    using r conversions_reachable [OF r, of X 0] conversions_reachable [OF r, of Y 7]
    by (simp add: mapper_defs mapper_init_def axis_init_def)
qed


theorem toScreen_toModel_roundtrip_witness:
  "mapper_reachable (mapper_run mapper_init [SetViewport X 0 800, SetWindow X (-500) 500])
   \<and> toScreen (mapper_run mapper_init [SetViewport X 0 800, SetWindow X (-500) 500]) X (-500) = Inr 0 \<and> toModel (mapper_run mapper_init [SetViewport X 0 800, SetWindow X (-500) 500]) X 800 = Inr 500
   \<and> (\<exists>y. toScreen (mapper_run mapper_init [SetViewport X 0 800, SetWindow X (-500) 500]) X 100 = Inr y \<and> toModel (mapper_run mapper_init [SetViewport X 0 800, SetWindow X (-500) 500]) X y = Inr 100)"
proof -
  have r: "mapper_reachable (mapper_run mapper_init [SetViewport X 0 800, SetWindow X (-500) 500])" by (rule mapper_reachable_run)
  have nd: "p1 \<lparr>p1 = -500 :: real, p2 = 500\<rparr> \<noteq> p2 \<lparr>p1 = -500 :: real, p2 = 500\<rparr>"
    "p1 \<lparr>p1 = 0 :: real, p2 = 800\<rparr> \<noteq> p2 \<lparr>p1 = 0 :: real, p2 = 800\<rparr>" by simp_all
  show ?thesis
    using r toScreen_toModel_roundtrip [OF r scenario_bases(1,2) nd, of 100] by simp
qed

theorem modelDelta_translation_free_witness:
  "mapper_reachable (mapper_run mapper_init [SetViewport X 0 800, SetWindow X (-500) 500])
   \<and> modelDelta (mapper_run mapper_init [SetViewport X 0 800, SetWindow X (-500) 500]) X 80 = Inr 100
   \<and> (\<exists>m0. toModel (mapper_run mapper_init [SetViewport X 0 800, SetWindow X (-500) 500]) X 200 = Inr m0 \<and> toModel (mapper_run mapper_init [SetViewport X 0 800, SetWindow X (-500) 500]) X 280 = Inr (m0 + 100))"
proof -
  have r: "mapper_reachable (mapper_run mapper_init [SetViewport X 0 800, SetWindow X (-500) 500])" by (rule mapper_reachable_run)
  have nd: "p1 \<lparr>p1 = -500 :: real, p2 = 500\<rparr> \<noteq> p2 \<lparr>p1 = -500 :: real, p2 = 500\<rparr>"
    "p1 \<lparr>p1 = 0 :: real, p2 = 800\<rparr> \<noteq> p2 \<lparr>p1 = 0 :: real, p2 = 800\<rparr>" by simp_all
  show ?thesis
    using r modelDelta_translation_free [OF r scenario_bases(1,2) nd, of 80 200] by simp
qed

theorem setWindow_latest_witness:
  "mapper_reachable (mapper_run mapper_init [SetViewport X 0 800])
   \<and> toScreen (setWindow (setWindow (mapper_run mapper_init [SetViewport X 0 800]) X (-1) 1) X (-500) 500) X 0
       = Inr 400"
proof -
  have r: "mapper_reachable (mapper_run mapper_init [SetViewport X 0 800])" by (rule mapper_reachable_run)
  have vp: "viewPort (get_axis (mapper_run mapper_init [SetViewport X 0 800]) X) = Some \<lparr>p1 = 0, p2 = 800\<rparr>"
    by (simp add: mapper_defs mapper_init_def axis_init_def)
  show ?thesis using r setWindow_latest [OF r vp, of "-1" 1 "-500" 500 0] by simp
qed

end
