(* ===== verification/DrawProc.thy ===== *)
theory DrawProc
  imports Prelude
begin

text \<open>
  The redraw throttle \<open>drawProc(f)\<close> of src/draw.ts: a closure over a flag
  \<open>requested\<close>; a call while the flag is down raises it and schedules a timer
  (\<open>runTimeout\<close>) whose callback lowers the flag and runs \<open>f\<close> with the
  parameters of the call that scheduled it; a call while the flag is up does
  nothing. The timers are a queue of scheduled callbacks, each holding the
  parameters it captured; the environment fires the oldest one. A run is a list
  of events \<open>Call params\<close> and \<open>Fire\<close>, and returns the parameters \<open>f\<close> was
  run with, in order.
\<close>

record 'p throttle =
  requested :: bool
  pending :: "'p list"

definition throttle_init :: "'p throttle" where
  "throttle_init = \<lparr>requested = False, pending = []\<rparr>"

text \<open>The closure \<open>(...params) => { if (!requested) { ... } }\<close>.\<close>

definition drawProc_call :: "'p throttle \<Rightarrow> 'p \<Rightarrow> 'p throttle" where
  "drawProc_call s params =
     (if \<not> requested s then s\<lparr>requested := True, pending := pending s @ [params]\<rparr> else s)"

text \<open>
  The timer callback \<open>(elapsed) => { requested = false; f(params) }\<close>: the
  result is the parameters \<open>f\<close> is run with, \<open>None\<close> when no timer is due.
\<close>

definition drawProc_fire :: "'p throttle \<Rightarrow> 'p option \<times> 'p throttle" where
  "drawProc_fire s =
     (case pending s of
        [] \<Rightarrow> (None, s)
      | params # rest \<Rightarrow> (Some params, s\<lparr>requested := False, pending := rest\<rparr>))"

datatype 'p throttle_event = Call 'p | Fire

fun throttle_step :: "'p throttle \<Rightarrow> 'p throttle_event \<Rightarrow> 'p option \<times> 'p throttle" where
  "throttle_step s (Call params) = (None, drawProc_call s params)"
| "throttle_step s Fire = drawProc_fire s"

fun throttle_run :: "'p throttle \<Rightarrow> 'p throttle_event list \<Rightarrow> 'p list \<times> 'p throttle" where
  "throttle_run s [] = ([], s)"
| "throttle_run s (e # es) =
     (case throttle_step s e of
        (r, s') \<Rightarrow> (case throttle_run s' es of
                     (fs, s'') \<Rightarrow> ((case r of None \<Rightarrow> fs | Some params \<Rightarrow> params # fs), s'')))"

inductive throttle_reachable :: "'p throttle \<Rightarrow> bool" where
  init: "throttle_reachable throttle_init"
| call: "throttle_reachable s \<Longrightarrow> throttle_reachable (drawProc_call s params)"
| fire: "throttle_reachable s \<Longrightarrow> throttle_reachable (snd (drawProc_fire s))"

text \<open>The invariant: the flag is up exactly while one timer, and only one, is due.\<close>

definition throttle_inv :: "'p throttle \<Rightarrow> bool" where
  "throttle_inv s = (requested s = (pending s \<noteq> []) \<and> length (pending s) \<le> 1)"


subsection \<open>Step lemmas\<close>

lemma throttle_inv_call: "throttle_inv s \<Longrightarrow> throttle_inv (drawProc_call s params)"
  by (auto simp: throttle_inv_def drawProc_call_def)

lemma throttle_inv_fire: "throttle_inv s \<Longrightarrow> throttle_inv (snd (drawProc_fire s))"
  by (auto simp: throttle_inv_def drawProc_fire_def split: list.splits)

lemma throttle_inv_step: "throttle_inv s \<Longrightarrow> throttle_inv (snd (throttle_step s e))"
  by (cases e) (simp_all add: throttle_inv_call throttle_inv_fire)

lemma throttle_fire_pending:
  "throttle_inv s \<Longrightarrow> pending s = [params] \<Longrightarrow>
   drawProc_fire s = (Some params, s\<lparr>requested := False, pending := []\<rparr>)"
  by (simp add: drawProc_fire_def)

lemma throttle_run_append:
  "throttle_run s (es1 @ es2) =
     (case throttle_run s es1 of (fs1, s1) \<Rightarrow> (case throttle_run s1 es2 of (fs2, s2) \<Rightarrow> (fs1 @ fs2, s2)))"
  by (induction es1 arbitrary: s) (auto split: prod.splits option.splits)

lemma throttle_run_calls_requested:
  "requested s \<Longrightarrow> throttle_run s (map Call ps) = ([], s)"
  by (induction ps) (simp_all add: drawProc_call_def)

lemma throttle_run_inv: "throttle_inv s \<Longrightarrow> throttle_inv (snd (throttle_run s es))"
proof (induction es arbitrary: s)
  case Nil
  then show ?case by simp
next
  case (Cons e es)
  obtain r s' where st: "throttle_step s e = (r, s')" by (cases "throttle_step s e")
  have "throttle_inv s'" using throttle_inv_step [OF Cons.prems, of e] st by simp
  then have "throttle_inv (snd (throttle_run s' es))" by (rule Cons.IH)
  then show ?case using st by (cases "throttle_run s' es") simp
qed



subsection \<open>Properties of the throttle\<close>

text \<open>C6: In every reachable state the flag is up exactly while one timer is due.\<close>

theorem throttle_reachable_inv: "throttle_reachable s \<Longrightarrow> throttle_inv s"
proof (induction rule: throttle_reachable.induct)
  case init
  show ?case by (simp add: throttle_inv_def throttle_init_def)
next
  case (call s params)
  from call.IH show ?case by (rule throttle_inv_call)
next
  case (fire s)
  from fire.IH show ?case by (rule throttle_inv_fire)
qed

text \<open>
  C10: Coalescing keeps the first call: a burst of calls from an idle throttle runs
  \<open>f\<close> once, at the next timer, with the parameters of the first call; the
  parameters of every later call of the burst are dropped.
\<close>

theorem drawProc_first_call_wins:
  assumes "\<not> requested s" and "pending s = []"
  shows "throttle_run s (map Call (p # ps) @ [Fire]) = ([p], s)"
proof -
  let ?s1 = "s\<lparr>requested := True, pending := [p]\<rparr>"
  have 1: "throttle_run s [Call p] = ([], ?s1)"
    using assms by (simp add: drawProc_call_def)
  have 2: "throttle_run ?s1 (map Call ps) = ([], ?s1)"
    by (rule throttle_run_calls_requested) simp
  have 3: "throttle_run ?s1 [Fire] = ([p], s)"
    using assms by (simp add: drawProc_fire_def)
  have "map Call (p # ps) @ [Fire] = [Call p] @ map Call ps @ [Fire]" by simp
  then show ?thesis using 1 2 3 by (simp only: throttle_run_append) simp
qed


text \<open>
  C22: No request is lost: after a call, the next timer runs \<open>f\<close> and lowers the
  flag; from an idle throttle it runs with the call's own parameters.
\<close>

theorem drawProc_call_served:
  assumes "throttle_inv s"
  shows "\<exists>q s'. drawProc_fire (drawProc_call s p) = (Some q, s') \<and> \<not> requested s'
           \<and> (\<not> requested s \<longrightarrow> q = p)"
  using assms by (auto simp: throttle_inv_def drawProc_call_def drawProc_fire_def
                       split: list.splits)

subsection \<open>Witnesses\<close>

theorem drawProc_first_call_wins_witness:
  "\<not> requested (throttle_init :: nat throttle) \<and> pending (throttle_init :: nat throttle) = []
   \<and> throttle_run throttle_init (map Call [1, 2, 3] @ [Fire]) = ([1 :: nat], throttle_init)"
proof -
  have h1: "\<not> requested (throttle_init :: nat throttle)" and h2: "pending (throttle_init :: nat throttle) = []"
    by (simp_all add: throttle_init_def)
  show ?thesis using h1 h2 drawProc_first_call_wins [OF h1 h2, of 1 "[2, 3]"] by simp
qed

theorem throttle_reachable_inv_witness:
  "throttle_reachable (drawProc_call (throttle_init :: nat throttle) 5)
   \<and> requested (drawProc_call (throttle_init :: nat throttle) 5)
   \<and> pending (drawProc_call (throttle_init :: nat throttle) 5) = [5]"
proof -
  have r: "throttle_reachable (drawProc_call (throttle_init :: nat throttle) 5)"
    by (rule throttle_reachable.call [OF throttle_reachable.init])
  show ?thesis using r throttle_reachable_inv [OF r]
    by (simp add: throttle_inv_def drawProc_call_def throttle_init_def)
qed

theorem drawProc_call_served_witness:
  "throttle_inv (throttle_init :: nat throttle)
   \<and> fst (drawProc_fire (drawProc_call (throttle_init :: nat throttle) 4)) = Some 4"
proof -
  have h: "throttle_inv (throttle_init :: nat throttle)" by (simp add: throttle_inv_def throttle_init_def)
  show ?thesis using h drawProc_call_served [OF h, of 4]
    by (auto simp: throttle_init_def)
qed

end
