(* ===== verification/Chart.thy ===== *)
theory Chart
  imports SVGMatrix DrawProc "HOL-Library.While_Combinator"
begin

text \<open>
  The chart of src/draw.ts (\<open>class TimeSeriesChart\<close>): the parts of its state
  that its methods compute with, and its methods without the rendering calls
  (path data, axes, D3 selections), which do not change that state.
  \<^item> Dates are time values in milliseconds, or None for an Invalid Date:
    \<open>new Date(t)\<close> applies TimeClip, which gives an Invalid Date outside
    \<open>[-8.64e15, 8.64e15]\<close>, and every comparison with an Invalid Date is false.
    \<open>stepX\<close> is an integer number of milliseconds (the demo passes
    86400000), so every time value is an integer below \<open>2^53\<close> and exact.
  \<^item> The rows of \<open>data\<close> are of an arbitrary type \<open>'r\<close>; the segment tree is
    rebuilt from \<open>data\<close> on every update (line 69) and is therefore not part
    of the state.
  \<^item> \<open>drawNewData\<close> is throttled by \<open>drawProc\<close> (DrawProc.thy): an update
    requests it, and a timer runs it later.
\<close>

type_synonym 'r rows = "'r list"

record 'r chart =
  minX :: date
  maxX :: date
  missedStepsCount :: nat
  stepX :: int
  data :: "'r rows"
  xDomain :: "date pair"
  rxDomain :: "date pair"
  drawNewDataThrottle :: "unit throttle"

definition date_limit :: int where
  "date_limit = 8640000000000000"

definition timeClip :: "int \<Rightarrow> date" where
  "timeClip t = (if \<bar>t\<bar> \<le> date_limit then Some t else None)"

text \<open>\<open>calcDate(index, offset) = new Date(index * this.stepX + offset.getTime())\<close>.\<close>

definition calcDate :: "'r chart \<Rightarrow> int \<Rightarrow> date \<Rightarrow> date" where
  "calcDate c index offset =
     (case offset of None \<Rightarrow> None | Some t \<Rightarrow> timeClip (index * stepX c + t))"

text \<open>Date comparisons \<open>>=\<close> and \<open><=\<close> compare time values; NaN compares false.\<close>

definition date_ge :: "date \<Rightarrow> date \<Rightarrow> bool" where
  "date_ge a b = (case (a, b) of (Some x, Some y) \<Rightarrow> y \<le> x | _ \<Rightarrow> False)"

definition date_le :: "date \<Rightarrow> date \<Rightarrow> bool" where
  "date_le a b = (case (a, b) of (Some x, Some y) \<Rightarrow> x \<le> y | _ \<Rightarrow> False)"

text \<open>
  The constructor (lines 50-60, with \<open>drawChart\<close>'s \<open>x.domain([minX, maxX])\<close>
  and \<open>rx = x.copy()\<close>): \<open>maxX\<close> is the date of the last sample.
\<close>

definition chart_init :: "date \<Rightarrow> int \<Rightarrow> 'r rows \<Rightarrow> 'r chart" where
  "chart_init minX0 stepX0 rows =
     (let c0 = \<lparr>minX = minX0, maxX = None, missedStepsCount = 0, stepX = stepX0, data = rows,
                xDomain = (None, None), rxDomain = (None, None), drawNewDataThrottle = throttle_init\<rparr>;
          mx = calcDate c0 (int (length rows) - 1) minX0
      in c0\<lparr>maxX := mx, xDomain := (minX0, mx), rxDomain := (minX0, mx)\<rparr>)"

text \<open>
  \<open>updateChartWithNewData(newData)\<close>: count the step, push the new row,
  shift the oldest one out, rebuild the tree, request a redraw.
\<close>

definition updateChartWithNewData :: "'r chart \<Rightarrow> 'r \<Rightarrow> 'r chart" where
  "updateChartWithNewData c newData =
     (let c1 = c\<lparr>missedStepsCount := missedStepsCount c + 1\<rparr>;
          c2 = c1\<lparr>data := data c1 @ [newData]\<rparr>;
          c3 = c2\<lparr>data := tl (data c2)\<rparr>
      in c3\<lparr>drawNewDataThrottle := drawProc_call (drawNewDataThrottle c3) ()\<rparr>)"

text \<open>
  The body of \<open>drawNewData\<close>: take the missed steps, reset the counter,
  advance \<open>minX\<close> by them, recompute \<open>maxX\<close>, shift the zoomed domain
  \<open>rx\<close> by the same steps, and set the full domain \<open>x\<close>.
\<close>

definition drawNewData_body :: "'r chart \<Rightarrow> 'r chart" where
  "drawNewData_body c =
     (let stepsToDraw = missedStepsCount c;
          c1 = c\<lparr>missedStepsCount := 0\<rparr>;
          c2 = c1\<lparr>minX := calcDate c1 (int stepsToDraw) (minX c1)\<rparr>;
          c3 = c2\<lparr>maxX := calcDate c2 (int (length (data c2)) - 1) (minX c2)\<rparr>;
          minimumRX = calcDate c3 (int stepsToDraw) (fst (rxDomain c3));
          maximumRX = calcDate c3 (int stepsToDraw) (snd (rxDomain c3));
          c4 = c3\<lparr>xDomain := (minX c3, maxX c3)\<rparr>
      in c4\<lparr>rxDomain := (minimumRX, maximumRX)\<rparr>)"

text \<open>A timer of the \<open>drawNewData\<close> throttle fires.\<close>

definition chart_fire :: "'r chart \<Rightarrow> 'r chart" where
  "chart_fire c =
     (case drawProc_fire (drawNewDataThrottle c) of
        (None, t) \<Rightarrow> c\<lparr>drawNewDataThrottle := t\<rparr>
      | (Some _, t) \<Rightarrow> drawNewData_body (c\<lparr>drawNewDataThrottle := t\<rparr>))"

datatype 'r chart_event = NewData 'r | DrawTimer

fun chart_step :: "'r chart \<Rightarrow> 'r chart_event \<Rightarrow> 'r chart" where
  "chart_step c (NewData row) = updateChartWithNewData c row"
| "chart_step c DrawTimer = chart_fire c"

fun chart_run :: "'r chart \<Rightarrow> 'r chart_event list \<Rightarrow> 'r chart" where
  "chart_run c [] = c"
| "chart_run c (e # es) = chart_run (chart_step c e) es"

fun new_rows :: "'r chart_event list \<Rightarrow> 'r list" where
  "new_rows [] = []"
| "new_rows (NewData row # es) = row # new_rows es"
| "new_rows (DrawTimer # es) = new_rows es"

subsection \<open>getZoomIntervalY\<close>

text \<open>
  The loop of \<open>getZoomIntervalY(xSubInterval, intervalSize)\<close>: \<open>from\<close>
  starts at \<open>intervalSize\<close> and \<open>to\<close> at 0, and every index whose date lies in
  the sub-interval lowers \<open>from\<close> or raises \<open>to\<close>.
\<close>

definition zoom_in_range :: "'r chart \<Rightarrow> date pair \<Rightarrow> nat \<Rightarrow> bool" where
  "zoom_in_range c xSubInterval i =
     (date_ge (calcDate c (int i) (minX c)) (fst xSubInterval)
      \<and> date_le (calcDate c (int i) (minX c)) (snd xSubInterval))"

definition zoomStep :: "'r chart \<Rightarrow> date pair \<Rightarrow> nat \<times> nat \<Rightarrow> nat \<Rightarrow> nat \<times> nat" where
  "zoomStep c xSubInterval acc i =
     (case acc of (from, to) \<Rightarrow>
        if zoom_in_range c xSubInterval i
        then (if i < from then i else from, if i > to then i else to)
        else (from, to))"

definition getZoomIntervalY :: "'r chart \<Rightarrow> date pair \<Rightarrow> nat \<Rightarrow> nat \<times> nat" where
  "getZoomIntervalY c xSubInterval intervalSize =
     foldl (zoomStep c xSubInterval) (intervalSize, 0) [0..<intervalSize]"



subsection \<open>The vertical part of zoom\<close>

text \<open>
  Lines 84-89 of \<open>zoom\<close>: with \<open>y\<close> the chart's linear scale (a D3 linear
  scale is the affine map solved from its domain to its range, so it is an
  AR1 here), the new vertical extent \<open>domainY\<close> and the scale's range
  \<open>oldRangeY\<close>, the vertical scale and translation of the view transform.
  Written over the numbers of the AR1 library, so it runs on reals and on
  JavaScript numbers.
\<close>

definition zoomY ::
  "('n::{plus, times, minus, inverse}) AR1 \<Rightarrow> 'n pair \<Rightarrow> 'n pair \<Rightarrow> 'n pair" where
  "zoomY y oldRangeY domainY =
     (let newRangeY = (applyToPoint y (fst domainY), applyToPoint y (snd domainY));
          scaleY = fst oldRangeY / (fst newRangeY - snd newRangeY);
          translateY = scaleY * (snd oldRangeY - snd newRangeY)
      in (scaleY, translateY))"


definition date_valid :: "date \<Rightarrow> bool" where
  "date_valid d = (case d of None \<Rightarrow> True | Some t \<Rightarrow> \<bar>t\<bar> \<le> date_limit)"

text \<open>
  The invariant of a chart that has received \<open>k\<close> new rows since it was built
  with first date \<open>m0\<close>: \<open>minX\<close> lags \<open>k\<close> steps behind by exactly the
  missed steps, the redraw is requested exactly while steps are missed, and
  at a drawn state \<open>maxX\<close> and the full domain \<open>x\<close> span the data window.
\<close>

definition chart_inv :: "date \<Rightarrow> nat \<Rightarrow> 'r chart \<Rightarrow> bool" where
  "chart_inv m0 k c =
     (missedStepsCount c \<le> k
      \<and> minX c = calcDate c (int (k - missedStepsCount c)) m0
      \<and> throttle_inv (drawNewDataThrottle c)
      \<and> requested (drawNewDataThrottle c) = (0 < missedStepsCount c)
      \<and> (missedStepsCount c = 0 \<longrightarrow>
           maxX c = calcDate c (int (length (data c)) - 1) (minX c) \<and> xDomain c = (minX c, maxX c)))"

subsection \<open>Dates\<close>

lemma timeClip_valid [simp]: "date_valid (timeClip t)"
  by (simp add: timeClip_def date_valid_def)

lemma calcDate_valid [simp]: "date_valid (calcDate c i d)"
  by (cases d) (simp_all add: calcDate_def timeClip_def date_valid_def)

lemma calcDate_zero: "date_valid d \<Longrightarrow> calcDate c 0 d = d"
  by (auto simp: calcDate_def timeClip_def date_valid_def split: option.splits)

text \<open>Advancing a valid date twice by non-negative steps advances it once by their sum.\<close>

lemma calcDate_add:
  assumes "0 \<le> stepX c" and "0 \<le> a" and "0 \<le> b" and "date_valid d"
  shows "calcDate c a (calcDate c b d) = calcDate c (a + b) d"
proof (cases d)
  case None
  then show ?thesis by (simp add: calcDate_def)
next
  case (Some t)
  have t: "\<bar>t\<bar> \<le> date_limit" using assms(4) Some by (simp add: date_valid_def)
  have ab: "0 \<le> a * stepX c" "0 \<le> b * stepX c" using assms(1-3) by simp_all
  show ?thesis
  proof (cases "\<bar>b * stepX c + t\<bar> \<le> date_limit")
    case True
    then show ?thesis using Some by (simp add: calcDate_def timeClip_def algebra_simps)
  next
    case False
    then have "date_limit < b * stepX c + t" using t ab by arith
    then have "\<not> \<bar>(a + b) * stepX c + t\<bar> \<le> date_limit" using ab by (simp add: algebra_simps)
    then show ?thesis using Some False by (simp add: calcDate_def timeClip_def)
  qed
qed

lemma calcDate_frame [simp]:
  "calcDate (c\<lparr>drawNewDataThrottle := t\<rparr>) = calcDate c"
  "calcDate (c\<lparr>missedStepsCount := n\<rparr>) = calcDate c"
  "calcDate (c\<lparr>minX := d\<rparr>) = calcDate c"
  "calcDate (c\<lparr>maxX := d\<rparr>) = calcDate c"
  "calcDate (c\<lparr>xDomain := dd\<rparr>) = calcDate c"
  "calcDate (c\<lparr>rxDomain := dd\<rparr>) = calcDate c"
  "calcDate (c\<lparr>data := rs\<rparr>) = calcDate c"
  by (simp_all add: calcDate_def fun_eq_iff split: option.splits)

subsection \<open>Steps of the chart\<close>

lemma updateChartWithNewData_fields [simp]:
  "minX (updateChartWithNewData c r) = minX c"
  "maxX (updateChartWithNewData c r) = maxX c"
  "stepX (updateChartWithNewData c r) = stepX c"
  "xDomain (updateChartWithNewData c r) = xDomain c"
  "missedStepsCount (updateChartWithNewData c r) = Suc (missedStepsCount c)"
  "data (updateChartWithNewData c r) = tl (data c @ [r])"
  "drawNewDataThrottle (updateChartWithNewData c r) = drawProc_call (drawNewDataThrottle c) ()"
  by (simp_all add: updateChartWithNewData_def)

lemma chart_fire_cases:
  "throttle_inv (drawNewDataThrottle c) \<Longrightarrow>
   chart_fire c =
     (if requested (drawNewDataThrottle c)
      then drawNewData_body (c\<lparr>drawNewDataThrottle := drawNewDataThrottle c\<lparr>requested := False, pending := []\<rparr>\<rparr>)
      else c)"
  by (auto simp: chart_fire_def drawProc_fire_def throttle_inv_def length_Suc_conv
      split: list.splits)

lemma drawNewData_body_fields [simp]:
  "stepX (drawNewData_body c) = stepX c"
  "data (drawNewData_body c) = data c"
  "missedStepsCount (drawNewData_body c) = 0"
  "drawNewDataThrottle (drawNewData_body c) = drawNewDataThrottle c"
  "minX (drawNewData_body c) = calcDate c (int (missedStepsCount c)) (minX c)"
  "maxX (drawNewData_body c) =
     calcDate c (int (length (data c)) - 1) (calcDate c (int (missedStepsCount c)) (minX c))"
  "xDomain (drawNewData_body c) = (minX (drawNewData_body c), maxX (drawNewData_body c))"
  by (simp_all add: drawNewData_body_def Let_def)

lemma calcDate_chart_ops [simp]:
  "calcDate (drawNewData_body c) = calcDate c"
  "calcDate (updateChartWithNewData c r) = calcDate c"
  by (simp_all add: calcDate_def fun_eq_iff split: option.splits)

lemma chart_fire_frame [simp]:
  "stepX (chart_fire c) = stepX c" "data (chart_fire c) = data c"
  by (simp_all add: chart_fire_def split: prod.splits option.splits)

lemma chart_step_stepX [simp]: "stepX (chart_step c e) = stepX c"
  by (cases e) simp_all

lemma chart_run_stepX [simp]: "stepX (chart_run c es) = stepX c"
  by (induction es arbitrary: c) simp_all

lemma chart_inv_update:
  assumes "chart_inv m0 k c"
  shows "chart_inv m0 (Suc k) (updateChartWithNewData c r)"
  using assms throttle_inv_call [of "drawNewDataThrottle c" "()"]
  by (auto simp: chart_inv_def drawProc_call_def)

lemma chart_inv_fire:
  assumes "chart_inv m0 k c" and "0 \<le> stepX c" and "date_valid m0"
  shows "chart_inv m0 k (chart_fire c)"
proof (cases "requested (drawNewDataThrottle c)")
  case True
  have inv: "throttle_inv (drawNewDataThrottle c)" using assms(1) by (simp add: chart_inv_def)
  have le: "missedStepsCount c \<le> k" and mx: "minX c = calcDate c (int (k - missedStepsCount c)) m0"
    using assms(1) by (simp_all add: chart_inv_def)
  have "calcDate c (int (missedStepsCount c)) (minX c) = calcDate c (int k) m0"
    using calcDate_add [OF assms(2) _ _ assms(3), of "int (missedStepsCount c)" "int (k - missedStepsCount c)"] le mx
    by (simp add: of_nat_diff)
  then show ?thesis using True inv
    by (simp add: chart_fire_cases chart_inv_def throttle_inv_def)
next
  case False
  then show ?thesis using assms(1) by (simp add: chart_fire_cases chart_inv_def)
qed

lemma chart_inv_run:
  assumes "chart_inv m0 k c" and "0 \<le> stepX c" and "date_valid m0"
  shows "chart_inv m0 (k + length (new_rows es)) (chart_run c es)"
  using assms
proof (induction es arbitrary: c k)
  case Nil
  then show ?case by simp
next
  case (Cons e es)
  show ?case
  proof (cases e)
    case (NewData r)
    have "chart_inv m0 (Suc k) (chart_step c e)"
      using chart_inv_update [OF Cons.prems(1)] NewData by simp
    then show ?thesis using Cons.IH [of "Suc k" "chart_step c e"] Cons.prems(2,3) NewData by simp
  next
    case DrawTimer
    have "chart_inv m0 k (chart_step c e)"
      using chart_inv_fire [OF Cons.prems] DrawTimer by simp
    then show ?thesis using Cons.IH [of k "chart_step c e"] Cons.prems(2,3) DrawTimer by simp
  qed
qed

lemma chart_run_data:
  "data (chart_run c es) = drop (length (new_rows es)) (data c @ new_rows es)"
proof (induction es arbitrary: c)
  case Nil
  then show ?case by simp
next
  case (Cons e es)
  show ?case
  proof (cases e)
    case (NewData r)
    have "data (chart_run c (e # es)) = drop (length (new_rows es)) (tl (data c @ [r]) @ new_rows es)"
      using Cons.IH [of "chart_step c e"] NewData by simp
    also have "tl (data c @ [r]) @ new_rows es = tl (data c @ r # new_rows es)"
      by (cases "data c") simp_all
    also have "drop (length (new_rows es)) (tl (data c @ r # new_rows es))
        = drop (length (new_rows (e # es))) (data c @ new_rows (e # es))"
      using NewData by (simp add: drop_Suc del: drop_append)
    finally show ?thesis .
  next
    case DrawTimer
    then show ?thesis using Cons.IH [of "chart_step c e"] by simp
  qed
qed

lemma chart_run_append: "chart_run c (es @ es') = chart_run (chart_run c es) es'"
  by (induction es arbitrary: c) simp_all

lemma chart_inv_init:
  "date_valid m0 \<Longrightarrow> chart_inv m0 0 (chart_init m0 s rows)"
  by (cases m0) (simp_all add: chart_inv_def chart_init_def throttle_inv_def throttle_init_def
      calcDate_def Let_def date_valid_def timeClip_def)

lemma chart_fire_missed_zero:
  "chart_inv m0 k c \<Longrightarrow> missedStepsCount (chart_fire c) = 0"
  by (auto simp: chart_inv_def chart_fire_cases)

lemma zoom_fold:
  "k \<le> n \<Longrightarrow> foldl (zoomStep c xs) (n, 0) [0..<k] =
     (if {i. i < k \<and> zoom_in_range c xs i} = {} then (n, 0)
      else (Min {i. i < k \<and> zoom_in_range c xs i}, Max {i. i < k \<and> zoom_in_range c xs i}))"
proof (induction k)
  case 0
  then show ?case by simp
next
  case (Suc k)
  let ?S = "{i. i < k \<and> zoom_in_range c xs i}"
  have fin: "finite ?S" by (rule finite_subset [of _ "{..<k}"]) auto
  have IH: "foldl (zoomStep c xs) (n, 0) [0..<k] = (if ?S = {} then (n, 0) else (Min ?S, Max ?S))"
    using Suc by simp
  have step: "foldl (zoomStep c xs) (n, 0) [0..<Suc k] =
      zoomStep c xs (if ?S = {} then (n, 0) else (Min ?S, Max ?S)) k"
    using IH by simp
  show ?case
  proof (cases "zoom_in_range c xs k")
    case False
    then have S': "{i. i < Suc k \<and> zoom_in_range c xs i} = ?S" using less_Suc_eq by auto
    show ?thesis unfolding S' using False by (subst step) (simp add: zoomStep_def)
  next
    case True
    then have S': "{i. i < Suc k \<and> zoom_in_range c xs i} = insert k ?S" using less_Suc_eq by auto
    show ?thesis
    proof (cases "?S = {}")
      case True
      then have "insert k ?S = {k}" by auto
      then show ?thesis using S' \<open>zoom_in_range c xs k\<close> Suc.prems True
        by (subst step) (simp add: zoomStep_def)
    next
      case False
      have "Min ?S \<in> ?S" "Max ?S \<in> ?S" using Min_in [OF fin False] Max_in [OF fin False] by simp_all
      then have mn: "Min ?S < k" and mx: "Max ?S < k" by simp_all
      have z: "zoomStep c xs (Min ?S, Max ?S) k = (Min ?S, k)"
        using mn mx \<open>zoom_in_range c xs k\<close> by (simp add: zoomStep_def del: Max_less_iff)
      have mi: "Min (insert k ?S) = Min ?S" using fin False mn by (simp add: min_def)
      have ma: "Max (insert k ?S) = k" using fin False mx by (simp add: max_def del: Max_less_iff)
      show ?thesis
        by (subst step) (simp only: if_not_P [OF False] z S' insert_not_empty if_False mi ma)
    qed
  qed
qed


lemma zoom_interval_set_bounds:
  "{i. i < n \<and> zoom_in_range c xs i} \<noteq> {} \<Longrightarrow>
   Min {i. i < n \<and> zoom_in_range c xs i} \<le> Max {i. i < n \<and> zoom_in_range c xs i}
   \<and> Max {i. i < n \<and> zoom_in_range c xs i} < n"
proof -
  assume ne: "{i. i < n \<and> zoom_in_range c xs i} \<noteq> {}"
  have fin: "finite {i. i < n \<and> zoom_in_range c xs i}" by (rule finite_subset [of _ "{..<n}"]) auto
  show ?thesis using Max_in [OF fin ne] Min_in [OF fin ne] fin by (simp del: Max_less_iff)
qed

lemma zoom_in_range_between:
  assumes s: "0 \<le> stepX c" and ij: "i \<le> j" and jk: "j \<le> k"
    and ri: "zoom_in_range c xs i" and rk: "zoom_in_range c xs k"
  shows "zoom_in_range c xs j"
proof -
  obtain t where t: "minX c = Some t" using ri by (cases "minX c") (simp_all add: zoom_in_range_def calcDate_def date_ge_def)
  have "fst xs \<noteq> None \<and> snd xs \<noteq> None"
    using ri by (auto simp: zoom_in_range_def date_ge_def date_le_def split: option.splits)
  then obtain a b where ab: "xs = (Some a, Some b)" by (cases xs) auto
  have m1: "int i * stepX c \<le> int j * stepX c" and m2: "int j * stepX c \<le> int k * stepX c"
    using s ij jk by (simp_all add: mult_right_mono)
  show ?thesis using ri rk t ab m1 m2
    by (auto simp: zoom_in_range_def calcDate_def date_ge_def date_le_def timeClip_def split: if_splits)
qed

lemma filter_in_range:
  assumes s: "0 \<le> stepX c" and ne: "{i. i < n \<and> zoom_in_range c xs i} \<noteq> {}"
  shows "filter (zoom_in_range c xs) [0..<n] =
           [Min {i. i < n \<and> zoom_in_range c xs i}..<Suc (Max {i. i < n \<and> zoom_in_range c xs i})]"
proof (rule sorted_distinct_set_unique)
  let ?S = "{i. i < n \<and> zoom_in_range c xs i}"
  have fin: "finite ?S" by (rule finite_subset [of _ "{..<n}"]) auto
  have mn: "Min ?S \<in> ?S" and mx: "Max ?S \<in> ?S" using Min_in [OF fin ne] Max_in [OF fin ne] by simp_all
  have "set [Min ?S..<Suc (Max ?S)] = ?S"
  proof
    show "set [Min ?S..<Suc (Max ?S)] \<subseteq> ?S"
    proof
      fix x assume "x \<in> set [Min ?S..<Suc (Max ?S)]"
      then have "Min ?S \<le> x" "x \<le> Max ?S" by auto
      then show "x \<in> ?S" using zoom_in_range_between [OF s _ _, of "Min ?S" x "Max ?S" xs] mn mx by simp
    qed
    show "?S \<subseteq> set [Min ?S..<Suc (Max ?S)]"
    proof
      fix x assume x: "x \<in> ?S"
      have "Min ?S \<le> x" using Min_le [OF fin x] .
      moreover have "x \<le> Max ?S" using Max_ge [OF fin x] .
      ultimately show "x \<in> set [Min ?S..<Suc (Max ?S)]" by (simp add: less_Suc_eq_le del: upt_Suc)
    qed
  qed
  then show "set (filter (zoom_in_range c xs) [0..<n]) = set [Min ?S..<Suc (Max ?S)]" by auto
qed (simp_all add: sorted_wrt_filter del: upt_Suc)

lemma zoom_in_range_rxDomain [simp]: "zoom_in_range (c\<lparr>rxDomain := d\<rparr>) = zoom_in_range c"
  by (simp add: fun_eq_iff zoom_in_range_def)

lemma zoomStep_rxDomain [simp]: "zoomStep (c\<lparr>rxDomain := d\<rparr>) = zoomStep c"
  by (simp add: fun_eq_iff zoomStep_def)

lemma getZoomIntervalY_rxDomain [simp]: "getZoomIntervalY (c\<lparr>rxDomain := d\<rparr>) = getZoomIntervalY c"
  by (simp add: fun_eq_iff getZoomIntervalY_def)


lemma zoomY_maps_extent:
  fixes u v h :: real
  assumes "u \<noteq> v"
  shows "applyToPoint \<lparr>m = (h / (u - v), h / (u - v) * (0 - v))\<rparr> u = h
       \<and> applyToPoint \<lparr>m = (h / (u - v), h / (u - v) * (0 - v))\<rparr> v = 0"
proof -
  have d: "u - v \<noteq> 0" using assms by simp
  have "h / (u - v) * u + h / (u - v) * (0 - v) = h / (u - v) * (u - v)"
    by (simp only: distrib_left [symmetric]) simp
  also have "\<dots> = h" using d by simp
  finally show ?thesis by simp
qed

lemma zoomY_empty_extent_js:
  "a \<noteq> 0 \<Longrightarrow> zoomY \<lparr>m = (Num a, Num b)\<rparr> (Num h, Num 0) (PosInf, NegInf) = (Num 0, NaN)"
  by (cases "0 < a")
     (simp_all add: zoomY_def Let_def times_jsnum_def plus_jsnum_def minus_jsnum_def
       divide_jsnum_def js_signed_def)

subsection \<open>Properties of the chart\<close>

text \<open>
  C5: Over any interleaving of new rows and redraw timers from a freshly built
  chart: \<open>data\<close> is the window of the last \<open>|rows|\<close> rows received, \<open>minX\<close>
  has advanced by exactly the steps already drawn (received rows minus missed
  ones), and a redraw is requested exactly while some steps are missed.
\<close>

theorem chart_run_sliding_window:
  assumes "0 \<le> stepX0" and "date_valid minX0"
  shows "data (chart_run (chart_init minX0 stepX0 rows) es) = drop (length (new_rows es)) (rows @ new_rows es)
       \<and> missedStepsCount (chart_run (chart_init minX0 stepX0 rows) es) \<le> length (new_rows es)
       \<and> minX (chart_run (chart_init minX0 stepX0 rows) es) =
           calcDate (chart_init minX0 stepX0 rows)
             (int (length (new_rows es) - missedStepsCount (chart_run (chart_init minX0 stepX0 rows) es))) minX0
       \<and> requested (drawNewDataThrottle (chart_run (chart_init minX0 stepX0 rows) es)) =
           (0 < missedStepsCount (chart_run (chart_init minX0 stepX0 rows) es))"
proof -
  let ?ci = "chart_init minX0 stepX0 rows"
  have s: "stepX ?ci = stepX0" by (simp add: chart_init_def Let_def)
  have s0: "0 \<le> stepX ?ci" using assms(1) s by simp
  have inv: "chart_inv minX0 (length (new_rows es)) (chart_run ?ci es)"
    using chart_inv_run [OF chart_inv_init [OF assms(2)] s0 assms(2)] by simp
  have "calcDate (chart_run ?ci es) = calcDate ?ci"
    using s by (simp add: calcDate_def fun_eq_iff split: option.splits)
  moreover have "data ?ci = rows" by (simp add: chart_init_def Let_def)
  ultimately show ?thesis using inv chart_run_data [of ?ci es] by (simp add: chart_inv_def)
qed

text \<open>
  C11: When a redraw timer ends the run, no step is missed and the full domain
  \<open>x\<close> spans the data window: it starts at the first date advanced by every
  row received and ends at the date of the last row.
\<close>

theorem chart_frame_consistent:
  assumes "0 \<le> stepX0" and "date_valid minX0"
  shows "missedStepsCount (chart_run (chart_init minX0 stepX0 rows) (es @ [DrawTimer])) = 0
       \<and> minX (chart_run (chart_init minX0 stepX0 rows) (es @ [DrawTimer])) =
           calcDate (chart_init minX0 stepX0 rows) (int (length (new_rows es))) minX0
       \<and> xDomain (chart_run (chart_init minX0 stepX0 rows) (es @ [DrawTimer])) =
           (minX (chart_run (chart_init minX0 stepX0 rows) (es @ [DrawTimer])),
            calcDate (chart_init minX0 stepX0 rows) (int (length rows) - 1)
              (minX (chart_run (chart_init minX0 stepX0 rows) (es @ [DrawTimer]))))"
proof -
  let ?ci = "chart_init minX0 stepX0 rows"
  let ?c = "chart_run ?ci (es @ [DrawTimer])"
  have s: "stepX ?ci = stepX0" by (simp add: chart_init_def Let_def)
  have s0: "0 \<le> stepX ?ci" using assms(1) s by simp
  have inv: "chart_inv minX0 (length (new_rows (es @ [DrawTimer]))) ?c"
    using chart_inv_run [OF chart_inv_init [OF assms(2)] s0 assms(2)] by simp
  have run: "?c = chart_fire (chart_run ?ci es)" by (simp add: chart_run_append)
  have nr: "new_rows (es @ [DrawTimer]) = new_rows es" by (induction es rule: new_rows.induct) simp_all
  have inv': "chart_inv minX0 (length (new_rows es)) (chart_run ?ci es)"
    using chart_inv_run [OF chart_inv_init [OF assms(2)] s0 assms(2)] by simp
  have z: "missedStepsCount ?c = 0" using chart_fire_missed_zero [OF inv'] run by simp
  have "calcDate ?c = calcDate ?ci" using s by (simp add: calcDate_def fun_eq_iff split: option.splits)
  moreover have "length (data ?c) = length rows"
    using chart_run_data [of ?ci "es @ [DrawTimer]"] by (simp add: chart_init_def Let_def)
  ultimately show ?thesis using inv z nr by (simp add: chart_inv_def)
qed

text \<open>
  C7: \<open>getZoomIntervalY\<close> returns the least and the greatest index whose date
  lies in the sub-interval, and \<open>(intervalSize, 0)\<close> when there is none.
\<close>

theorem getZoomIntervalY_spec:
  "getZoomIntervalY c xs n =
     (if {i. i < n \<and> zoom_in_range c xs i} = {} then (n, 0)
      else (Min {i. i < n \<and> zoom_in_range c xs i}, Max {i. i < n \<and> zoom_in_range c xs i}))"
  unfolding getZoomIntervalY_def by (rule zoom_fold) simp

text \<open>
  A zoomed window that falls between two samples selects no index, and the
  interval handed to \<open>tree.getMinMax\<close> is \<open>(3, 0)\<close>: it starts past the last
  index and ends before it starts. Three daily samples from time 0, window
  from 1.2 to 1.8 days.
\<close>

theorem getZoomIntervalY_between_samples:
  "getZoomIntervalY (chart_init (Some 0) 86400000 [(), (), ()]) (Some 103680000, Some 155520000) 3 = (3, 0)"
  by code_simp


text \<open>
  C19: Bounds of the interval \<open>zoom\<close> hands to \<open>getMinMax\<close>: \<open>from\<close> is at most
  \<open>intervalSize\<close> and \<open>to\<close> is a valid index; \<open>from\<close> is a valid index
  exactly when some date lies in the window, and then \<open>from \<le> to\<close>.
\<close>

theorem getZoomIntervalY_bounds:
  "fst (getZoomIntervalY c xs n) \<le> n
   \<and> (0 < n \<longrightarrow> snd (getZoomIntervalY c xs n) < n)
   \<and> (fst (getZoomIntervalY c xs n) < n \<longleftrightarrow> (\<exists>i<n. zoom_in_range c xs i))
   \<and> (fst (getZoomIntervalY c xs n) < n \<longrightarrow> fst (getZoomIntervalY c xs n) \<le> snd (getZoomIntervalY c xs n))"
proof (cases "{i. i < n \<and> zoom_in_range c xs i} = {}")
  case True
  have g: "getZoomIntervalY c xs n = (n, 0)"
    unfolding getZoomIntervalY_def using True by (subst zoom_fold) simp_all
  show ?thesis using True unfolding g by auto
next
  case False
  have g: "getZoomIntervalY c xs n =
      (Min {i. i < n \<and> zoom_in_range c xs i}, Max {i. i < n \<and> zoom_in_range c xs i})"
    unfolding getZoomIntervalY_def by (subst zoom_fold) (simp_all only: if_not_P [OF False] order_refl)
  show ?thesis using zoom_interval_set_bounds [OF False] False unfolding g by (auto simp del: Max_less_iff)
qed

text \<open>
  C8: The vertical part of \<open>zoom\<close> is right on pixels: if the chart's scale
  \<open>y\<close> is not degenerate and the new extent is, applying \<open>y\<close> and then the
  computed \<open>(scaleY, translateY)\<close> is the new axis scale
  \<open>ry = scaleLinear().range([height, 0]).domain(domainY)\<close> (line 90).
\<close>

theorem zoomY_matches_new_axis:
  fixes y :: "real AR1"
  assumes "fst (m y) \<noteq> 0" and "ymin \<noteq> ymax"
  shows "composeWith y \<lparr>m = zoomY y (h, 0) (ymin, ymax)\<rparr> = betweenBasesAR1 (ymin, ymax) (h, 0)"
proof (rule ar1_unique [OF assms(2)])
  let ?Y0 = "applyToPoint y ymin" and ?Y1 = "applyToPoint y ymax"
  have ne: "?Y0 \<noteq> ?Y1" using assms by simp
  have z: "zoomY y (h, 0) (ymin, ymax) = (h / (?Y0 - ?Y1), h / (?Y0 - ?Y1) * (0 - ?Y1))"
    by (simp add: zoomY_def Let_def del: applyToPoint_eq)
  have e: "applyToPoint \<lparr>m = zoomY y (h, 0) (ymin, ymax)\<rparr> ?Y0 = h
      \<and> applyToPoint \<lparr>m = zoomY y (h, 0) (ymin, ymax)\<rparr> ?Y1 = 0"
    unfolding z using ne by (intro zoomY_maps_extent) simp
  have "applyToPoint (composeWith y \<lparr>m = zoomY y (h, 0) (ymin, ymax)\<rparr>) ymin = h"
    using e by (simp only: applyToPoint_composeWith)
  moreover have "applyToPoint (composeWith y \<lparr>m = zoomY y (h, 0) (ymin, ymax)\<rparr>) ymax = 0"
    using e by (simp only: applyToPoint_composeWith)
  moreover have "applyToPoint (betweenBasesAR1 (ymin, ymax) (h, 0)) ymin = h"
    and "applyToPoint (betweenBasesAR1 (ymin, ymax) (h, 0)) ymax = 0"
    by (fact betweenBasesAR1_maps [OF assms(2)])+
  ultimately show "applyToPoint (composeWith y \<lparr>m = zoomY y (h, 0) (ymin, ymax)\<rparr>) ymin =
      applyToPoint (betweenBasesAR1 (ymin, ymax) (h, 0)) ymin"
    and "applyToPoint (composeWith y \<lparr>m = zoomY y (h, 0) (ymin, ymax)\<rparr>) ymax =
      applyToPoint (betweenBasesAR1 (ymin, ymax) (h, 0)) ymax" by simp_all
qed


text \<open>
  On JavaScript numbers a degenerate vertical extent does not fail: equal
  minimum and maximum (all samples equal) give a non-finite \<open>scaleY\<close>, and the
  extent \<open>(Infinity, -Infinity)\<close> of a window without valid samples gives
  \<open>scaleY = 0\<close> and \<open>translateY = NaN\<close>.
\<close>

theorem zoomY_degenerate_js:
  assumes "a \<noteq> 0"
  shows "\<not> js_finite (fst (zoomY y (Num h, Num 0) (v, v)))
       \<and> zoomY \<lparr>m = (Num a, Num b)\<rparr> (Num h, Num 0) (PosInf, NegInf) = (Num 0, NaN)"
proof -
  have "\<not> js_finite (fst (zoomY y (Num h, Num 0) (v, v)))"
    by (cases "js_finite (applyToPoint y v)")
       (simp_all add: zoomY_def Let_def js_sub_self js_div_by_zero_nonfinite del: applyToPoint_eq)
  then show ?thesis using zoomY_empty_extent_js [OF assms] by simp
qed

subsection \<open>Witnesses\<close>

theorem chart_run_sliding_window_witness:
  "0 \<le> (86400000 :: int) \<and> date_valid (Some 0)
   \<and> data (chart_run (chart_init (Some 0) 86400000 [1, 2 :: nat]) [NewData 3, NewData 4, DrawTimer]) = [3, 4]"
proof -
  have h: "0 \<le> (86400000 :: int)" "date_valid (Some 0)" by (simp_all add: date_valid_def date_limit_def)
  show ?thesis
    using h chart_run_sliding_window [OF h, where rows = "[1, 2 :: nat]" and es = "[NewData 3, NewData 4, DrawTimer]"]
    by simp
qed

theorem chart_frame_consistent_witness:
  "0 \<le> (86400000 :: int) \<and> date_valid (Some 0)
   \<and> minX (chart_run (chart_init (Some 0) 86400000 [1, 2 :: nat]) [NewData 3, DrawTimer]) = Some 86400000
   \<and> missedStepsCount (chart_run (chart_init (Some 0) 86400000 [1, 2 :: nat]) [NewData 3, DrawTimer]) = 0"
proof -
  have h: "0 \<le> (86400000 :: int)" "date_valid (Some 0)" by (simp_all add: date_valid_def date_limit_def)
  show ?thesis
    using h chart_frame_consistent [OF h, where rows = "[1, 2 :: nat]" and es = "[NewData 3]"]
    by (simp add: calcDate_def chart_init_def timeClip_def date_limit_def Let_def)
qed

theorem getZoomIntervalY_bounds_witness:
  "fst (getZoomIntervalY (chart_init (Some 0) 86400000 [(), (), ()]) (Some 0, Some 86400000) 3) = 0
   \<and> snd (getZoomIntervalY (chart_init (Some 0) 86400000 [(), (), ()]) (Some 0, Some 86400000) 3) = 1
   \<and> (0 :: nat) < 3"
proof -
  have "getZoomIntervalY (chart_init (Some 0) 86400000 [(), (), ()]) (Some 0, Some 86400000) 3 = (0, 1)"
    by code_simp
  then show ?thesis using getZoomIntervalY_bounds [of "chart_init (Some 0) 86400000 [(), (), ()]"
      "(Some 0, Some 86400000)" 3] by simp
qed

theorem zoomY_matches_new_axis_witness:
  "fst (m \<lparr>m = (2 :: real, 1)\<rparr>) \<noteq> 0 \<and> (10 :: real) \<noteq> 0
   \<and> composeWith \<lparr>m = (2 :: real, 1)\<rparr> \<lparr>m = zoomY \<lparr>m = (2 :: real, 1)\<rparr> (100, 0) (10, 0)\<rparr> = \<lparr>m = (10, 0)\<rparr>"
  using zoomY_matches_new_axis [where y = "\<lparr>m = (2 :: real, 1)\<rparr>" and ymin = 10 and ymax = 0 and h = 100]
  by (simp add: betweenBasesAR1_def)

theorem zoomY_degenerate_js_witness:
  "(2 :: real) \<noteq> 0
   \<and> \<not> js_finite (fst (zoomY \<lparr>m = (Num 1, Num 0)\<rparr> (Num 100, Num 0) (Num 5, Num 5)))
   \<and> zoomY \<lparr>m = (Num 2, Num 3)\<rparr> (Num 100, Num 0) (PosInf, NegInf) = (Num 0, NaN)"
  using zoomY_degenerate_js [where a = 2 and b = 3 and h = 100 and y = "\<lparr>m = (Num 1, Num 0)\<rparr>" and v = "Num 5"]
  by simp

end
