(* ===== verification/SegmentTuple.thy ===== *)
theory SegmentTuple
  imports JSNumber
begin

text \<open>
  The leaf function of the demos' segment tree, \<open>buildSegmentTreeTuple\<close>
  (src/demos/common.ts), and the range query it feeds. The rows of the chart
  are JavaScript arrays whose cells are numbers, \<open>null\<close> or \<open>undefined\<close>
  (a missing cell reads as \<open>undefined\<close>); a row itself may be
  \<open>undefined\<close> (None), and reading a cell of it throws a TypeError.
  \<open>isNaN\<close> and \<open>Math.min\<close>/\<open>Math.max\<close> convert their arguments with
  ToNumber, which sends \<open>null\<close> to 0 and \<open>undefined\<close> to NaN.
  The segment tree itself (segmentTree.ts) is not part of the repository: its
  query is modelled from the range-aggregation contract of the specification
  as a fold of the leaves over the index range.
\<close>

datatype jsval = JNum jsnum | JNull | JUndefined

type_synonym row = "jsval list option"

datatype js_error = TypeError

record IMinMax =
  mm_min :: jsnum
  mm_max :: jsnum

fun ToNumber :: "jsval \<Rightarrow> jsnum" where
  "ToNumber (JNum x) = x"
| "ToNumber JNull = Num 0"
| "ToNumber JUndefined = NaN"

definition isNaN :: "jsval \<Rightarrow> bool" where
  "isNaN v = js_isNaN (ToNumber v)"

text \<open>\<open>elements[index][k]\<close>: out of range an array reads \<open>undefined\<close>, and indexing \<open>undefined\<close> throws.\<close>

definition row_cell :: "jsval list \<Rightarrow> nat \<Rightarrow> jsval" where
  "row_cell r k = (if k < length r then r ! k else JUndefined)"

definition cell :: "row list \<Rightarrow> nat \<Rightarrow> nat \<Rightarrow> js_error + jsval" where
  "cell elements index k =
     (if index < length elements then
        (case elements ! index of
           None \<Rightarrow> Inl TypeError
         | Some r \<Rightarrow> Inr (row_cell r k))
      else Inl TypeError)"

definition buildSegmentTreeTuple :: "nat \<Rightarrow> row list \<Rightarrow> js_error + IMinMax" where
  "buildSegmentTreeTuple index elements =
     (case cell elements index 0 of Inl e \<Rightarrow> Inl e | Inr ny \<Rightarrow>
      case cell elements index 1 of Inl e \<Rightarrow> Inl e | Inr sf \<Rightarrow>
        (let nyMinValue = (if isNaN ny then JNum PosInf else ny);
             nyMaxValue = (if isNaN ny then JNum NegInf else ny);
             sfMinValue = (if isNaN sf then JNum PosInf else sf);
             sfMaxValue = (if isNaN sf then JNum NegInf else sf)
         in Inr \<lparr>mm_min = Math_min (ToNumber nyMinValue) (ToNumber sfMinValue),
                 mm_max = Math_max (ToNumber nyMaxValue) (ToNumber sfMaxValue)\<rparr>))"

text \<open>
  The tree: one leaf per row, built by \<open>new SegmentTree(data, data.length,
  buildSegmentTreeTuple)\<close>; construction throws if a leaf does.
\<close>

fun build_leaves :: "row list \<Rightarrow> nat list \<Rightarrow> js_error + IMinMax list" where
  "build_leaves elements [] = Inr []"
| "build_leaves elements (i # idxs) =
     (case buildSegmentTreeTuple i elements of
        Inl e \<Rightarrow> Inl e
      | Inr t \<Rightarrow> (case build_leaves elements idxs of Inl e \<Rightarrow> Inl e | Inr ts \<Rightarrow> Inr (t # ts)))"

definition SegmentTree :: "row list \<Rightarrow> js_error + IMinMax list" where
  "SegmentTree elements = build_leaves elements [0..<length elements]"

text \<open>
  The query \<open>getMinMax(from, to)\<close> of the range-aggregation contract: the
  leaves of the indices \<open>from..to\<close> inside the tree, combined by minimum
  and maximum from the empty bound \<open>(Infinity, -Infinity)\<close>, which is also
  the answer on an empty range.
\<close>

definition mm_combine :: "IMinMax \<Rightarrow> IMinMax \<Rightarrow> IMinMax" where
  "mm_combine a b = \<lparr>mm_min = Math_min (mm_min a) (mm_min b), mm_max = Math_max (mm_max a) (mm_max b)\<rparr>"

definition mm_empty :: IMinMax where
  "mm_empty = \<lparr>mm_min = PosInf, mm_max = NegInf\<rparr>"

definition getMinMax :: "IMinMax list \<Rightarrow> nat \<Rightarrow> nat \<Rightarrow> IMinMax" where
  "getMinMax leaves from to =
     foldl mm_combine mm_empty (map (\<lambda>i. leaves ! i) [from..<min (Suc to) (length leaves)])"

text \<open>
  The specification's reading of a leaf: the valid samples of the row's two
  cells (NaN and missing entries excluded) folded into the empty bound.
\<close>

definition valid_samples :: "jsval list \<Rightarrow> jsnum list" where
  "valid_samples vs = filter (\<lambda>x. x \<noteq> NaN) (map ToNumber (filter (\<lambda>v. v \<noteq> JNull) vs))"

definition row_cells :: "jsval list \<Rightarrow> jsval list" where
  "row_cells r = [row_cell r 0, row_cell r 1]"

definition leaf_spec :: "jsval list \<Rightarrow> IMinMax" where
  "leaf_spec vs = foldl mm_combine mm_empty (map (\<lambda>x. \<lparr>mm_min = x, mm_max = x\<rparr>) (valid_samples vs))"

text \<open>
  The shape of a well-formed bound (the type of the tree's values): no NaN,
  and either the empty bound or \<open>min <= max\<close>.
\<close>

definition leaf_wf :: "IMinMax \<Rightarrow> bool" where
  "leaf_wf x = (mm_min x \<noteq> NaN \<and> mm_max x \<noteq> NaN \<and> (x = mm_empty \<or> js_le (mm_min x) (mm_max x)))"

subsection \<open>Leaf lemmas\<close>

lemma Math_min_PosInf [simp]: "Math_min PosInf x = x"
  by (cases x) (simp_all add: Math_min_def)

lemma Math_max_NegInf [simp]: "Math_max NegInf x = x"
  by (cases x) (simp_all add: Math_max_def)

lemma Math_min_PosInf_right [simp]: "Math_min x PosInf = x"
  by (cases x) (simp_all add: Math_min_def)

lemma Math_max_NegInf_right [simp]: "Math_max x NegInf = x"
  by (cases x) (simp_all add: Math_max_def)

lemma cell_Some [simp]:
  "index < length elements \<Longrightarrow> elements ! index = Some r \<Longrightarrow> cell elements index k = Inr (row_cell r k)"
  by (simp add: cell_def)

text \<open>The two cells' bounds, as the code computes them once both are read.\<close>

lemma buildSegmentTreeTuple_cells:
  assumes "index < length elements" and "elements ! index = Some r"
  shows "buildSegmentTreeTuple index elements =
           Inr \<lparr>mm_min = Math_min (if isNaN (row_cell r 0) then PosInf else ToNumber (row_cell r 0))
                                  (if isNaN (row_cell r 1) then PosInf else ToNumber (row_cell r 1)),
               mm_max = Math_max (if isNaN (row_cell r 0) then NegInf else ToNumber (row_cell r 0))
                                  (if isNaN (row_cell r 1) then NegInf else ToNumber (row_cell r 1))\<rparr>"
  using assms by (simp add: buildSegmentTreeTuple_def Let_def)

lemma leaf_pair_spec:
  assumes "v \<noteq> JNull" and "w \<noteq> JNull"
  shows "\<lparr>mm_min = Math_min (if isNaN v then PosInf else ToNumber v) (if isNaN w then PosInf else ToNumber w),
          mm_max = Math_max (if isNaN v then NegInf else ToNumber v) (if isNaN w then NegInf else ToNumber w)\<rparr>
         = leaf_spec [v, w]"
  using assms
  by (cases "isNaN v"; cases "isNaN w")
     (simp_all add: leaf_spec_def valid_samples_def mm_combine_def mm_empty_def isNaN_def js_isNaN_def)

lemma cell_Inl: "(\<exists>e. cell elements index k = Inl e) = (length elements \<le> index \<or> elements ! index = None)"
  by (auto simp: cell_def split: option.splits)

lemma buildSegmentTreeTuple_Inl:
  "length elements \<le> i \<or> elements ! i = None \<Longrightarrow> buildSegmentTreeTuple i elements = Inl TypeError"
  by (auto simp: buildSegmentTreeTuple_def cell_def)

lemma buildSegmentTreeTuple_Inr:
  "\<not> (length elements \<le> i \<or> elements ! i = None) \<Longrightarrow> buildSegmentTreeTuple i elements = Inr (projr (buildSegmentTreeTuple i elements))"
  by (auto simp: buildSegmentTreeTuple_cells)

lemma build_leaves_spec:
  "build_leaves elements idxs =
     (if \<exists>i\<in>set idxs. length elements \<le> i \<or> elements ! i = None then Inl TypeError
      else Inr (map (\<lambda>i. projr (buildSegmentTreeTuple i elements)) idxs))"
proof (induction idxs)
  case Nil
  then show ?case by simp
next
  case (Cons i idxs)
  show ?case
  proof (cases "length elements \<le> i \<or> elements ! i = None")
    case True
    then show ?thesis by (simp add: buildSegmentTreeTuple_Inl)
  next
    case False
    have "build_leaves elements (i # idxs) =
            (case build_leaves elements idxs of
               Inl e \<Rightarrow> Inl e | Inr ts \<Rightarrow> Inr (projr (buildSegmentTreeTuple i elements) # ts))"
      by (subst build_leaves.simps, subst buildSegmentTreeTuple_Inr [OF False]) simp
    then show ?thesis using Cons.IH False by (simp split: if_splits)
  qed
qed

subsection \<open>The query as a monoid fold\<close>

lemma Math_min_assoc: "Math_min (Math_min a b) c = Math_min a (Math_min b c)"
  by (cases a; cases b; cases c) (auto simp: Math_min_def)

lemma Math_max_assoc: "Math_max (Math_max a b) c = Math_max a (Math_max b c)"
  by (cases a; cases b; cases c) (auto simp: Math_max_def)

lemma mm_combine_assoc: "mm_combine (mm_combine a b) c = mm_combine a (mm_combine b c)"
  by (simp add: mm_combine_def Math_min_assoc Math_max_assoc)

lemma mm_combine_empty [simp]: "mm_combine mm_empty x = x" "mm_combine x mm_empty = x"
  by (simp_all add: mm_combine_def mm_empty_def)

lemma foldl_mm_combine:
  "foldl mm_combine a xs = mm_combine a (foldl mm_combine mm_empty xs)"
proof (induction xs arbitrary: a)
  case Nil
  then show ?case by simp
next
  case (Cons x xs)
  then show ?case by (metis foldl_Cons mm_combine_assoc mm_combine_empty(1))
qed

lemma foldl_mm_combine_concat:
  "foldl mm_combine a (map (\<lambda>i. foldl mm_combine mm_empty (g i)) idxs) =
     foldl mm_combine a (concat (map g idxs))"
proof (induction idxs arbitrary: a)
  case Nil
  then show ?case by simp
next
  case (Cons i idxs)
  then show ?case by (simp add: foldl_mm_combine [of a "g i"])
qed

lemma valid_samples_concat: "valid_samples (concat vss) = concat (map valid_samples vss)"
  by (induction vss) (simp_all add: valid_samples_def)

lemma leaf_spec_concat:
  "leaf_spec (concat (map g idxs)) = foldl mm_combine mm_empty (map (\<lambda>i. leaf_spec (g i)) idxs)"
  unfolding leaf_spec_def valid_samples_concat map_concat
  by (subst foldl_mm_combine_concat) (simp add: o_def)

lemma SegmentTree_spec:
  "SegmentTree elements =
     (if None \<in> set elements then Inl TypeError
      else Inr (map (\<lambda>i. projr (buildSegmentTreeTuple i elements)) [0..<length elements]))"
proof -
  have "(\<exists>i\<in>set [0..<length elements]. length elements \<le> i \<or> elements ! i = None) = (None \<in> set elements)"
    by (auto simp: in_set_conv_nth)
  then show ?thesis by (simp add: SegmentTree_def build_leaves_spec)
qed

lemma leaf_of_row:
  assumes "index < length elements" and "elements ! index = Some r" and "JNull \<notin> set (row_cells r)"
  shows "buildSegmentTreeTuple index elements = Inr (leaf_spec (row_cells r))"
proof -
  have n: "row_cell r 0 \<noteq> JNull" "row_cell r 1 \<noteq> JNull" using assms(3) by (auto simp: row_cells_def)
  show ?thesis
    by (simp only: buildSegmentTreeTuple_cells [OF assms(1,2)] leaf_pair_spec [OF n] row_cells_def)
qed

subsection \<open>Well-formed bounds\<close>

lemma leaf_wf_empty [simp]: "leaf_wf mm_empty"
  by (simp add: leaf_wf_def mm_empty_def)

lemma leaf_wf_combine:
  assumes "leaf_wf a" and "leaf_wf b"
  shows "leaf_wf (mm_combine a b)"
proof (cases "a = mm_empty \<or> b = mm_empty")
  case True
  then show ?thesis using assms by auto
next
  case False
  then have a: "mm_min a \<noteq> NaN" "mm_max a \<noteq> NaN" "js_le (mm_min a) (mm_max a)"
    and b: "mm_min b \<noteq> NaN" "mm_max b \<noteq> NaN" "js_le (mm_min b) (mm_max b)"
    using assms by (auto simp: leaf_wf_def)
  have "js_le (Math_min (mm_min a) (mm_min b)) (mm_max a)"
    using Math_min_le [OF a(1) b(1)] a(3) js_le_trans by blast
  then have "js_le (Math_min (mm_min a) (mm_min b)) (Math_max (mm_max a) (mm_max b))"
    using Math_max_ge [OF a(2) b(2)] js_le_trans by blast
  then show ?thesis using a b by (simp add: leaf_wf_def mm_combine_def)
qed

lemma foldl_leaf_wf:
  "leaf_wf a \<Longrightarrow> \<forall>x\<in>set xs. leaf_wf x \<Longrightarrow> leaf_wf (foldl mm_combine a xs)"
  by (induction xs arbitrary: a) (simp_all add: leaf_wf_combine)

lemma buildSegmentTreeTuple_wf:
  assumes "buildSegmentTreeTuple index elements = Inr l"
  shows "leaf_wf l"
proof -
  have ok: "\<not> (length elements \<le> index \<or> elements ! index = None)"
  proof
    assume "length elements \<le> index \<or> elements ! index = None"
    then show False using assms by (simp add: buildSegmentTreeTuple_Inl)
  qed
  then have i: "index < length elements" by simp
  obtain r where r: "elements ! index = Some r" using ok by auto
  let ?v = "row_cell r 0" and ?w = "row_cell r 1"
  have l: "l = \<lparr>mm_min = Math_min (if isNaN ?v then PosInf else ToNumber ?v) (if isNaN ?w then PosInf else ToNumber ?w),
               mm_max = Math_max (if isNaN ?v then NegInf else ToNumber ?v) (if isNaN ?w then NegInf else ToNumber ?w)\<rparr>"
    using assms buildSegmentTreeTuple_cells [OF i r] by simp
  show ?thesis
  proof (cases "isNaN ?v"; cases "isNaN ?w")
    assume "\<not> isNaN ?v" "\<not> isNaN ?w"
    then have v: "ToNumber ?v \<noteq> NaN" and w: "ToNumber ?w \<noteq> NaN" by (simp_all add: isNaN_def js_isNaN_def)
    have "js_le (Math_min (ToNumber ?v) (ToNumber ?w)) (Math_max (ToNumber ?v) (ToNumber ?w))"
      using Math_min_le [OF v w] Math_max_ge [OF v w] js_le_trans by blast
    then show ?thesis using v w \<open>\<not> isNaN ?v\<close> \<open>\<not> isNaN ?w\<close> unfolding l leaf_wf_def by simp
  qed (auto simp: l leaf_wf_def mm_empty_def isNaN_def js_isNaN_def intro: js_le_refl)
qed

lemma getMinMax_as_leaf_spec:
  assumes "SegmentTree elements = Inr ls"
    and "\<forall>r. Some r \<in> set elements \<longrightarrow> JNull \<notin> set (row_cells r)"
    and "to < length elements"
  shows "getMinMax ls from to = leaf_spec (concat (map (\<lambda>i. row_cells (the (elements ! i))) [from..<Suc to]))"
proof -
  have none: "None \<notin> set elements" and
    ls: "ls = map (\<lambda>i. projr (buildSegmentTreeTuple i elements)) [0..<length elements]"
    using assms(1) by (simp_all add: SegmentTree_spec split: if_splits)
  have leaf: "ls ! i = leaf_spec (row_cells (the (elements ! i)))" if i: "i < length elements" for i
  proof -
    obtain r where r: "elements ! i = Some r"
      using none i by (cases "elements ! i") (auto simp: in_set_conv_nth)
    have "JNull \<notin> set (row_cells r)" using assms(2) r i by (metis nth_mem)
    then show ?thesis using i r ls leaf_of_row [OF i r] by simp
  qed
  have "map (\<lambda>i. ls ! i) [from..<Suc to] = map (\<lambda>i. leaf_spec (row_cells (the (elements ! i)))) [from..<Suc to]"
    using assms(3) leaf by (intro map_cong) auto
  moreover have "getMinMax ls from to = foldl mm_combine mm_empty (map (\<lambda>i. ls ! i) [from..<Suc to])"
    using assms(3) ls by (simp add: getMinMax_def min_absorb1 del: upt_Suc)
  ultimately show ?thesis by (simp only: leaf_spec_concat)
qed

subsection \<open>Properties of the leaves and the query\<close>

text \<open>
  C25: The query over the leaves \<open>buildSegmentTreeTuple\<close> builds is the
  specification's range aggregation: on rows without \<open>null\<close> cells,
  \<open>getMinMax(from, to)\<close> is the minimum and maximum of the valid samples
  (NaN and missing cells excluded) of the rows \<open>from..to\<close>, and the empty
  bound \<open>(Infinity, -Infinity)\<close> when there is none.
\<close>

theorem getMinMax_refines_spec:
  assumes "SegmentTree elements = Inr ls"
    and "\<forall>r. Some r \<in> set elements \<longrightarrow> JNull \<notin> set (row_cells r)"
    and "to < length elements"
  shows "getMinMax ls from to = leaf_spec (concat (map (\<lambda>i. row_cells (the (elements ! i))) [from..<Suc to]))"
  using assms by (rule getMinMax_as_leaf_spec)


text \<open>
  C31: Building the tree throws a TypeError exactly when a row is \<open>undefined\<close>
  (as the demo's feed pushes when its data is empty); otherwise leaf \<open>i\<close> is
  \<open>buildSegmentTreeTuple(i, data)\<close>.
\<close>

theorem SegmentTree_fails_iff_undefined_row:
  "(SegmentTree elements = Inl TypeError) = (None \<in> set elements)
   \<and> (\<forall>ls. SegmentTree elements = Inr ls \<longrightarrow>
        length ls = length elements \<and> (\<forall>i<length elements. buildSegmentTreeTuple i elements = Inr (ls ! i)))"
proof -
  have "buildSegmentTreeTuple i elements = Inr (projr (buildSegmentTreeTuple i elements))"
    if "None \<notin> set elements" and "i < length elements" for i
    using that by (intro buildSegmentTreeTuple_Inr) (auto simp: in_set_conv_nth)
  then show ?thesis by (auto simp: SegmentTree_spec)
qed

text \<open>
  C18: Every value the tree holds is a well-formed bound: each leaf
  \<open>buildSegmentTreeTuple\<close> builds has no NaN and is either the empty
  bound \<open>(Infinity, -Infinity)\<close> or has \<open>min <= max\<close>, and so is the answer
  of every query over them.
\<close>

theorem SegmentTree_leaves_wf:
  assumes "SegmentTree elements = Inr ls"
  shows "(\<forall>l\<in>set ls. leaf_wf l) \<and> leaf_wf (getMinMax ls from to)"
proof -
  have none: "None \<notin> set elements" and
    ls: "ls = map (\<lambda>i. projr (buildSegmentTreeTuple i elements)) [0..<length elements]"
    using assms by (simp_all add: SegmentTree_spec split: if_splits)
  have "leaf_wf (projr (buildSegmentTreeTuple i elements))" if i: "i < length elements" for i
  proof -
    have "\<not> (length elements \<le> i \<or> elements ! i = None)"
      using i none by (auto simp: in_set_conv_nth)
    then show ?thesis by (intro buildSegmentTreeTuple_wf) (rule buildSegmentTreeTuple_Inr)
  qed
  then have all: "\<forall>l\<in>set ls. leaf_wf l" using ls by auto
  moreover have "\<forall>x\<in>set (map (\<lambda>i. ls ! i) [from..<min (Suc to) (length ls)]). leaf_wf x"
    using all by auto
  ultimately show ?thesis by (simp add: getMinMax_def foldl_leaf_wf)
qed

subsection \<open>Witnesses\<close>

theorem getMinMax_refines_spec_witness:
  "SegmentTree [Some [JNum (Num 1), JNum NaN], Some [JNum (Num 4)]] =
     Inr [\<lparr>mm_min = Num 1, mm_max = Num 1\<rparr>, \<lparr>mm_min = Num 4, mm_max = Num 4\<rparr>]
   \<and> row_cells [JNum (Num 1), JNum NaN] = [JNum (Num 1), JNum NaN]
   \<and> row_cells [JNum (Num 4)] = [JNum (Num 4), JUndefined]
   \<and> (1 :: nat) < length [Some [JNum (Num 1), JNum NaN], Some [JNum (Num 4)]]
   \<and> getMinMax [\<lparr>mm_min = Num 1, mm_max = Num 1\<rparr>, \<lparr>mm_min = Num 4, mm_max = Num 4\<rparr>] 0 1 =
       leaf_spec [JNum (Num 1), JNum NaN, JNum (Num 4), JUndefined]"
proof -
  have t: "SegmentTree [Some [JNum (Num 1), JNum NaN], Some [JNum (Num 4)]] =
     Inr [\<lparr>mm_min = Num 1, mm_max = Num 1\<rparr>, \<lparr>mm_min = Num 4, mm_max = Num 4\<rparr>]"
    by (simp add: SegmentTree_def upt_rec buildSegmentTreeTuple_def cell_def row_cell_def isNaN_def
                  js_isNaN_def)
  have n: "\<forall>r. Some r \<in> set [Some [JNum (Num 1), JNum NaN], Some [JNum (Num 4)]] \<longrightarrow> JNull \<notin> set (row_cells r)"
    by (auto simp: row_cells_def row_cell_def)
  have l: "(1 :: nat) < length [Some [JNum (Num 1), JNum NaN], Some [JNum (Num 4)]]" by simp
  show ?thesis
    using t n l getMinMax_refines_spec [OF t n l, of 0] by (simp add: row_cells_def row_cell_def)
qed

theorem SegmentTree_fails_iff_undefined_row_witness:
  "SegmentTree [Some [JNum (Num 1), JNum (Num 2)], None] = Inl TypeError
   \<and> buildSegmentTreeTuple 0 [Some [JNum (Num 2), JNum (Num 1)]] = Inr \<lparr>mm_min = Num 1, mm_max = Num 2\<rparr>"
proof -
  have "None \<in> set [Some [JNum (Num 1), JNum (Num 2)], None]" by simp
  moreover have "SegmentTree [Some [JNum (Num 2), JNum (Num 1)]] = Inr [\<lparr>mm_min = Num 1, mm_max = Num 2\<rparr>]"
    by (simp add: SegmentTree_def buildSegmentTreeTuple_def cell_def row_cell_def isNaN_def js_isNaN_def
                  Math_min_def Math_max_def)
  ultimately show ?thesis
    using SegmentTree_fails_iff_undefined_row [of "[Some [JNum (Num 1), JNum (Num 2)], None]"]
          SegmentTree_fails_iff_undefined_row [of "[Some [JNum (Num 2), JNum (Num 1)]]"]
    by auto
qed

theorem SegmentTree_leaves_wf_witness:
  "SegmentTree [Some [JNum (Num 3), JNum NaN], Some [JNum NaN]] =
     Inr [\<lparr>mm_min = Num 3, mm_max = Num 3\<rparr>, mm_empty]
   \<and> leaf_wf (getMinMax [\<lparr>mm_min = Num 3, mm_max = Num 3\<rparr>, mm_empty] 0 1)"
proof -
  have t: "SegmentTree [Some [JNum (Num 3), JNum NaN], Some [JNum NaN]] =
     Inr [\<lparr>mm_min = Num 3, mm_max = Num 3\<rparr>, mm_empty]"
    by (simp add: SegmentTree_def upt_rec buildSegmentTreeTuple_def cell_def row_cell_def isNaN_def
                  js_isNaN_def mm_empty_def)
  show ?thesis using t SegmentTree_leaves_wf [OF t, of 0 1] by simp
qed

end
