(* ===== verification/Render.thy ===== *)
theory Render
  imports Chart SegmentTuple ViewWindow
begin

text \<open>
  What \<open>drawChart\<close> (src/draw.ts, lines 97-167) puts on the screen, without
  the DOM calls: the two paths drawn by d3's line generator \<open>drawLine\<close>
  (lines 120-125, 133-138, and again in \<open>drawNewData\<close> at line 196), the
  time scale \<open>x\<close> of the x axis (lines 107, 129) and the view-window mapper
  \<open>pathTransform\<close> that sets the view's initial transform (lines 157-160).
  A row is a JavaScript array of cells (SegmentTuple.thy); the line
  generator receives, for each row in order, either the point it draws or a
  gap, which breaks the line. A d3 continuous scale with a two-point domain
  is the affine map solved from the domain to the range; a time scale reads
  a Date as its time value, an Invalid Date as NaN.
\<close>

subsection \<open>The line generator\<close>

text \<open>\<open>d[cityIdx] == null\<close>: loose equality holds for \<open>null\<close> and \<open>undefined\<close>.\<close>

definition loose_null :: "jsval \<Rightarrow> bool" where
  "loose_null v = (v = JNull \<or> v = JUndefined)"

text \<open>
  One datum of \<open>drawLine(cityIdx)\<close>: the \<open>defined\<close> accessor
  \<open>!(isNaN(d[cityIdx]) || d[cityIdx] == null)\<close>, then the point
  \<open>(i, d[cityIdx])\<close> of the \<open>x\<close> and \<open>y\<close> accessors; reading a cell of an
  \<open>undefined\<close> row throws a TypeError.
\<close>

definition drawLine_point :: "nat \<Rightarrow> nat \<Rightarrow> row \<Rightarrow> js_error + (real \<times> jsnum) option" where
  "drawLine_point cityIdx i d =
     (case d of
        None \<Rightarrow> Inl TypeError
      | Some r \<Rightarrow>
          (let v = row_cell r cityIdx
           in if \<not> (isNaN v \<or> loose_null v) then Inr (Some (real i, ToNumber v)) else Inr None))"

text \<open>The generator visits the rows in order, from index \<open>i\<close>; an exception ends the visit.\<close>

fun drawLine_from :: "nat \<Rightarrow> nat \<Rightarrow> row list \<Rightarrow> js_error + (real \<times> jsnum) option list" where
  "drawLine_from cityIdx i [] = Inr []"
| "drawLine_from cityIdx i (d # ds) =
     (case drawLine_point cityIdx i d of
        Inl e \<Rightarrow> Inl e
      | Inr p \<Rightarrow> (case drawLine_from cityIdx (Suc i) ds of Inl e \<Rightarrow> Inl e | Inr ps \<Rightarrow> Inr (p # ps)))"

definition drawLine :: "nat \<Rightarrow> row list \<Rightarrow> js_error + (real \<times> jsnum) option list" where
  "drawLine cityIdx rows = drawLine_from cityIdx 0 rows"

text \<open>
  The two paths, bound to \<open>[0, 1]\<close> (lines 133-138; line 196 redraws them
  the same way from the current rows): the first throws before the second.
\<close>

definition drawChart_paths :: "row list \<Rightarrow> js_error + (real \<times> jsnum) option list list" where
  "drawChart_paths rows =
     (case drawLine 0 rows of
        Inl e \<Rightarrow> Inl e
      | Inr path0 \<Rightarrow> (case drawLine 1 rows of Inl e \<Rightarrow> Inl e | Inr path1 \<Rightarrow> Inr [path0, path1]))"

subsection \<open>The x scale and the initial view\<close>

text \<open>A Date as a number: its time value, NaN for an Invalid Date.\<close>

definition date_num :: "date \<Rightarrow> jsnum" where
  "date_num d = (case d of None \<Rightarrow> NaN | Some t \<Rightarrow> Num (real_of_int t))"

text \<open>
  \<open>x = scaleTime().range([0, width])\<close> (line 107), with the chart's current
  domain \<open>x.domain([minX, maxX])\<close> (lines 129 and 195).
\<close>

definition xScale :: "'r chart \<Rightarrow> real \<Rightarrow> jsnum AR1" where
  "xScale c w = betweenBasesAR1 (date_num (fst (xDomain c)), date_num (snd (xDomain c))) (Num 0, Num w)"

text \<open>
  \<open>pathTransform\<close> (lines 157-160): a fresh mapper over the view's
  transform, the viewport \<open>(width, height)\<close>, and the window from index 0 to
  \<open>data.length\<close> on x and over the tree's extent on y. The mapper computes
  on reals, so the extent is taken finite here.
\<close>

definition drawChart_view :: "real \<Rightarrow> real \<Rightarrow> nat \<Rightarrow> real \<Rightarrow> real \<Rightarrow> mapper" where
  "drawChart_view w h n ymin ymax =
     setViewWindow (setViewPort mapper_init w h) 0 (real n) ymin ymax"

text \<open>A bound contains a value when the value lies between its minimum and maximum.\<close>

definition mm_contains :: "IMinMax \<Rightarrow> jsnum \<Rightarrow> bool" where
  "mm_contains l v = (js_le (mm_min l) v \<and> js_le v (mm_max l))"

subsection \<open>Lemmas on the paths\<close>

lemma drawLine_from_spec:
  "drawLine_from k i rows =
     (if None \<in> set rows then Inl TypeError
      else Inr (map (\<lambda>j. projr (drawLine_point k (i + j) (rows ! j))) [0..<length rows]))"
proof (induction rows arbitrary: i)
  case Nil
  then show ?case by simp
next
  case (Cons d ds)
  show ?case
  proof (cases d)
    case None
    then show ?thesis by (simp add: drawLine_point_def)
  next
    case (Some r)
    have "map (\<lambda>j. projr (drawLine_point k (i + j) ((d # ds) ! j))) [0..<length (d # ds)] =
          projr (drawLine_point k i d) # map (\<lambda>j. projr (drawLine_point k (Suc i + j) (ds ! j))) [0..<length ds]"
      by (simp add: upt_conv_Cons map_Suc_upt [symmetric] del: upt_Suc)
    then show ?thesis using Cons.IH [of "Suc i"] Some
      by (simp add: drawLine_point_def Let_def)
  qed
qed

lemma drawLine_spec:
  "drawLine k rows =
     (if None \<in> set rows then Inl TypeError
      else Inr (map (\<lambda>j. projr (drawLine_point k j (rows ! j))) [0..<length rows]))"
  by (simp add: drawLine_def drawLine_from_spec)

lemma drawChart_paths_spec:
  "drawChart_paths rows =
     (if None \<in> set rows then Inl TypeError
      else Inr [projr (drawLine 0 rows), projr (drawLine 1 rows)])"
  by (simp add: drawChart_paths_def drawLine_spec)

text \<open>A drawn point of row \<open>j\<close>: its index, and a cell that is a number other than NaN.\<close>

lemma drawLine_point_Some:
  assumes "drawLine_point k j (Some r) = Inr (Some p)"
  shows "fst p = real j \<and> (\<exists>x. row_cell r k = JNum x \<and> x \<noteq> NaN \<and> snd p = x)"
  using assms
  by (cases "row_cell r k")
     (auto simp: drawLine_point_def Let_def loose_null_def isNaN_def js_isNaN_def split: if_splits)

lemma drawLine_mem:
  assumes "drawLine k rows = Inr ps" and "Some p \<in> set ps"
  shows "\<exists>j r x. j < length rows \<and> rows ! j = Some r \<and> fst p = real j
                 \<and> row_cell r k = JNum x \<and> x \<noteq> NaN \<and> snd p = x"
proof -
  have nn: "None \<notin> set rows" using assms(1) by (simp add: drawLine_spec split: if_splits)
  then obtain j where j: "j < length rows" and pj: "projr (drawLine_point k j (rows ! j)) = Some p"
    using assms by (auto simp: drawLine_spec)
  obtain r where r: "rows ! j = Some r" using nn j by (cases "rows ! j") (auto simp: in_set_conv_nth)
  have "drawLine_point k j (Some r) = Inr (Some p)"
    using pj r by (simp add: drawLine_point_def Let_def split: if_splits)
  then show ?thesis using drawLine_point_Some j r by blast
qed

subsection \<open>Bounds that contain a value\<close>

lemma mm_contains_combine:
  assumes "leaf_wf a" and "leaf_wf b"
  shows "mm_contains a v \<Longrightarrow> mm_contains (mm_combine a b) v"
    and "mm_contains b v \<Longrightarrow> mm_contains (mm_combine a b) v"
proof -
  have n: "mm_min a \<noteq> NaN" "mm_min b \<noteq> NaN" "mm_max a \<noteq> NaN" "mm_max b \<noteq> NaN"
    using assms by (simp_all add: leaf_wf_def)
  show "mm_contains a v \<Longrightarrow> mm_contains (mm_combine a b) v"
    using Math_min_le [OF n(1,2)] Math_max_ge [OF n(3,4)] js_le_trans
    unfolding mm_contains_def mm_combine_def by (metis IMinMax.select_convs)
  show "mm_contains b v \<Longrightarrow> mm_contains (mm_combine a b) v"
    using Math_min_le [OF n(1,2)] Math_max_ge [OF n(3,4)] js_le_trans
    unfolding mm_contains_def mm_combine_def by (metis IMinMax.select_convs)
qed

lemma foldl_mm_contains:
  assumes "leaf_wf a" and "\<forall>x\<in>set xs. leaf_wf x"
    and "mm_contains a v \<or> (\<exists>x\<in>set xs. mm_contains x v)"
  shows "mm_contains (foldl mm_combine a xs) v"
  using assms
proof (induction xs arbitrary: a)
  case Nil
  then show ?case by simp
next
  case (Cons x xs)
  have "leaf_wf (mm_combine a x)" using Cons.prems by (simp add: leaf_wf_combine)
  moreover have "mm_contains (mm_combine a x) v \<or> (\<exists>y\<in>set xs. mm_contains y v)"
    using Cons.prems mm_contains_combine [of a x v] by auto
  ultimately show ?case using Cons.IH Cons.prems(2) by simp
qed

text \<open>The leaf of a row contains each of its first two cells that is a number other than NaN.\<close>

lemma leaf_contains_cell:
  assumes "j < length rows" and "rows ! j = Some r" and "k < 2"
    and "row_cell r k = JNum x" and "x \<noteq> NaN"
  shows "mm_contains (projr (buildSegmentTreeTuple j rows)) x"
proof -
  let ?c = "\<lambda>i. row_cell r i"
  let ?lo = "\<lambda>i. if isNaN (?c i) then PosInf else ToNumber (?c i)"
  let ?hi = "\<lambda>i. if isNaN (?c i) then NegInf else ToNumber (?c i)"
  have nn: "?lo i \<noteq> NaN" "?hi i \<noteq> NaN" for i by (simp_all add: isNaN_def js_isNaN_def)
  have kx: "?lo k = x" "?hi k = x" using assms(4,5) by (simp_all add: isNaN_def js_isNaN_def)
  have lo: "js_le (Math_min (?lo 0) (?lo 1)) (?lo 0) \<and> js_le (Math_min (?lo 0) (?lo 1)) (?lo 1)"
    by (rule Math_min_le [OF nn(1) nn(1)])
  have hi: "js_le (?hi 0) (Math_max (?hi 0) (?hi 1)) \<and> js_le (?hi 1) (Math_max (?hi 0) (?hi 1))"
    by (rule Math_max_ge [OF nn(2) nn(2)])
  have "k = 0 \<or> k = 1" using assms(3) by arith
  then have "js_le (Math_min (?lo 0) (?lo 1)) (?lo k) \<and> js_le (?hi k) (Math_max (?hi 0) (?hi 1))"
    using lo hi by (elim disjE) (simp only:; blast)+
  then have "js_le (Math_min (?lo 0) (?lo 1)) x \<and> js_le x (Math_max (?hi 0) (?hi 1))"
    by (simp only: kx)
  then show ?thesis
    by (simp add: buildSegmentTreeTuple_cells [OF assms(1,2)] mm_contains_def)
qed


lemma drawChart_view_toScreen:
  "toScreen (drawChart_view w h n ymin ymax) X x = Inr (applyToPoint (betweenBasesAR1 (0, real n) (0, w)) x)"
  "toScreen (drawChart_view w h n ymin ymax) Y y = Inr (applyToPoint (betweenBasesAR1 (ymin, ymax) (0, h)) y)"
  by (simp_all add: drawChart_view_def setViewWindow_def setViewPort_def mapper_defs axis_recompute_def
      toScreen_def mapper_init_def axis_init_def del: applyToPoint_eq)

lemma chart_init_xDomain:
  "xDomain (chart_init m0 s rows) =
     (m0, case m0 of None \<Rightarrow> None | Some t \<Rightarrow> timeClip ((int (length rows) - 1) * s + t))"
  by (simp add: chart_init_def Let_def calcDate_def split: option.splits)

lemma SegmentTree_leaf_wf:
  assumes "SegmentTree rows = Inr ls"
  shows "\<forall>l\<in>set ls. leaf_wf l"
proof
  fix l assume "l \<in> set ls"
  then obtain i where i: "i < length rows" and l: "l = projr (buildSegmentTreeTuple i rows)"
    using assms by (auto simp: SegmentTree_spec split: if_splits)
  have "None \<notin> set rows" using assms by (simp add: SegmentTree_spec split: if_splits)
  then have "buildSegmentTreeTuple i rows = Inr l"
    using i l buildSegmentTreeTuple_Inr [of rows i] by (auto simp: in_set_conv_nth)
  then show "leaf_wf l" by (rule buildSegmentTreeTuple_wf)
qed

lemma calcDate_in_window:
  assumes "\<bar>t0\<bar> \<le> date_limit" and "\<bar>t0 + k * stepX c\<bar> \<le> date_limit"
    and "0 \<le> stepX c" and "0 \<le> i" and "i \<le> k"
  shows "calcDate c i (Some t0) = Some (i * stepX c + t0)"
proof -
  have "i * stepX c \<le> k * stepX c" using assms(3,5) by (simp add: mult_right_mono)
  moreover have "0 \<le> i * stepX c" using assms(3,4) by simp
  ultimately show ?thesis using assms(1,2) by (simp add: calcDate_def timeClip_def)
qed

lemma affine_two_points:
  fixes a b w x :: real
  assumes "a \<noteq> b"
  shows "applyToPoint (betweenBasesAR1 (a, b) (0, w)) x = w * (x - a) / (b - a)"
proof -
  have "applyToPoint (betweenBasesAR1 (a, b) (0, w)) x = ((0 - w) * x + a * w) / (a - b)"
    by (simp add: add_divide_distrib diff_divide_distrib)
  also have "\<dots> = w * (x - a) / (b - a)"
    using assms by (simp add: frac_eq_eq algebra_simps)
  finally show ?thesis .
qed

lemma affine_two_points_down:
  fixes a b h x :: real
  assumes "a \<noteq> b"
  shows "applyToPoint (betweenBasesAR1 (a, b) (h, 0)) x = h * (b - x) / (b - a)"
proof -
  have "applyToPoint (betweenBasesAR1 (a, b) (h, 0)) x = (h * x - b * h) / (a - b)"
    by (simp add: add_divide_distrib diff_divide_distrib)
  also have "\<dots> = h * (b - x) / (b - a)"
    using assms by (simp add: frac_eq_eq algebra_simps)
  finally show ?thesis .
qed

subsection \<open>Properties of the rendering\<close>

text \<open>
  C33: Every point drawn by the line generator lies between the minimum and
  the maximum of the whole tree, the domain drawChart gives the y scale.
\<close>

theorem drawLine_within_extent:
  assumes "SegmentTree rows = Inr ls" and "k < 2" and "drawLine k rows = Inr ps" and "Some p \<in> set ps"
  shows "js_le (mm_min (getMinMax ls 0 (length ls - 1))) (snd p)
       \<and> js_le (snd p) (mm_max (getMinMax ls 0 (length ls - 1)))"
proof -
  obtain j r x where j: "j < length rows" "rows ! j = Some r" and x: "row_cell r k = JNum x" "x \<noteq> NaN" "snd p = x"
    using drawLine_mem [OF assms(3,4)] by blast
  have nn: "None \<notin> set rows" using assms(1) by (simp add: SegmentTree_spec split: if_splits)
  have ls: "ls = map (\<lambda>i. projr (buildSegmentTreeTuple i rows)) [0..<length rows]"
    using assms(1) nn by (simp add: SegmentTree_spec)
  have n: "Suc (length ls - 1) = length ls" using j(1) by (simp add: ls)
  have q: "getMinMax ls 0 (length ls - 1) = foldl mm_combine mm_empty ls"
    by (simp only: getMinMax_def n min.idem map_nth)
  have "mm_contains (ls ! j) x" using leaf_contains_cell [OF j assms(2) x(1,2)] j(1) by (simp add: ls)
  moreover have "ls ! j \<in> set ls" using j(1) by (simp add: ls)
  ultimately have "mm_contains (foldl mm_combine mm_empty ls) x"
    using foldl_mm_contains [OF leaf_wf_empty SegmentTree_leaf_wf [OF assms(1)]] by blast
  then show ?thesis using q x(3) by (simp add: mm_contains_def)
qed

text \<open>
  C34: The initial view puts the path point of sample \<open>i\<close> at \<open>w i / n\<close>
  (window \<open>[0, data.length]\<close>) while the x axis puts its date at
  \<open>w i / (n - 1)\<close> (domain \<open>[minX, maxX]\<close>, \<open>maxX\<close> the last date): every
  sample but the first is drawn left of its date.
\<close>

theorem initial_view_x_misaligned:
  assumes n: "2 \<le> length rows" and s: "0 < stepX0" and w: "0 < w" and i: "0 < i" "i < length rows"
    and t0: "\<bar>t0\<bar> \<le> date_limit" and tN: "\<bar>t0 + (int (length rows) - 1) * stepX0\<bar> \<le> date_limit"
  shows "toScreen (drawChart_view w h (length rows) lo hi) X (real i) = Inr (w * real i / real (length rows))
       \<and> applyToPoint (xScale (chart_init (Some t0) stepX0 rows) w)
                      (date_num (calcDate (chart_init (Some t0) stepX0 rows) (int i) (Some t0)))
           = Num (w * real i / real (length rows - 1))
       \<and> w * real i / real (length rows) < w * real i / real (length rows - 1)"
proof -
  let ?c = "chart_init (Some t0) stepX0 rows" and ?n = "length rows"
  let ?tN = "(int ?n - 1) * stepX0 + t0"
  have st: "stepX ?c = stepX0" by (simp add: chart_init_def Let_def)
  have ci: "calcDate ?c (int i) (Some t0) = Some (int i * stepX0 + t0)"
    using calcDate_in_window [of t0 "int ?n - 1" ?c "int i"] t0 tN s i by (simp add: st algebra_simps)
  have dom: "xDomain ?c = (Some t0, Some ?tN)"
    using tN by (simp add: chart_init_xDomain timeClip_def algebra_simps)
  have ne: "real_of_int t0 \<noteq> real_of_int ?tN" using n s by simp
  have d: "real_of_int ?tN - real_of_int t0 = (real ?n - 1) * real_of_int stepX0" using n by simp
  have "applyToPoint (xScale ?c w) (date_num (calcDate ?c (int i) (Some t0)))
          = Num (w * (real_of_int (int i * stepX0 + t0) - real_of_int t0) / (real_of_int ?tN - real_of_int t0))"
    using ne by (simp add: xScale_def dom ci date_num_def betweenBasesAR1_js_refines js_applyToPoint affine_two_points
                 del: applyToPoint_eq betweenBasesAR1_m)
  also have "\<dots> = Num (w * real i / real (?n - 1))"
    using n s by (simp add: d of_nat_diff field_simps)
  finally have x: "applyToPoint (xScale ?c w) (date_num (calcDate ?c (int i) (Some t0))) = Num (w * real i / real (?n - 1))" .
  have v: "toScreen (drawChart_view w h ?n lo hi) X (real i) = Inr (w * real i / real ?n)"
  proof -
    have "0 < ?n" using n by linarith
    then have "(0::real) \<noteq> real ?n" by simp
    then show ?thesis by (simp add: drawChart_view_toScreen affine_two_points del: applyToPoint_eq betweenBasesAR1_m)
  qed
  have "w * real i / real ?n < w * real i / real (?n - 1)"
    using n w i by (simp add: of_nat_diff frac_less2)
  then show ?thesis using x v by simp
qed


theorem drawLine_within_extent_witness:
  "SegmentTree [Some [JNum (Num 1), JNum (Num 3)]] = Inr [\<lparr>mm_min = Num 1, mm_max = Num 3\<rparr>]
   \<and> drawLine 1 [Some [JNum (Num 1), JNum (Num 3)]] = Inr [Some (0, Num 3)]
   \<and> js_le (mm_min (getMinMax [\<lparr>mm_min = Num 1, mm_max = Num 3\<rparr>] 0 0)) (Num 3)
   \<and> js_le (Num 3) (mm_max (getMinMax [\<lparr>mm_min = Num 1, mm_max = Num 3\<rparr>] 0 0))"
proof -
  have t: "SegmentTree [Some [JNum (Num 1), JNum (Num 3)]] = Inr [\<lparr>mm_min = Num 1, mm_max = Num 3\<rparr>]"
    by code_simp
  have d: "drawLine 1 [Some [JNum (Num 1), JNum (Num 3)]] = Inr [Some (0, Num 3)]"
    by code_simp
  show ?thesis
    using drawLine_within_extent [OF t _ d, of "(0, Num 3)"] t d by simp
qed

theorem initial_view_x_misaligned_witness:
  "toScreen (drawChart_view 6 1 (length [(), (), ()]) 0 1) X (real (1::nat)) = Inr 2
   \<and> applyToPoint (xScale (chart_init (Some 0) 1 [(), (), ()]) 6)
        (date_num (calcDate (chart_init (Some 0) 1 [(), (), ()]) (int 1) (Some 0))) = Num 3"
  using initial_view_x_misaligned [of "[(), (), ()]" 1 6 1 0 1 0 1]
  by (simp add: date_limit_def)

end
