(* ===== verification/ChartInstance.thy ===== *)
theory ChartInstance
  imports Render
begin

text \<open>
  A \<open>TimeSeriesChart\<close> instance of src/draw.ts as its callers see it: the
  chart state of Chart.thy together with the segment tree over its rows
  (\<open>this.tree\<close>, rebuilt by \<open>updateChartWithNewData\<close> at line 69), the
  vertical scale \<open>this.chart.y\<close> and the size set by \<open>drawChart\<close>, the
  throttle of \<open>zoom\<close> (a \<open>drawProc\<close> of its own, line 74) and the view's
  \<open>transform\<close> attribute that \<open>zoom\<close> writes (line 92). The rows are
  JavaScript arrays (SegmentTuple.thy). A d3 linear scale with domain
  \<open>[d0, d1]\<close> and range \<open>[r0, r1]\<close> is the affine map solved from the one
  to the other, \<open>betweenBasesAR1\<close>. What \<open>zoomTransform.rescaleX(x)\<close>
  (d3-zoom) returns is supplied by the caller of the zoom timer.
\<close>

record inst =
  ch :: "row chart"
  tree :: "IMinMax list"
  yScale :: "jsnum AR1"
  width :: real
  height :: real
  zoomThr :: "zoom_transform list throttle"
  viewAttr :: "(real \<times> jsnum \<times> real \<times> jsnum) option"
  paths :: "(real \<times> jsnum) option list list"

text \<open>
  The constructor with the state-setting lines of \<open>drawChart\<close>: the tree
  over the rows (line 127, which throws if a row is \<open>undefined\<close>), the
  extent of the whole tree (line 130), the y scale from it to
  \<open>[height, 0]\<close> (lines 108, 131) and the two paths (lines 133-138).
  \<open>tree.size - 1\<close> is \<open>-1\<close> for no rows, where the query is empty
  either way.
\<close>

definition inst_init :: "date \<Rightarrow> int \<Rightarrow> row list \<Rightarrow> real \<Rightarrow> real \<Rightarrow> js_error + inst" where
  "inst_init minX0 stepX0 rows w h =
     (case SegmentTree rows of
        Inl e \<Rightarrow> Inl e
      | Inr ls \<Rightarrow>
          (let minMax = getMinMax ls 0 (length ls - 1)
           in case drawChart_paths rows of
                Inl e \<Rightarrow> Inl e
              | Inr ps \<Rightarrow>
                  Inr \<lparr>ch = chart_init minX0 stepX0 rows, tree = ls,
                       yScale = betweenBasesAR1 (mm_min minMax, mm_max minMax) (Num h, Num 0),
                       width = w, height = h, zoomThr = throttle_init, viewAttr = None, paths = ps\<rparr>))"

text \<open>
  \<open>updateChartWithNewData\<close> with its tree rebuild: the counter, the push and
  the shift happen first; if the rebuild throws, the redraw is not requested.
\<close>

definition inst_update :: "inst \<Rightarrow> row \<Rightarrow> js_error option \<times> inst" where
  "inst_update i newData =
     (let c = ch i;
          c3 = c\<lparr>missedStepsCount := missedStepsCount c + 1, data := tl (data c @ [newData])\<rparr>
      in case SegmentTree (data c3) of
           Inl e \<Rightarrow> (Some e, i\<lparr>ch := c3\<rparr>)
         | Inr ls \<Rightarrow> (None, i\<lparr>ch := updateChartWithNewData c newData, tree := ls\<rparr>))"

text \<open>
  Lines 83-89 of \<open>zoom\<close>: the indices of the zoomed window, the tree's
  extent over them, and the vertical scale and translation; the range of
  \<open>this.chart.y\<close> is \<open>[height, 0]\<close>.
\<close>

definition zoom_vertical :: "'r chart \<Rightarrow> IMinMax list \<Rightarrow> jsnum AR1 \<Rightarrow> real \<Rightarrow> date pair \<Rightarrow> jsnum pair" where
  "zoom_vertical c leaves y h domainX =
     (let ySubInterval = getZoomIntervalY c domainX (length (data c));
          minMax = getMinMax leaves (fst ySubInterval) (snd ySubInterval)
      in zoomY y (Num h, Num 0) (mm_min minMax, mm_max minMax))"

text \<open>
  The body of \<open>zoom\<close>, run by its timer with the parameters of the call that
  scheduled it: \<open>param[0]\<close> is the transform; without one, reading
  \<open>zoomTransform.x\<close> (line 78) throws a TypeError. Otherwise \<open>rx\<close> becomes the
  rescaled scale (line 81) and the view's transform is set (line 92).
\<close>

definition zoom_body ::
  "inst \<Rightarrow> zoom_transform list \<Rightarrow> (zoom_transform \<Rightarrow> date pair) \<Rightarrow> js_error option \<times> inst" where
  "zoom_body i param rescaleX =
     (case param of
        [] \<Rightarrow> (Some TypeError, i)
      | zoomTransform # _ \<Rightarrow>
          (let translateX = zt_x zoomTransform;
               scaleX = zt_k zoomTransform;
               domainX = rescaleX zoomTransform;
               c1 = (ch i)\<lparr>rxDomain := domainX\<rparr>;
               sy = zoom_vertical c1 (tree i) (yScale i) (height i) domainX
           in (None, i\<lparr>ch := c1, viewAttr := Some (translateX, snd sy, scaleX, fst sy)\<rparr>)))"

text \<open>\<open>this.zoom(...params)\<close>: the throttle's call.\<close>

definition inst_zoom_call :: "inst \<Rightarrow> zoom_transform list \<Rightarrow> inst" where
  "inst_zoom_call i params = i\<lparr>zoomThr := drawProc_call (zoomThr i) params\<rparr>"

text \<open>The timer of the \<open>zoom\<close> throttle fires.\<close>

definition inst_zoom_fire :: "inst \<Rightarrow> (zoom_transform \<Rightarrow> date pair) \<Rightarrow> js_error option \<times> inst" where
  "inst_zoom_fire i rescaleX =
     (case drawProc_fire (zoomThr i) of
        (None, t) \<Rightarrow> (None, i\<lparr>zoomThr := t\<rparr>)
      | (Some params, t) \<Rightarrow> zoom_body (i\<lparr>zoomThr := t\<rparr>) params rescaleX)"

text \<open>
  The timer of the \<open>drawNewData\<close> throttle fires: when its callback runs,
  the body up to line 195 (Chart.thy), then the paths are redrawn from the
  current rows (line 196); if that throws, lines 198-199 are skipped and
  \<open>rx\<close> keeps its domain.
\<close>

definition inst_draw_fire :: "inst \<Rightarrow> js_error option \<times> inst" where
  "inst_draw_fire i =
     (case drawProc_fire (drawNewDataThrottle (ch i)) of
        (None, t) \<Rightarrow> (None, i\<lparr>ch := (ch i)\<lparr>drawNewDataThrottle := t\<rparr>\<rparr>)
      | (Some _, t) \<Rightarrow>
          (let c = drawNewData_body ((ch i)\<lparr>drawNewDataThrottle := t\<rparr>)
           in case drawChart_paths (data c) of
                Inl e \<Rightarrow> (Some e, i\<lparr>ch := c\<lparr>rxDomain := rxDomain (ch i)\<rparr>\<rparr>)
              | Inr ps \<Rightarrow> (None, i\<lparr>ch := c, paths := ps\<rparr>)))"

text \<open>
  The abstract specification of the vertical extent \<open>zoom\<close> computes:
  the bound of the valid samples (NaN and missing cells excluded) of exactly
  the rows whose dates lie in the zoomed window.
\<close>

definition visible_extent :: "row chart \<Rightarrow> date pair \<Rightarrow> IMinMax" where
  "visible_extent c domainX =
     leaf_spec (concat (map (\<lambda>k. row_cells (the (data c ! k)))
                          (filter (zoom_in_range c domainX) [0..<length (data c)])))"

subsection \<open>Steps of an instance\<close>

lemma SegmentTree_no_undefined: "None \<notin> set rows \<Longrightarrow> \<exists>ls. SegmentTree rows = Inr ls"
  by (simp add: SegmentTree_spec)


lemma inst_update_ok:
  "SegmentTree (tl (data (ch c) @ [r])) = Inr ls \<Longrightarrow>
   inst_update c r = (None, c\<lparr>ch := updateChartWithNewData (ch c) r, tree := ls\<rparr>)"
  by (simp add: inst_update_def Let_def)

lemma drawNewData_body_data [simp]: "data (drawNewData_body c) = data c"
  by (simp add: drawNewData_body_def Let_def)

text \<open>On rows without an \<open>undefined\<close> one the redraw throws nothing: it is the chart's timer with the paths redrawn when the body runs.\<close>

lemma inst_draw_fire_ok:
  assumes "None \<notin> set (data (ch i))"
  shows "inst_draw_fire i =
           (None, i\<lparr>ch := chart_fire (ch i),
                     paths := (if pending (drawNewDataThrottle (ch i)) = [] then paths i
                               else projr (drawChart_paths (data (ch i))))\<rparr>)"
  using assms
  by (simp add: inst_draw_fire_def chart_fire_def drawProc_fire_def drawChart_paths_spec Let_def
           split: list.splits)

lemma inst_zoom_fire_unparametrised:
  assumes "throttle_inv (zoomThr c)" and "\<forall>p\<in>set (pending (zoomThr c)). p = []"
  shows "inst_zoom_fire c r =
           (if requested (zoomThr c)
            then (Some TypeError, c\<lparr>zoomThr := (zoomThr c)\<lparr>requested := False, pending := []\<rparr>\<rparr>)
            else (None, c))"
proof (cases "requested (zoomThr c)")
  case True
  then have "pending (zoomThr c) = [[]]"
    using assms by (cases "pending (zoomThr c)") (auto simp: throttle_inv_def)
  then show ?thesis using True by (simp add: inst_zoom_fire_def drawProc_fire_def zoom_body_def)
next
  case False
  then have "pending (zoomThr c) = []" using assms(1) by (simp add: throttle_inv_def)
  then show ?thesis using False by (simp add: inst_zoom_fire_def drawProc_fire_def)
qed

lemma zoom_query_visible_extent:
  assumes t: "SegmentTree (data c) = Inr ls"
    and nn: "\<forall>r. Some r \<in> set (data c) \<longrightarrow> JNull \<notin> set (row_cells r)"
    and s: "0 \<le> stepX c"
  shows "getMinMax ls (fst (getZoomIntervalY c d (length (data c)))) (snd (getZoomIntervalY c d (length (data c))))
         = visible_extent c d"
proof (cases "{k. k < length (data c) \<and> zoom_in_range c d k} = {}")
  case True
  have g: "getZoomIntervalY c d (length (data c)) = (length (data c), 0)"
    unfolding getZoomIntervalY_def using True by (subst zoom_fold) simp_all
  have f: "filter (zoom_in_range c d) [0..<length (data c)] = []"
    using True by (auto simp: filter_empty_conv)
  have "length ls = length (data c)" using t by (auto simp: SegmentTree_spec split: if_splits)
  then have e: "[length (data c)..<min (Suc 0) (length ls)] = []" by simp
  show ?thesis unfolding g getMinMax_def fst_conv snd_conv
    by (subst e) (simp add: visible_extent_def f leaf_spec_def valid_samples_def)
next
  case False
  let ?S = "{k. k < length (data c) \<and> zoom_in_range c d k}"
  have g: "getZoomIntervalY c d (length (data c)) = (Min ?S, Max ?S)"
    unfolding getZoomIntervalY_def by (subst zoom_fold) (simp_all only: if_not_P [OF False] order_refl)
  have "Max ?S < length (data c)" using zoom_interval_set_bounds [OF False] by (simp del: Max_less_iff)
  then show ?thesis unfolding g visible_extent_def filter_in_range [OF s False]
    using getMinMax_as_leaf_spec [OF t nn] by simp
qed

lemma tl_snoc_None: "rows \<noteq> [] \<Longrightarrow> None \<in> set (tl (rows @ [None]))"
  by (cases rows) simp_all

lemma inst_update_undefined:
  assumes "None \<in> set (tl (data (ch i) @ [r]))"
  shows "inst_update i r =
           (Some TypeError, i\<lparr>ch := (ch i)\<lparr>missedStepsCount := Suc (missedStepsCount (ch i)),
                                             data := tl (data (ch i) @ [r])\<rparr>\<rparr>)"
  using assms by (simp add: inst_update_def Let_def SegmentTree_spec)

subsection \<open>Properties of an instance\<close>

text \<open>
  C21: \<open>zoom\<close> refines its specification: with a transform, on a chart whose
  tree is the tree of its rows, which have no \<open>null\<close> cell, and whose
  step is not negative, the body sets \<open>rx\<close> to the rescaled domain and the
  view's transform to the zoom's translation and scale and to the vertical
  transform computed from the bound of the valid samples of exactly the rows
  visible in the window.
\<close>

theorem zoom_body_refines_spec:
  assumes "SegmentTree (data (ch i)) = Inr (tree i)"
    and "\<forall>r. Some r \<in> set (data (ch i)) \<longrightarrow> JNull \<notin> set (row_cells r)"
    and "0 \<le> stepX (ch i)"
  shows "zoom_body i (z # zs) rescaleX =
           (None, i\<lparr>ch := (ch i)\<lparr>rxDomain := rescaleX z\<rparr>,
                     viewAttr := Some (zt_x z,
                       snd (zoomY (yScale i) (Num (height i), Num 0)
                              (mm_min (visible_extent (ch i) (rescaleX z)), mm_max (visible_extent (ch i) (rescaleX z)))),
                       zt_k z,
                       fst (zoomY (yScale i) (Num (height i), Num 0)
                              (mm_min (visible_extent (ch i) (rescaleX z)), mm_max (visible_extent (ch i) (rescaleX z)))))\<rparr>)"
  using zoom_query_visible_extent [OF assms, of "rescaleX z"]
  by (simp add: zoom_body_def zoom_vertical_def Let_def)


text \<open>
  C32: An \<open>undefined\<close> row stalls a chart: \<open>updateChartWithNewData(undefined)\<close>
  counts the step and pushes and shifts the rows before the tree rebuild
  (line 69) throws, so the tree is stale, no redraw is requested for the
  step, the next update throws too while the row is in the window, and a
  redraw already scheduled throws at line 196 and leaves \<open>rx\<close> unshifted.
\<close>

theorem undefined_row_stalls_chart:
  assumes "data (ch i) \<noteq> []"
  shows "fst (inst_update i None) = Some TypeError
       \<and> tree (snd (inst_update i None)) = tree i
       \<and> missedStepsCount (ch (snd (inst_update i None))) = Suc (missedStepsCount (ch i))
       \<and> drawNewDataThrottle (ch (snd (inst_update i None))) = drawNewDataThrottle (ch i)
       \<and> (2 \<le> length (data (ch i)) \<longrightarrow> fst (inst_update (snd (inst_update i None)) r) = Some TypeError)
       \<and> (pending (drawNewDataThrottle (ch i)) \<noteq> [] \<longrightarrow>
            fst (inst_draw_fire (snd (inst_update i None))) = Some TypeError
          \<and> rxDomain (ch (snd (inst_draw_fire (snd (inst_update i None))))) = rxDomain (ch i))"
proof -
  let ?i = "snd (inst_update i None)" and ?d = "tl (data (ch i) @ [None])"
  have u: "inst_update i None =
           (Some TypeError, i\<lparr>ch := (ch i)\<lparr>missedStepsCount := Suc (missedStepsCount (ch i)), data := ?d\<rparr>\<rparr>)"
    using inst_update_undefined tl_snoc_None [OF assms] by blast
  have n: "None \<in> set (data (ch ?i))" using u tl_snoc_None [OF assms] by simp
  have nxt: "fst (inst_update ?i r) = Some TypeError" if len: "2 \<le> length (data (ch i))"
  proof -
    obtain x y ys where "data (ch i) = x # y # ys"
      by (cases "data (ch i)" rule: remdups_adj.cases) (use len in auto)
    then have "None \<in> set (tl (data (ch ?i) @ [r]))" using u by simp
    then show ?thesis by (simp add: inst_update_undefined)
  qed
  have fire: "fst (inst_draw_fire ?i) = Some TypeError \<and> rxDomain (ch (snd (inst_draw_fire ?i))) = rxDomain (ch i)"
    if pd: "pending (drawNewDataThrottle (ch i)) \<noteq> []"
  proof -
    obtain p ps where "pending (drawNewDataThrottle (ch i)) = p # ps" using pd by (cases "pending (drawNewDataThrottle (ch i))") auto
    then show ?thesis using u n
      by (simp add: inst_draw_fire_def drawProc_fire_def drawChart_paths_spec Let_def)
  qed
  show ?thesis using u nxt fire by simp
qed

subsection \<open>Witnesses\<close>

theorem zoom_body_refines_spec_witness:
  "SegmentTree (data (ch (projr (inst_init (Some 0) 86400000 [Some [JNum (Num 1), JNum (Num 5)], Some [JNum (Num 3), JNum NaN]] 800 100))))
     = Inr (tree (projr (inst_init (Some 0) 86400000 [Some [JNum (Num 1), JNum (Num 5)], Some [JNum (Num 3), JNum NaN]] 800 100)))
   \<and> visible_extent (ch (projr (inst_init (Some 0) 86400000 [Some [JNum (Num 1), JNum (Num 5)], Some [JNum (Num 3), JNum NaN]] 800 100)))
       (Some 0, Some 0) = \<lparr>mm_min = Num 1, mm_max = Num 5\<rparr>
   \<and> fst (zoom_body (projr (inst_init (Some 0) 86400000 [Some [JNum (Num 1), JNum (Num 5)], Some [JNum (Num 3), JNum NaN]] 800 100))
         [(1, 0, 0)] (\<lambda>_. (Some 0, Some 0))) = None"
proof -
  let ?i = "projr (inst_init (Some 0) 86400000 [Some [JNum (Num 1), JNum (Num 5)], Some [JNum (Num 3), JNum NaN]] 800 100)"
  have t: "SegmentTree (data (ch ?i)) = Inr (tree ?i)"
    by (simp add: inst_init_def drawChart_paths_spec SegmentTree_def upt_rec buildSegmentTreeTuple_def cell_def row_cell_def
                  isNaN_def js_isNaN_def Let_def chart_init_def)
  have n: "\<forall>r. Some r \<in> set (data (ch ?i)) \<longrightarrow> JNull \<notin> set (row_cells r)"
    by (auto simp: inst_init_def drawChart_paths_spec SegmentTree_def upt_rec buildSegmentTreeTuple_def cell_def row_cell_def
                   isNaN_def js_isNaN_def Let_def chart_init_def row_cells_def)
  have s: "0 \<le> stepX (ch ?i)"
    by (simp add: inst_init_def drawChart_paths_spec SegmentTree_def upt_rec buildSegmentTreeTuple_def cell_def row_cell_def
                  isNaN_def js_isNaN_def Let_def chart_init_def)
  have v: "visible_extent (ch ?i) (Some 0, Some 0) = \<lparr>mm_min = Num 1, mm_max = Num 5\<rparr>"
    by (simp add: inst_init_def drawChart_paths_spec SegmentTree_def upt_rec buildSegmentTreeTuple_def cell_def row_cell_def
                  isNaN_def js_isNaN_def Let_def chart_init_def visible_extent_def zoom_in_range_def calcDate_def
                  timeClip_def date_limit_def date_ge_def date_le_def row_cells_def leaf_spec_def valid_samples_def
                  mm_combine_def mm_empty_def Math_min_def Math_max_def)
  show ?thesis using t v zoom_body_refines_spec [OF t n s, of "(1, 0, 0)" "[]" "\<lambda>_. (Some 0, Some 0)"] by simp
qed


theorem undefined_row_stalls_chart_witness:
  "snd (inst_update (projr (inst_init (Some 0) 1 [Some [JNum (Num 1)], Some [JNum (Num 2)]] 10 10)) (Some [JNum (Num 3)]))
     = snd (inst_update (projr (inst_init (Some 0) 1 [Some [JNum (Num 1)], Some [JNum (Num 2)]] 10 10)) (Some [JNum (Num 3)]))
   \<and> fst (inst_draw_fire (snd (inst_update (snd (inst_update
        (projr (inst_init (Some 0) 1 [Some [JNum (Num 1)], Some [JNum (Num 2)]] 10 10)) (Some [JNum (Num 3)]))) None)))
     = Some TypeError"
proof -
  let ?i = "snd (inst_update (projr (inst_init (Some 0) 1 [Some [JNum (Num 1)], Some [JNum (Num 2)]] 10 10)) (Some [JNum (Num 3)]))"
  have d: "data (ch ?i) = [Some [JNum (Num 2)], Some [JNum (Num 3)]]" by code_simp
  have p: "pending (drawNewDataThrottle (ch ?i)) = [()]" by code_simp
  show ?thesis using undefined_row_stalls_chart [of ?i] d p by simp
qed

end
