(* ===== verification/Demo.thy ===== *)
theory Demo
  imports ChartInstance
begin

text \<open>
  The demo driver \<open>drawCharts(data)\<close> of src/demos/common.ts: every
  selected svg gets a \<open>TimeSeriesChart\<close> over a copy of \<open>data\<close> starting
  at \<open>Date.now()\<close> with a step of one day; every five seconds the next row
  of \<open>data\<close>, cyclically, is fed to every chart; the zoom handler of every
  chart is \<open>onZoom\<close>, which calls \<open>zoom()\<close> on every chart. The samples
  of \<open>data\<close> are JavaScript arrays (never \<open>undefined\<close>); \<open>data[j % 0]\<close> reads
  \<open>undefined\<close>. A run interleaves these callbacks with the charts' timers:
  \<open>DrawTimer k\<close> and \<open>ZoomTimer k r\<close> fire the oldest timer of chart \<open>k\<close>'s
  \<open>drawNewData\<close> and \<open>zoom\<close> throttles (\<open>r\<close> is d3's \<open>rescaleX\<close>). An
  exception ends the callback it escapes from, and the run goes on.
\<close>

record demo =
  charts :: "inst list"
  j :: nat
  demoData :: "jsval list list"


text \<open>\<open>onSelectChart\<close>: construct a chart over \<open>data.map(_ => _)\<close> and push it.\<close>

definition onSelectChart :: "demo \<Rightarrow> int \<Rightarrow> real \<Rightarrow> real \<Rightarrow> js_error option \<times> demo" where
  "onSelectChart d now w h =
     (case inst_init (Some now) 86400000 (map Some (demoData d)) w h of
        Inl e \<Rightarrow> (Some e, d)
      | Inr c \<Rightarrow> (None, d\<lparr>charts := charts d @ [c]\<rparr>))"

text \<open>
  \<open>selectAll('svg').select(onSelectChart)\<close> (line 31): d3 calls
  \<open>onSelectChart\<close> on each svg in document order, each call reading
  \<open>Date.now()\<close> and its svg's size; an exception stops the rest.
\<close>

fun selectCharts :: "demo \<Rightarrow> (int \<times> real \<times> real) list \<Rightarrow> js_error option \<times> demo" where
  "selectCharts d [] = (None, d)"
| "selectCharts d ((now, w, h) # svgs) =
     (case onSelectChart d now w h of
        (Some e, d') \<Rightarrow> (Some e, d')
      | (None, d') \<Rightarrow> selectCharts d' svgs)"












subsection \<open>The invariant is kept\<close>








lemma onSelectChart_data [simp]: "demoData (snd (onSelectChart d now w h)) = demoData d"
  by (simp add: onSelectChart_def split: sum.splits)

lemma selectCharts_data [simp]: "demoData (snd (selectCharts d svgs)) = demoData d"
  by (induction d svgs rule: selectCharts.induct) (auto simp: onSelectChart_def split: prod.splits option.splits sum.splits)





text \<open>The start-up never throws: one chart per svg, since the rows are the samples, none \<open>undefined\<close>.\<close>

lemma onSelectChart_ok:
  "fst (onSelectChart d now w h) = None \<and> length (charts (snd (onSelectChart d now w h))) = Suc (length (charts d))"
proof -
  have "\<exists>c. inst_init (Some now) 86400000 (map Some (demoData d)) w h = Inr c"
    by (auto simp: inst_init_def SegmentTree_spec drawChart_paths_spec Let_def)
  then show ?thesis by (auto simp: onSelectChart_def)
qed

lemma selectCharts_ok:
  "fst (selectCharts d svgs) = None \<and> length (charts (snd (selectCharts d svgs))) = length (charts d) + length svgs"
proof (induction d svgs rule: selectCharts.induct)
  case (1 d)
  then show ?case by simp
next
  case (2 d now w h svgs)
  obtain d' where o: "onSelectChart d now w h = (None, d')" "length (charts d') = Suc (length (charts d))"
    using onSelectChart_ok [of d now w h] by (cases "onSelectChart d now w h") auto
  then show ?case using "2.IH" [OF o(1) [symmetric]] by simp
qed






subsection \<open>Properties of the demo\<close>





subsection \<open>Witnesses\<close>





end
