(* ===== verification/Bench.thy ===== *)
theory Bench
  imports ViewWindow DrawProc
begin

text \<open>
  The pan benchmark src/benchmarks/d3-pan-zoom-vwt/index.ts: a view mapper
  \<open>t\<close> (ViewWindow.thy) set up with \<open>setViewPort(width, width)\<close>, a zoom
  handler \<open>zoomed\<close> that records the latest distinct transform and requests a
  redraw, and the redraw \<open>draw\<close>, throttled to animation frames by the file's
  own \<open>drawProc\<close> (the same flag-and-queue closure as DrawProc.thy), which
  converts the pan offset to a model vector with \<open>vecToModel\<close> and moves the
  window by it. The circles it pans are the \<open>points\<close> of
  \<open>phyllotaxis\<close>. A d3 zoom transform is \<open>(k, x, y)\<close>; its \<open>toString()\<close>
  determines it, so the handler's string comparison is equality of the
  triples. A conversion error escapes the animation-frame callback after its
  flag is lowered: the run records it and goes on with the state the callback
  left.
\<close>

record bench =
  t :: mapper
  newZoom :: "zoom_transform option"
  newZoomX :: real
  zoomCount :: nat
  drawReq :: "unit throttle"

definition rr :: real where
  "rr = 500"

text \<open>
  The benchmark's points: \<open>range(2000).map(phyllotaxis(10))\<close> (line 11),
  the sunflower spiral of \<open>phyllotaxis(radius)\<close> (lines 60-69).
\<close>

definition phyllotaxis :: "real \<Rightarrow> nat \<Rightarrow> real \<times> real" where
  "phyllotaxis radius i =
     (let theta = pi * (3 - sqrt 5);
          r = radius * sqrt (real i);
          a = theta * real i
      in (r * cos a, r * sin a))"

definition points :: "(real \<times> real) list" where
  "points = map (phyllotaxis 10) [0..<2000]"

text \<open>\<open>vecToModel(screenVector)\<close>: two conversions of points and a difference.\<close>

definition vecToModel :: "mapper \<Rightarrow> real pair \<Rightarrow> mapper_error + real pair" where
  "vecToModel mp screenVector =
     (case fromScreenToModel mp screenVector of
        Inl e \<Rightarrow> Inl e
      | Inr m1 \<Rightarrow> (case fromScreenToModel mp (0, 0) of
                   Inl e \<Rightarrow> Inl e
                 | Inr m2 \<Rightarrow> Inr (fst m1 - fst m2, snd m1 - snd m2)))"

text \<open>The benchmark's \<open>drawProc(f)\<close> closure, called without parameters.\<close>

definition bench_drawProc_call :: "unit throttle \<Rightarrow> unit throttle" where
  "bench_drawProc_call s = drawProc_call s ()"

text \<open>The body of \<open>draw\<close>: pan the window by the model vector of \<open>(newZoomX, 0)\<close>.\<close>

definition draw_body :: "bench \<Rightarrow> mapper_error option \<times> bench" where
  "draw_body b =
     (case vecToModel (t b) (newZoomX b, 0) of
        Inl e \<Rightarrow> (Some e, b)
      | Inr modelVector \<Rightarrow>
          (None, b\<lparr>t := setViewWindow (t b) (- rr - fst modelVector) (rr - fst modelVector)
                                            (- rr - snd modelVector) (rr - snd modelVector)\<rparr>))"

text \<open>Module start-up: the viewport (line 43) and the first \<open>draw()\<close> (line 89).\<close>

definition bench_init :: "real \<Rightarrow> real \<Rightarrow> bench" where
  "bench_init width height =
     \<lparr>t = setViewPort mapper_init width width, newZoom = None, newZoomX = 0, zoomCount = 0,
      drawReq = bench_drawProc_call throttle_init\<rparr>"

definition zoomed :: "bench \<Rightarrow> zoom_transform \<Rightarrow> bench" where
  "zoomed b z =
     (let b1 = b\<lparr>zoomCount := zoomCount b + 1\<rparr>
      in if newZoom b1 \<noteq> Some z
         then b1\<lparr>newZoom := Some z, newZoomX := zt_x z, drawReq := bench_drawProc_call (drawReq b1)\<rparr>
         else b1)"

text \<open>An animation frame: the throttle's callback lowers the flag and runs \<open>draw\<close>.\<close>

definition bench_frame :: "bench \<Rightarrow> mapper_error option \<times> bench" where
  "bench_frame b =
     (case drawProc_fire (drawReq b) of
        (None, s) \<Rightarrow> (None, b\<lparr>drawReq := s\<rparr>)
      | (Some _, s) \<Rightarrow> draw_body (b\<lparr>drawReq := s\<rparr>))"

datatype bench_event = Zoomed zoom_transform | Frame

fun bench_step :: "bench \<Rightarrow> bench_event \<Rightarrow> mapper_error option \<times> bench" where
  "bench_step b (Zoomed z) = (None, zoomed b z)"
| "bench_step b Frame = bench_frame b"

fun bench_run :: "bench \<Rightarrow> bench_event list \<Rightarrow> mapper_error list \<times> bench" where
  "bench_run b [] = ([], b)"
| "bench_run b (e # es) =
     (case bench_step b e of
        (r, b') \<Rightarrow> (case bench_run b' es of
                     (errs, b'') \<Rightarrow> ((case r of None \<Rightarrow> errs | Some err \<Rightarrow> err # errs), b'')))"

text \<open>The handler's invariant: the recorded offset is the recorded transform's.\<close>

definition bench_inv :: "bench \<Rightarrow> bool" where
  "bench_inv b = (case newZoom b of None \<Rightarrow> True | Some z \<Rightarrow> newZoomX b = zt_x z)"

subsection \<open>Lemmas\<close>

lemma vecToModel_no_window:
  assumes "axis_coherent (xAxis mp)" and "viewWindow (xAxis mp) = None"
  shows "vecToModel mp v = Inl Uninitialized"
proof -
  have "toModelT (xAxis mp) = None" using assms by (simp add: axis_coherent_def split: option.splits)
  then show ?thesis by (simp add: vecToModel_def fromScreenToModel_def toModel_def)
qed

text \<open>The benchmark's mapper before any window is set.\<close>

definition no_window :: "bench \<Rightarrow> bool" where
  "no_window b =
     (axis_coherent (xAxis (t b)) \<and> viewWindow (xAxis (t b)) = None \<and> viewWindow (yAxis (t b)) = None)"

lemma no_window_init: "no_window (bench_init w h)"
  by (simp add: no_window_def bench_init_def setViewPort_def setViewport_def axis_recompute_def
                updateViewNode_def axis_coherent_def mapper_init_def axis_init_def)

lemma no_window_step:
  assumes "no_window b"
  shows "no_window (snd (bench_step b e)) \<and> fst (bench_step b e) \<in> {None, Some Uninitialized}"
proof (cases e)
  case (Zoomed z)
  then show ?thesis using assms by (simp add: zoomed_def Let_def no_window_def)
next
  case Frame
  have v: "vecToModel (t b) v = Inl Uninitialized" for v
    using assms by (intro vecToModel_no_window) (simp_all add: no_window_def)
  show ?thesis using Frame assms v
    by (auto simp: bench_frame_def draw_body_def no_window_def split: prod.splits option.splits)
qed

lemma no_window_run:
  "no_window b \<Longrightarrow> no_window (snd (bench_run b es)) \<and> set (fst (bench_run b es)) \<subseteq> {Uninitialized}"
proof (induction es arbitrary: b)
  case Nil
  then show ?case by simp
next
  case (Cons e es)
  obtain r b' where st: "bench_step b e = (r, b')" by (cases "bench_step b e")
  have nw: "no_window b'" and r: "r \<in> {None, Some Uninitialized}"
    using no_window_step [OF Cons.prems, of e] st by simp_all
  from Cons.IH [OF nw]
  have "no_window (snd (bench_run b' es)) \<and> set (fst (bench_run b' es)) \<subseteq> {Uninitialized}" .
  then show ?case using st r by (cases "bench_run b' es") (auto simp del: bench_step.simps)
qed

lemma zoomed_inv: "bench_inv b \<Longrightarrow> bench_inv (zoomed b z) \<and> newZoomX (zoomed b z) = zt_x z"
  by (auto simp: bench_inv_def zoomed_def Let_def)

lemma sqrt_lt_50: "i < 2000 \<Longrightarrow> sqrt (real i) < 50"
proof -
  assume "i < 2000"
  then have "real i < 50\<^sup>2" by simp
  then show ?thesis by (metis abs_of_nonneg real_sqrt_abs real_sqrt_less_mono zero_le_numeral)
qed

subsection \<open>Properties of the benchmark\<close>

text \<open>
  C27: Under the mapper's contract the benchmark never pans: its only window
  setter is reached after \<open>vecToModel\<close> converts points, which fails while
  no window is set, so every animation frame's \<open>draw\<close> throws
  Uninitialized, from the very first frame on, and the windows stay unset
  whatever the zoom events.
\<close>

theorem bench_never_pans:
  "viewWindow (xAxis (t (snd (bench_run (bench_init w h) es)))) = None
   \<and> viewWindow (yAxis (t (snd (bench_run (bench_init w h) es)))) = None
   \<and> set (fst (bench_run (bench_init w h) es)) \<subseteq> {Uninitialized}
   \<and> fst (bench_run (bench_init w h) [Frame]) = [Uninitialized]"
proof -
  have "no_window (snd (bench_run (bench_init w h) es)) \<and> set (fst (bench_run (bench_init w h) es)) \<subseteq> {Uninitialized}"
    by (rule no_window_run [OF no_window_init])
  moreover have "vecToModel (t (bench_init w h)) v = Inl Uninitialized" for v
    using no_window_init [of w h] by (intro vecToModel_no_window) (simp_all add: no_window_def)
  then have "fst (bench_run (bench_init w h) [Frame]) = [Uninitialized]"
    by (simp add: bench_frame_def draw_body_def bench_init_def bench_drawProc_call_def drawProc_call_def
                  drawProc_fire_def throttle_init_def)
  ultimately show ?thesis by (simp add: no_window_def)
qed


text \<open>
  Unlike the chart's throttle, the benchmark's redraw reads the offset when
  the frame runs: a burst of zoom events leaves the offset of the latest one,
  which the next frame pans by, and raises no error.
\<close>

theorem bench_latest_zoom_wins:
  "bench_inv b \<Longrightarrow> zs \<noteq> [] \<Longrightarrow>
     fst (bench_run b (map Zoomed zs)) = [] \<and> bench_inv (snd (bench_run b (map Zoomed zs)))
     \<and> newZoomX (snd (bench_run b (map Zoomed zs))) = zt_x (last zs)"
proof (induction zs arbitrary: b)
  case Nil
  then show ?case by simp
next
  case (Cons z zs)
  have inv: "bench_inv (zoomed b z)" and x: "newZoomX (zoomed b z) = zt_x z"
    using zoomed_inv [OF Cons.prems(1)] by simp_all
  show ?case
  proof (cases "zs = []")
    case True
    then show ?thesis using inv x by simp
  next
    case False
    then show ?thesis using Cons.IH [OF inv False] by (cases "bench_run (zoomed b z) (map Zoomed zs)") simp
  qed
qed


text \<open>
  Every one of the 2000 circles lies inside the window \<open>[-rr, rr]\<close> on
  both axes, and inside the disc of radius \<open>rr\<close>: the point of index
  \<open>i\<close> is at distance \<open>10 sqrt i < 500\<close> from the origin.
\<close>

theorem phyllotaxis_in_window:
  "\<forall>p\<in>set points. (fst p)\<^sup>2 + (snd p)\<^sup>2 < rr\<^sup>2 \<and> \<bar>fst p\<bar> < rr \<and> \<bar>snd p\<bar> < rr"
proof
  fix p assume "p \<in> set points"
  then obtain i where i: "i < 2000" and p: "p = phyllotaxis 10 i" by (auto simp: points_def)
  let ?r = "10 * sqrt (real i)" and ?a = "pi * (3 - sqrt 5) * real i"
  have r0: "0 \<le> ?r" by simp
  have r: "?r < rr" using sqrt_lt_50 [OF i] by (simp add: rr_def)
  have n: "(fst p)\<^sup>2 + (snd p)\<^sup>2 = ?r\<^sup>2"
    unfolding p phyllotaxis_def Let_def
    by (simp add: power_mult_distrib flip: distrib_left) 
  have "\<bar>fst p\<bar> \<le> ?r" "\<bar>snd p\<bar> \<le> ?r"
    unfolding p phyllotaxis_def Let_def using r0
    by (simp_all add: abs_mult mult_left_le)
  moreover have "?r\<^sup>2 < rr\<^sup>2" by (rule power_strict_mono [OF r r0]) simp
  ultimately show "(fst p)\<^sup>2 + (snd p)\<^sup>2 < rr\<^sup>2 \<and> \<bar>fst p\<bar> < rr \<and> \<bar>snd p\<bar> < rr"
    using n r by auto
qed

subsection \<open>Witnesses\<close>

theorem bench_latest_zoom_wins_witness:
  "bench_inv (bench_init 800 600) \<and> [(1, 10, 0), (1, 20, 0)] \<noteq> []
   \<and> newZoomX (snd (bench_run (bench_init 800 600) (map Zoomed [(1, 10, 0), (1, 20, 0)]))) = 20"
proof -
  have i: "bench_inv (bench_init 800 600)" by (simp add: bench_inv_def bench_init_def)
  have n: "[(1, 10, 0), (1, 20, 0)] \<noteq> ([] :: zoom_transform list)" by simp
  show ?thesis using i n bench_latest_zoom_wins [OF i n] by (simp add: zt_x_def)
qed

theorem phyllotaxis_in_window_witness:
  "phyllotaxis 10 1 \<in> set points \<and> \<bar>fst (phyllotaxis 10 1)\<bar> < 500"
proof -
  have m: "phyllotaxis 10 1 \<in> set points" by (auto simp: points_def)
  show ?thesis using m phyllotaxis_in_window by (auto simp: rr_def)
qed

end
