(* ===== verification/Spec2Isabelle.thy ===== *)
theory Spec2Isabelle
  imports ViewWindow Demo Bench
begin

text \<open>
  \<^bold>\<open>A verification library for svg-time-series.\<close>

  The program draws streaming time series with D3: an affine-transform core
  (src/viewZoomTransform.ts), a chart that receives one row per tick and
  redraws through a throttle (src/draw.ts), the demo's segment-tree leaf
  function and feed (src/demos/common.ts), and a pan benchmark that drives a
  view-window mapper (src/benchmarks/d3-pan-zoom-vwt/index.ts). The mapper
  (ViewWindowTransform.ts) and the segment tree (segmentTree.ts) are imported
  by these files but are not in the repository; they are modelled from the
  specification's contracts (sections 3, 4.3 and 6).

  \<^bold>\<open>Theories and what they model.\<close>
  \<^item> Prelude: shared type names (\<open>'n pair\<close>, time values and dates as
    \<open>int option\<close>), the mapper's error type, theorem collections.
  \<^item> JSNumber: JavaScript numbers as \<open>Num real | PosInf | NegInf | NaN\<close>
    with IEEE special-value rules for \<open>+ - * /\<close>, comparison, \<open>isNaN\<close>,
    \<open>Math.min\<close>, \<open>Math.max\<close>; finite results are exact (no rounding, no
    signed zero beyond the sign of a division by zero's infinity).
  \<^item> AR1 (viewZoomTransform.ts): \<open>class AR1\<close> as a record with
    \<open>composeWith\<close>, \<open>inverse_AR1\<close> (\<open>inverse\<close>), \<open>applyToPoint\<close>;
    \<open>AR1Basis\<close>, \<open>transformWith\<close>, \<open>bUnit\<close>, \<open>bPlaceholder\<close>,
    \<open>betweenBasesAR1\<close>, \<open>betweenTBasesAR1\<close>. Every operation is generic
    in the number type and is used at \<open>real\<close> (the algebra) and at
    \<open>jsnum\<close> (the degenerate cases).
  \<^item> SVGMatrix: \<open>applyToMatrixX\<close>/\<open>applyToMatrixY\<close> over the DOM matrix,
    whose \<open>translate\<close>, \<open>scaleNonUniform\<close>, \<open>multiply\<close> follow SVG 1.1.
  \<^item> ViewWindow (spec-modelled mapper): per-axis viewport and window bases as
    options, eager recomputation of both transforms and of the view matrix
    (\<open>setViewport\<close>, \<open>setWindow\<close>, \<open>setViewPort\<close>, \<open>setViewWindow\<close>),
    the conversions \<open>toScreen\<close>, \<open>toModel\<close>, \<open>modelDelta\<close>,
    \<open>fromScreenToModel\<close> returning \<open>Inl Uninitialized\<close> on an axis not
    yet Ready; a step function over \<open>mapper_event\<close>s and the inductive
    \<open>mapper_reachable\<close>.
  \<^item> DrawProc (draw.ts \<open>drawProc\<close>): the closure's flag and the queue of
    d3 timers with the parameters they captured; \<open>drawProc_call\<close>,
    \<open>drawProc_fire\<close>, runs over \<open>Call\<close>/\<open>Fire\<close> events, the inductive
    \<open>throttle_reachable\<close>.
  \<^item> Chart (draw.ts \<open>TimeSeriesChart\<close>): the fields \<open>minX\<close>, \<open>maxX\<close>,
    \<open>missedStepsCount\<close>, \<open>stepX\<close>, \<open>data\<close>, the x and rx domains and
    the redraw throttle; the constructor (\<open>chart_init\<close>),
    \<open>updateChartWithNewData\<close>, \<open>drawNewData\<close> (\<open>drawNewData_body\<close>
    run by \<open>chart_fire\<close> when its timer fires), \<open>calcDate\<close> with Date's
    TimeClip, \<open>getZoomIntervalY\<close> (its loop as a fold of \<open>zoomStep\<close>), and
    the vertical part of \<open>zoom\<close> (\<open>zoomY\<close>, \<open>zoomViewMatrix\<close>).
  \<^item> SegmentTuple (common.ts \<open>buildSegmentTreeTuple\<close>): cells as number,
    \<open>null\<close> or \<open>undefined\<close> with ToNumber; undefined rows throw TypeError;
    the spec-modelled tree (\<open>SegmentTree\<close>, \<open>getMinMax\<close>) as the min/max
    fold of its leaves over an index range.
  \<^item> Render (draw.ts \<open>drawChart\<close>, what is drawn): the points of the
    two paths of the line generator \<open>drawLine\<close> (\<open>drawLine_point\<close>,
    \<open>drawLine\<close>, \<open>drawChart_paths\<close>: a point or a gap per row, a
    TypeError on an \<open>undefined\<close> row), the time scale \<open>x\<close>
    (\<open>xScale\<close>, Dates as time values by \<open>date_num\<close>) and the initial
    view mapper \<open>pathTransform\<close> (\<open>drawChart_view\<close>, lines 157-160).
  \<^item> ChartInstance (draw.ts, a chart as its callers see it): the chart
    state with its segment tree (rebuilt by \<open>updateChartWithNewData\<close>,
    \<open>inst_update\<close>), the y scale, size and paths from \<open>drawChart\<close>
    (\<open>inst_init\<close>), \<open>drawNewData\<close> with its path redraw
    (\<open>inst_draw_fire\<close>), and \<open>zoom\<close>: its throttle (\<open>inst_zoom_call\<close>,
    \<open>inst_zoom_fire\<close>) and body (\<open>zoom_body\<close>, with \<open>zoom_vertical\<close> for
    lines 83-89); d3's \<open>rescaleX\<close> is an input of the zoom timer.
  \<^item> Demo (common.ts \<open>drawCharts\<close>): charts created per svg
    (\<open>onSelectChart\<close>, and \<open>selectCharts\<close> for the \<open>selectAll\<close> of
    line 31), the cyclic feed (\<open>feed_tick\<close>, \<open>feed_row\<close>,
    \<open>forEach_update\<close>), \<open>onZoom\<close>, \<open>onMouseMove\<close>, the charts' timers, as \<open>demo_step\<close>
    with runs and the inductive \<open>demo_reachable\<close>.
  \<^item> Bench (index.ts of the benchmark): module state, \<open>vecToModel\<close>,
    \<open>draw\<close> (\<open>draw_body\<close>), \<open>zoomed\<close>, its animation-frame throttle, runs
    over \<open>Zoomed\<close>/\<open>Frame\<close> events collecting the errors frames throw;
    the drawn \<open>points\<close> (\<open>phyllotaxis\<close>).
  \<^item> This theory: the properties spanning components.

  \<^bold>\<open>What is proved.\<close>
  AR1: \<open>composeWith\<close> and \<open>inverse_AR1\<close> refine composition (in application
  order) and inversion of the denoted functions; \<open>betweenTBasesAR1\<close> is the
  unique transform carrying one basis onto another, it composes through an
  intermediate basis and its inverse solves the other way; on JavaScript
  numbers a non-degenerate solve is exact, a degenerate one yields
  infinities and breaks the relabelling symmetry, and \<open>inverse\<close> of a zero
  scale does not fail. SVGMatrix: the adapters prepend the AR1 on their axis.
  ViewWindow: in every reachable state the conversions are exactly the
  transforms solved from the current bases (no stale transform) or
  \<open>Uninitialized\<close>; readiness after any run; round trips, translation-free
  deltas, latest window wins, the specification's scenarios. DrawProc: the
  one-timer invariant, first-call-wins coalescing, no request lost, bounds
  on how often the body runs. Chart: over any interleaving of updates and
  timers the data is a sliding window, \<open>minX\<close> lags by exactly the missed
  steps and a redraw is pending exactly while some are missed; after a
  redraw the domain spans the data; \<open>getZoomIntervalY\<close> is (Min, Max) of the
  in-range indices or \<open>(n, 0)\<close>, its \<open>for\<close> loop stops on every input,
  and its result is bounded by the number of rows; \<open>zoomY\<close> is right in pixel space but the
  view transform is applied to data-unit paths; degenerate extents give
  non-finite transforms. SegmentTuple: the query over code-built leaves
  refines the specification's aggregation for rows without \<open>null\<close>, a
  \<open>null\<close> cell counts as 0, the tree throws exactly on an undefined row,
  and every bound it holds is well formed. ChartInstance: the zoom body's
  query of the tree over \<open>getZoomIntervalY\<close>'s index range is the min/max
  of exactly the samples whose time lies in the zoom window
  (\<open>visible_extent\<close>, the component's abstract contract). Render and
  ChartInstance: every drawn point lies inside the tree's extent, the y
  domain; a \<open>null\<close> cell is not drawn but widens that domain to 0; the
  initial view window \<open>[0, data.length]\<close> puts sample \<open>i\<close> at
  \<open>w i / n\<close> where the x axis puts its date at \<open>w i / (n - 1)\<close>; and
  read with the specification's viewport rule the initial view is mirrored
  against the y axis. An \<open>undefined\<close> row stalls a chart: the update
  throws at the tree rebuild after counting the step and shifting the rows,
  so the tree is stale and no redraw is requested, the next update throws
  too, and a redraw already scheduled throws and leaves \<open>rx\<close> unshifted.
  Demo: the start-up creates one chart per svg and never throws; the feed never throws,
  keeps every chart's tree in step with its rows and slides each window by
  the cyclic samples; \<open>onZoom\<close> passes no transform, so every zoom timer
  throws and no chart ever zooms; a chart with no missed step shows the
  paths of its current rows and a redraw never throws.
  Bench: \<open>vecToModel\<close> is \<open>modelDelta\<close> per axis; the latest zoom wins;
  the 2000 \<open>phyllotaxis\<close> points all lie within \<open>rr\<close> of the origin;
  under the mapper's contract every frame throws and the view never pans.
  Across components: the view matrix agrees with \<open>toScreen\<close> on both axes,
  and a zoom window without samples ends in a NaN translation.

  \<^bold>\<open>Bounds and termination.\<close>
  Every loop of the code is a structural recursion or a fold over a finite
  list (the tree's leaves, \<open>forEach\<close>, event runs), so those definitions
  are total and executable and no fuel is needed. \<open>getZoomIntervalY\<close>'s
  counting loop is kept as a loop too (\<open>getZoomIntervalY_loop\<close>, a
  \<open>while_option\<close> that would be \<open>None\<close> if it ran forever) and is proved
  to return, with the counter's distance to \<open>intervalSize\<close> as measure. Time
  values are integers (\<open>stepX\<close> is an integer number of milliseconds)
  bounded by TimeClip's \<open>8.64e15 < 2^53\<close>, so they are exact doubles.

  \<^bold>\<open>Not modelled.\<close>
  The DOM and D3 output: the SVG path strings d3's line generator builds
  from the modelled points, the axes (MyAxis, src/axis.ts, is not in the
  repository), selections, the zoom behaviour's event wiring and d3-zoom's
  \<open>rescaleX\<close> (an input of the zoom timer); \<open>measure\<close>/\<open>measureAll\<close>
  (not in the repository); the pointer position read by \<open>onMouseMove\<close>,
  whose only effect is the TypeError. The zoom behaviour's configuration (draw.ts
  lines 152-155: \<open>scaleExtent\<close>, \<open>translateExtent\<close>) only shapes the
  transforms d3-zoom hands to \<open>zoom\<close>, which are inputs here, and in the
  demo no transform reaches \<open>zoom\<close> at all. The interface
  \<open>IChartParameters\<close> (lines 11-24) is the shape of \<open>this.chart\<close>; its
  fields that computations read are in the records \<open>chart\<close> and \<open>inst\<close>,
  the rest (axes, selections, \<open>gX\<close>, \<open>gY\<close>) are DOM handles. D3 scales are taken as the affine map
  from their domain to their range, which is d3's on a non-degenerate
  domain; on a degenerate one d3's versions differ (first range value, or
  the midpoint) and the repository pins none, so no property depends on it.
  The view mapper \<open>drawChart_view\<close> computes on reals: the tree's extent
  is taken finite where it is used. Its Y orientation follows the
  specification's rule for \<open>setViewport\<close> (first point to first point),
  which is an assumption about a file not in the repository.
  Floating-point rounding and signed zero are not modelled: finite
  arithmetic is exact, so the laws hold up to the rounding the
  specification allows.
\<close>

subsection \<open>Properties across components\<close>

lemma transformPoint_updateViewNode_matrix:
  "transformPoint (applyToMatrixY ty (applyToMatrixX tx identity_matrix)) (x, y) =
     (applyToPoint tx x, applyToPoint (ty :: real AR1) y)"
  by (simp add: transformPoint_def identity_matrix_def)

text \<open>
  C26: The view's matrix agrees with the conversions: in every reachable state
  of the mapper in which both axes convert, the matrix it maintains on the
  view node (through \<open>applyToMatrixX\<close> and \<open>applyToMatrixY\<close>) maps a model
  point to the pair of its per-axis screen coordinates.
\<close>

theorem view_matrix_agrees:
  assumes "mapper_reachable mp" and "toScreen mp X x = Inr sx" and "toScreen mp Y y = Inr sy"
  shows "transformPoint (viewMatrix mp) (x, y) = (sx, sy)"
proof -
  have c: "matrix_coherent mp" using reachable_coherent [OF assms(1)] by (simp add: mapper_coherent_def)
  obtain tx where tx: "toScreenT (xAxis mp) = Some tx" and sx: "sx = applyToPoint tx x"
    using assms(2) by (cases "toScreenT (xAxis mp)") (simp_all add: toScreen_def del: applyToPoint_eq)
  obtain ty where ty: "toScreenT (yAxis mp) = Some ty" and sy: "sy = applyToPoint ty y"
    using assms(3) by (cases "toScreenT (yAxis mp)") (simp_all add: toScreen_def del: applyToPoint_eq)
  have "viewMatrix mp = applyToMatrixY ty (applyToMatrixX tx identity_matrix)"
    using c tx ty by (simp add: matrix_coherent_def del: applyToMatrixX_fields applyToMatrixY_fields)
  then show ?thesis by (simp only: transformPoint_updateViewNode_matrix sx sy)
qed

text \<open>
  C29: A zoomed window without samples ends in a NaN translation: the index
  interval is \<open>(n, 0)\<close>, the query over it is empty and answers the bound
  \<open>(Infinity, -Infinity)\<close>, and on a chart whose scale \<open>y\<close> is finite
  and not flat, \<open>zoom\<close> computes \<open>scaleY = 0\<close> and \<open>translateY = NaN\<close>.
\<close>

theorem zoom_vertical_empty_window:
  assumes "a \<noteq> 0" and "data c \<noteq> []"
    and "{i. i < length (data c) \<and> zoom_in_range c domainX i} = {}"
  shows "zoom_vertical c leaves \<lparr>m = (Num a, Num b)\<rparr> h domainX = (Num 0, NaN)"
proof -
  have z: "getZoomIntervalY c domainX (length (data c)) = (length (data c), 0)"
    using assms(3) unfolding getZoomIntervalY_def by (subst zoom_fold) simp_all
  have e: "[length (data c)..<min (Suc 0) (length leaves)] = []"
    using assms(2) by (cases "data c") simp_all
  have "getMinMax leaves (length (data c)) 0 = mm_empty"
    unfolding getMinMax_def by (subst e) simp
  then show ?thesis using z zoomY_empty_extent_js [OF assms(1)]
    by (simp add: zoom_vertical_def Let_def mm_empty_def)
qed

subsection \<open>Witnesses\<close>

theorem view_matrix_agrees_witness:
  "mapper_reachable (mapper_run mapper_init
      [SetViewport X 0 800, SetWindow X (-500) 500, SetViewport Y 0 600, SetWindow Y 0 100])
   \<and> toScreen (mapper_run mapper_init
      [SetViewport X 0 800, SetWindow X (-500) 500, SetViewport Y 0 600, SetWindow Y 0 100]) X 0 = Inr 400
   \<and> toScreen (mapper_run mapper_init
      [SetViewport X 0 800, SetWindow X (-500) 500, SetViewport Y 0 600, SetWindow Y 0 100]) Y 50 = Inr 300
   \<and> transformPoint (viewMatrix (mapper_run mapper_init
      [SetViewport X 0 800, SetWindow X (-500) 500, SetViewport Y 0 600, SetWindow Y 0 100])) (0, 50) = (400, 300)"
proof -
  let ?mp = "mapper_run mapper_init
      [SetViewport X 0 800, SetWindow X (-500) 500, SetViewport Y 0 600, SetWindow Y 0 100]"
  have r: "mapper_reachable ?mp" by (rule mapper_reachable_run)
  have sx: "toScreen ?mp X 0 = Inr 400" and sy: "toScreen ?mp Y 50 = Inr 300"
    by (simp_all add: setViewport_def setWindow_def axis_recompute_def updateViewNode_def toScreen_def
                      mapper_init_def axis_init_def)
  show ?thesis using r sx sy view_matrix_agrees [OF r sx sy] by simp
qed

theorem zoom_vertical_empty_window_witness:
  "(2 :: real) \<noteq> 0 \<and> data (chart_init (Some 0) 86400000 [(), (), ()]) \<noteq> []
   \<and> {i. i < length (data (chart_init (Some 0) 86400000 [(), (), ()]))
          \<and> zoom_in_range (chart_init (Some 0) 86400000 [(), (), ()]) (Some 103680000, Some 155520000) i} = {}
   \<and> zoom_vertical (chart_init (Some 0) 86400000 [(), (), ()]) [] \<lparr>m = (Num 2, Num 3)\<rparr> 100
       (Some 103680000, Some 155520000) = (Num 0, NaN)"
proof -
  let ?c = "chart_init (Some 0) 86400000 [(), (), ()]"
  have a: "(2 :: real) \<noteq> 0" by simp
  have d: "data ?c \<noteq> []" by (simp add: chart_init_def Let_def)
  have e: "{i. i < length (data ?c) \<and> zoom_in_range ?c (Some 103680000, Some 155520000) i} = {}"
  proof -
    have "\<not> zoom_in_range ?c (Some 103680000, Some 155520000) i" if "i < 3" for i
      using that
      by (auto simp: less_Suc_eq numeral_3_eq_3 zoom_in_range_def calcDate_def chart_init_def Let_def
                     timeClip_def date_limit_def date_ge_def date_le_def)
    then show ?thesis by (auto simp: chart_init_def Let_def)
  qed
  show ?thesis using a d e zoom_vertical_empty_window [OF a d e, of "[]" 3 100] by simp
qed

end
